theory Spec2Isabelle
  imports Complex_Main
begin

section \<open>Speech-to-text adapter: \<^verbatim>\<open>useSpeechToText\<close>\<close>

text \<open>
  The hook wraps the browser's speech-recognition engine. The browser is modelled by what
  the hook can observe of it: whether \<^verbatim>\<open>window.SpeechRecognition\<close> and
  \<^verbatim>\<open>window.webkitSpeechRecognition\<close> exist, and, for an engine that exists, whether
  its constructor or its \<^verbatim>\<open>start()\<close> throws (with the thrown value rendered by
  \<^verbatim>\<open>String(error)\<close>).

  The two refs of the hook (\<^verbatim>\<open>recognitionRef\<close>, \<^verbatim>\<open>isListeningRef\<close>) are
  fields of the state. The console and the two callbacks of the configuration are
  modelled by the list of calls they received, oldest first; a callback that is not
  configured (\<^verbatim>\<open>onError?.(...)\<close>) receives nothing. Callbacks are the caller's code
  and are taken not to throw.
\<close>

record SpeechEngine =
  constructor_throws :: "string option"
  start_throws :: "string option"

record SpeechWindow =
  SpeechRecognition :: "SpeechEngine option"
  webkitSpeechRecognition :: "SpeechEngine option"

record SpeechToTextConfig =
  language :: string
  continuous :: bool
  interimResults :: bool
  has_onTranscript :: bool
  has_onError :: bool

text \<open>The defaults of the destructured configuration.\<close>

definition defaultSpeechToTextConfig :: SpeechToTextConfig where
  "defaultSpeechToTextConfig =
     \<lparr>language = ''en-US'', continuous = False, interimResults = True,
      has_onTranscript = False, has_onError = False\<rparr>"

record Recognition =
  lang :: string
  rec_continuous :: bool
  rec_interimResults :: bool

record SpeechToText =
  recognitionRef :: "Recognition option"
  isListeningRef :: bool
  stt_console :: "string list"
  onError_calls :: "string list"
  onTranscript_calls :: "(string \<times> bool) list"
  engine_stop_calls :: nat

definition console_error :: "string \<Rightarrow> SpeechToText \<Rightarrow> SpeechToText" where
  "console_error m s = s\<lparr>stt_console := stt_console s @ [m]\<rparr>"

definition call_onError :: "SpeechToTextConfig \<Rightarrow> string \<Rightarrow> SpeechToText \<Rightarrow> SpeechToText" where
  "call_onError cfg m s =
     (if has_onError cfg then s\<lparr>onError_calls := onError_calls s @ [m]\<rparr> else s)"

definition call_onTranscript ::
  "SpeechToTextConfig \<Rightarrow> string \<Rightarrow> bool \<Rightarrow> SpeechToText \<Rightarrow> SpeechToText" where
  "call_onTranscript cfg t final s =
     (if has_onTranscript cfg
      then s\<lparr>onTranscript_calls := onTranscript_calls s @ [(t, final)]\<rparr> else s)"

text \<open>
  \<^verbatim>\<open>window.SpeechRecognition || window.webkitSpeechRecognition\<close>: a constructor is truthy,
  a missing property is \<^verbatim>\<open>undefined\<close>.
\<close>

definition lookupSpeechRecognition :: "SpeechWindow \<Rightarrow> SpeechEngine option" where
  "lookupSpeechRecognition w =
     (case SpeechRecognition w of Some e \<Rightarrow> Some e | None \<Rightarrow> webkitSpeechRecognition w)"

text \<open>
  The body of the \<^verbatim>\<open>try\<close> block: construct, configure, attach the handlers, start.
  \<open>Inl\<close> is the thrown value; the assignment to \<^verbatim>\<open>recognitionRef\<close> comes after
  \<^verbatim>\<open>start()\<close> and is not reached when it throws.
\<close>

definition tryStart :: "SpeechToTextConfig \<Rightarrow> SpeechEngine \<Rightarrow> string + Recognition" where
  "tryStart cfg e =
     (case constructor_throws e of
        Some err \<Rightarrow> Inl err
      | None \<Rightarrow>
          (case start_throws e of
             Some err \<Rightarrow> Inl err
           | None \<Rightarrow>
               Inr \<lparr>lang = language cfg, rec_continuous = continuous cfg,
                    rec_interimResults = interimResults cfg\<rparr>))"

definition startRecognition ::
  "SpeechToTextConfig \<Rightarrow> SpeechWindow \<Rightarrow> SpeechToText \<Rightarrow> bool \<times> SpeechToText" where
  "startRecognition cfg w s =
     (case lookupSpeechRecognition w of
        None \<Rightarrow>
          (let error = ''Speech recognition not supported in this browser''
           in (False, call_onError cfg error (console_error error s)))
      | Some e \<Rightarrow>
          (case tryStart cfg e of
             Inr recognition \<Rightarrow> (True, s\<lparr>recognitionRef := Some recognition\<rparr>)
           | Inl err \<Rightarrow>
               (False,
                call_onError cfg err
                  (console_error (''Failed to start speech recognition: '' @ err) s))))"

text \<open>The handlers attached to the engine, and the rest of the hook's interface.\<close>

definition recognition_onstart :: "SpeechToText \<Rightarrow> SpeechToText" where
  "recognition_onstart s = s\<lparr>isListeningRef := True\<rparr>"

definition recognition_onresult ::
  "SpeechToTextConfig \<Rightarrow> string \<Rightarrow> bool \<Rightarrow> SpeechToText \<Rightarrow> SpeechToText" where
  "recognition_onresult cfg transcript isFinal s = call_onTranscript cfg transcript isFinal s"

definition recognition_onerror ::
  "SpeechToTextConfig \<Rightarrow> string \<Rightarrow> SpeechToText \<Rightarrow> SpeechToText" where
  "recognition_onerror cfg err s =
     (call_onError cfg err (console_error (''Speech recognition error: '' @ err) s))
       \<lparr>isListeningRef := False\<rparr>"

definition recognition_onend :: "SpeechToText \<Rightarrow> SpeechToText" where
  "recognition_onend s = s\<lparr>isListeningRef := False\<rparr>"

definition stopRecognition :: "SpeechToText \<Rightarrow> SpeechToText" where
  "stopRecognition s =
     (if recognitionRef s \<noteq> None \<and> isListeningRef s
      then s\<lparr>engine_stop_calls := engine_stop_calls s + 1, recognitionRef := None,
             isListeningRef := False\<rparr>
      else s)"

definition isListening :: "SpeechToText \<Rightarrow> bool" where
  "isListening s = isListeningRef s"

definition engine_starts :: "SpeechEngine \<Rightarrow> bool" where
  "engine_starts e = (constructor_throws e = None \<and> start_throws e = None)"

section \<open>JavaScript values\<close>

text \<open>
  An inbound WebSocket message is untyped: whatever \<^verbatim>\<open>JSON.parse\<close> returns. \<open>jsval\<close>
  is the type of such values, with \<^verbatim>\<open>undefined\<close> added for the result of reading a
  property that is not there. A number is the real number it denotes (rounding to a
  double is not modelled, and a numeric literal of the source is the decimal it writes);
  \<^verbatim>\<open>NaN\<close>, the result of arithmetic on something that is not a number, is \<open>None\<close> in
  \<open>real option\<close>. An object is the list of its own properties, one binding per key.
\<close>

datatype jsval =
    JUndefined
  | JNull
  | JBool bool
  | JNum real
  | JStr string
  | JArr "jsval list"
  | JObj "(string \<times> jsval) list"

datatype js_error = SyntaxError | TypeError

fun truthy :: "jsval \<Rightarrow> bool" where
  "truthy JUndefined = False"
| "truthy JNull = False"
| "truthy (JBool b) = b"
| "truthy (JNum x) = (x \<noteq> 0)"
| "truthy (JStr s) = (s \<noteq> [])"
| "truthy (JArr xs) = True"
| "truthy (JObj kvs) = True"

fun nullish :: "jsval \<Rightarrow> bool" where
  "nullish JUndefined = True"
| "nullish JNull = True"
| "nullish v = False"

text \<open>
  \<^verbatim>\<open>a || b\<close> on values, and the decimal numeral of a natural number (the key of an
  array-style index read, and the digits of \<^verbatim>\<open>toFixed\<close>).
\<close>

definition js_or :: "jsval \<Rightarrow> jsval \<Rightarrow> jsval" where
  "js_or a b = (if truthy a then a else b)"

definition digit_char :: "nat \<Rightarrow> char" where
  "digit_char d = ''0123456789'' ! d"

fun show_nat :: "nat \<Rightarrow> string" where
  "show_nat n = (if n < 10 then [digit_char n] else show_nat (n div 10) @ [digit_char (n mod 10)])"

declare show_nat.simps [simp del]

text \<open>
  \<open>getProp v k\<close> is the read \<^verbatim>\<open>v.k\<close> on a receiver that is neither \<^verbatim>\<open>null\<close> nor
  \<^verbatim>\<open>undefined\<close>; every use below stands behind the same truthiness test as in the
  source, and the one unguarded read (\<^verbatim>\<open>response.type\<close>) is a branch of the dispatcher
  that raises \<open>TypeError\<close>. The names this program reads are own properties only:
  none of them is inherited from a prototype, except \<^verbatim>\<open>length\<close> of strings and arrays.
  \<open>optProp v k\<close> is \<^verbatim>\<open>v?.k\<close>, and \<open>index v i\<close> is \<^verbatim>\<open>v[i]\<close> for a number \<open>i\<close>.
\<close>

fun getProp :: "jsval \<Rightarrow> string \<Rightarrow> jsval" where
  "getProp (JObj kvs) k = (case map_of kvs k of Some v \<Rightarrow> v | None \<Rightarrow> JUndefined)"
| "getProp (JArr xs) k = (if k = ''length'' then JNum (real (length xs)) else JUndefined)"
| "getProp (JStr s) k = (if k = ''length'' then JNum (real (length s)) else JUndefined)"
| "getProp v k = JUndefined"

definition optProp :: "jsval \<Rightarrow> string \<Rightarrow> jsval" where
  "optProp v k = (if nullish v then JUndefined else getProp v k)"

fun index :: "jsval \<Rightarrow> nat \<Rightarrow> jsval" where
  "index (JArr xs) i = (if i < length xs then xs ! i else JUndefined)"
| "index (JStr s) i = (if i < length s then JStr [s ! i] else JUndefined)"
| "index (JObj kvs) i = getProp (JObj kvs) (show_nat i)"
| "index v i = JUndefined"

text \<open>
  \<^verbatim>\<open>ToNumber\<close>: exact on numbers, booleans, \<^verbatim>\<open>null\<close> and \<^verbatim>\<open>undefined\<close>. What the
  host makes of a string, an array or an object (parsing a numeral, \<^verbatim>\<open>ToPrimitive\<close>) is
  a parameter \<open>H\<close> of the model, so every theorem holds whatever the host does there.
  \<open>js_gt H v c\<close> is \<^verbatim>\<open>v > c\<close> for a numeric literal \<open>c\<close>; \<open>js_mul H v c\<close> is \<^verbatim>\<open>v * c\<close>.
\<close>

type_synonym host = "jsval \<Rightarrow> real option"

fun toNumber :: "host \<Rightarrow> jsval \<Rightarrow> real option" where
  "toNumber H (JNum x) = Some x"
| "toNumber H JUndefined = None"
| "toNumber H JNull = Some 0"
| "toNumber H (JBool b) = Some (if b then 1 else 0)"
| "toNumber H v = H v"

definition js_gt :: "host \<Rightarrow> jsval \<Rightarrow> real \<Rightarrow> bool" where
  "js_gt H v c = (case toNumber H v of Some x \<Rightarrow> x > c | None \<Rightarrow> False)"

definition js_mul :: "host \<Rightarrow> jsval \<Rightarrow> real \<Rightarrow> real option" where
  "js_mul H v c = (case toNumber H v of Some x \<Rightarrow> Some (x * c) | None \<Rightarrow> None)"

section \<open>Skeleton renderer: \<^verbatim>\<open>drawSkeleton\<close>\<close>

text \<open>
  The 2D context of the overlay canvas is modelled by the operations it receives, in
  order: method calls and assignments to its style properties. Coordinates are exact
  products; a coordinate that is \<^verbatim>\<open>NaN\<close> is \<open>None\<close>. The two angles of \<open>Arc\<close> are in
  units of \<open>\<pi>\<close>, so \<^verbatim>\<open>2 * Math.PI\<close> is 2.
\<close>

datatype canvas_op =
    ClearRect real real real real
  | SetStrokeStyle string
  | SetLineWidth real
  | SetShadowBlur real
  | SetShadowColor string
  | SetFillStyle string
  | BeginPath
  | MoveTo "real option" "real option"
  | LineTo "real option" "real option"
  | Stroke
  | Arc "real option" "real option" real real real
  | Fill

definition POSE_PAIRS :: "(nat \<times> nat) list" where
  "POSE_PAIRS =
     [(0, 1), (1, 2), (2, 3), (3, 4),
      (1, 5), (5, 6), (6, 7),
      (1, 8), (8, 9), (9, 10),
      (1, 11), (11, 12), (12, 13),
      (0, 14), (0, 15), (14, 16), (15, 17)]"

text \<open>
  The body of \<^verbatim>\<open>POSE_PAIRS.forEach(([i, j]) => ...)\<close>: the operations one pair issues.
\<close>

definition drawEdge :: "host \<Rightarrow> jsval \<Rightarrow> real \<Rightarrow> real \<Rightarrow> nat \<times> nat \<Rightarrow> canvas_op list" where
  "drawEdge H keypoints scaleX scaleY e =
     (let ptA = index keypoints (fst e); ptB = index keypoints (snd e)
      in if truthy ptA \<and> truthy ptB \<and> js_gt H (getProp ptA ''confidence'') 0.2
            \<and> js_gt H (getProp ptB ''confidence'') 0.2
         then [BeginPath,
               MoveTo (js_mul H (getProp ptA ''x'') scaleX) (js_mul H (getProp ptA ''y'') scaleY),
               LineTo (js_mul H (getProp ptB ''x'') scaleX) (js_mul H (getProp ptB ''y'') scaleY),
               Stroke]
         else [])"

text \<open>The colour of a keypoint: three bands of its confidence.\<close>

definition keypointColor :: "host \<Rightarrow> jsval \<Rightarrow> string" where
  "keypointColor H confidence =
     (if js_gt H confidence 0.7 then ''#ff0000''
      else if js_gt H confidence 0.5 then ''#ffff00''
      else ''#ff8800'')"

text \<open>The body of \<^verbatim>\<open>keypoints.forEach((point) => ...)\<close>.\<close>

definition drawPoint :: "host \<Rightarrow> real \<Rightarrow> real \<Rightarrow> jsval \<Rightarrow> canvas_op list" where
  "drawPoint H scaleX scaleY point =
     (if truthy point \<and> js_gt H (getProp point ''confidence'') 0.2
      then [SetFillStyle (keypointColor H (getProp point ''confidence'')),
            SetShadowColor (keypointColor H (getProp point ''confidence'')),
            BeginPath,
            Arc (js_mul H (getProp point ''x'') scaleX) (js_mul H (getProp point ''y'') scaleY)
              6 0 2,
            Fill]
      else [])"

text \<open>
  \<open>drawSkeleton H canvas video keypoints\<close>: \<open>canvas\<close> is \<^verbatim>\<open>overlayCanvasRef.current\<close>
  (its width and height, or \<open>None\<close> for \<^verbatim>\<open>null\<close>), \<open>video\<close> says whether
  \<^verbatim>\<open>videoRef.current\<close> is set. The result is the operations issued on the context and the
  exception the call ends with, if any: \<^verbatim>\<open>keypoints.forEach\<close> is not a function unless
  \<open>keypoints\<close> is an array, and the call then throws after the edges were drawn.
\<close>

definition drawSkeleton ::
  "host \<Rightarrow> (nat \<times> nat) option \<Rightarrow> bool \<Rightarrow> jsval \<Rightarrow> canvas_op list \<times> js_error option" where
  "drawSkeleton H canvas video keypoints =
     (if \<not> truthy keypoints \<or> getProp keypoints ''length'' = JNum 0 then ([], None)
      else case canvas of
        None \<Rightarrow> ([], None)
      | Some (width, height) \<Rightarrow>
          (let clear = [ClearRect 0 0 (real width) (real height)]
           in if \<not> video then (clear, None)
              else
                (let scaleX = real width / 640;
                     scaleY = real height / 480;
                     edges =
                       [SetStrokeStyle ''#00ff00'', SetLineWidth 3, SetShadowBlur 10,
                        SetShadowColor ''#00ff00'']
                       @ concat (map (drawEdge H keypoints scaleX scaleY) POSE_PAIRS)
                       @ [SetShadowBlur 15]
                 in case keypoints of
                      JArr points \<Rightarrow>
                        (clear @ edges @ concat (map (drawPoint H scaleX scaleY) points)
                           @ [SetShadowBlur 0],
                         None)
                    | _ \<Rightarrow> (clear @ edges, Some TypeError))))"

text \<open>
  What the properties below speak of: the path and paint calls (everything that can put
  ink on the canvas), the stroked segments, and a well-typed keypoint.
\<close>

fun is_draw_call :: "canvas_op \<Rightarrow> bool" where
  "is_draw_call BeginPath = True"
| "is_draw_call (MoveTo x y) = True"
| "is_draw_call (LineTo x y) = True"
| "is_draw_call Stroke = True"
| "is_draw_call (Arc x y r a b) = True"
| "is_draw_call Fill = True"
| "is_draw_call op = False"

text \<open>
  The declared type of the argument is \<^verbatim>\<open>(KeyPoint | null)[]\<close>. \<open>keypointsValue\<close>
  is the value such a list is at run time.
\<close>

datatype KeyPoint = KeyPoint (kp_x: real) (kp_y: real) (kp_confidence: real)

definition keypointValue :: "KeyPoint option \<Rightarrow> jsval" where
  "keypointValue k =
     (case k of
        None \<Rightarrow> JNull
      | Some p \<Rightarrow>
          JObj [(''x'', JNum (kp_x p)), (''y'', JNum (kp_y p)),
                (''confidence'', JNum (kp_confidence p))])"

definition keypointsValue :: "KeyPoint option list \<Rightarrow> jsval" where
  "keypointsValue kps = JArr (map keypointValue kps)"

text \<open>
  \<open>visible kps i\<close>: keypoint \<open>i\<close> exists (the index is in range and the entry is not
  \<^verbatim>\<open>null\<close>) and its confidence is strictly above 0.2.
\<close>

definition visible :: "KeyPoint option list \<Rightarrow> nat \<Rightarrow> bool" where
  "visible kps i =
     (i < length kps \<and> (case kps ! i of None \<Rightarrow> False | Some p \<Rightarrow> kp_confidence p > 0.2))"

definition lineSegment :: "real \<Rightarrow> real \<Rightarrow> KeyPoint \<Rightarrow> KeyPoint \<Rightarrow> canvas_op list" where
  "lineSegment scaleX scaleY a b =
     [BeginPath,
      MoveTo (Some (kp_x a * scaleX)) (Some (kp_y a * scaleY)),
      LineTo (Some (kp_x b * scaleX)) (Some (kp_y b * scaleY)),
      Stroke]"

definition confidenceBand :: "real \<Rightarrow> string" where
  "confidenceBand c = (if c > 0.7 then ''#ff0000'' else if c > 0.5 then ''#ffff00'' else ''#ff8800'')"

definition circle :: "real \<Rightarrow> real \<Rightarrow> KeyPoint \<Rightarrow> canvas_op list" where
  "circle scaleX scaleY p =
     [SetFillStyle (confidenceBand (kp_confidence p)),
      SetShadowColor (confidenceBand (kp_confidence p)),
      BeginPath,
      Arc (Some (kp_x p * scaleX)) (Some (kp_y p * scaleY)) 6 0 2,
      Fill]"

text \<open>
  The renderer as the specification words it, for a list of the declared type: clear,
  then one stroked segment for each pose pair whose two endpoints are visible, then one
  filled circle for each visible keypoint.
\<close>

definition edgeSpec :: "KeyPoint option list \<Rightarrow> real \<Rightarrow> real \<Rightarrow> nat \<times> nat \<Rightarrow> canvas_op list" where
  "edgeSpec kps scaleX scaleY e =
     (if visible kps (fst e) \<and> visible kps (snd e)
      then lineSegment scaleX scaleY (the (kps ! fst e)) (the (kps ! snd e)) else [])"

definition pointSpec :: "real \<Rightarrow> real \<Rightarrow> KeyPoint option \<Rightarrow> canvas_op list" where
  "pointSpec scaleX scaleY k =
     (case k of
        None \<Rightarrow> []
      | Some p \<Rightarrow> if kp_confidence p > 0.2 then circle scaleX scaleY p else [])"

definition skeletonSpec :: "nat \<Rightarrow> nat \<Rightarrow> KeyPoint option list \<Rightarrow> canvas_op list" where
  "skeletonSpec width height kps =
     [ClearRect 0 0 (real width) (real height), SetStrokeStyle ''#00ff00'', SetLineWidth 3,
      SetShadowBlur 10, SetShadowColor ''#00ff00'']
     @ concat (map (edgeSpec kps (real width / 640) (real height / 480)) POSE_PAIRS)
     @ [SetShadowBlur 15]
     @ concat (map (pointSpec (real width / 640) (real height / 480)) kps)
     @ [SetShadowBlur 0]"

definition strokes :: "canvas_op list \<Rightarrow> nat" where
  "strokes ops = length (filter (\<lambda>op. op = Stroke) ops)"

section \<open>Meeting page: state and browser\<close>

text \<open>
  \<^verbatim>\<open>MeetingPage.tsx\<close> exists in two revisions: the first one, and a later one that adds a
  \<^verbatim>\<open>speak\<close> helper, a coordinate log and a second feedback channel. One state type
  serves both; the first revision never touches \<open>geminiResponse\<close> and
  \<open>coordinateLogs\<close>. The state has three layers:
  \<^item> the React state of the component (\<^verbatim>\<open>useState\<close>), as of the latest render;
  \<^item> its refs (\<^verbatim>\<open>useRef\<close>), which every closure reads afresh;
  \<^item> the part of the browser the component acts on: the sockets and timers it created,
    the media streams it was granted, the speech-synthesis queue and the console.
  \<^verbatim>\<open>copied\<close> and \<^verbatim>\<open>meetingLink\<close> play no part in any handler below and are left out.
\<close>

datatype ConnectionStatus = Disconnected | Connecting | Connected | ConnectionError

record Stats =
  frameCount :: jsval
  balance :: jsval
  energy :: jsval
  emotion :: jsval
  emotionConfidence :: jsval
  posture :: jsval
  postureAngle :: jsval

record FeedbackItem =
  fb_time :: string
  fb_text :: jsval
  fb_reason :: jsval

text \<open>
  One line of the coordinate log. The source renders it to text with \<^verbatim>\<open>toFixed\<close>; the
  model keeps the numbers that are rendered.
\<close>

record KeypointLine =
  point_name :: string
  point_x :: real
  point_y :: real
  point_percent :: "real option"

record LogEntry =
  log_time :: string
  log_frame :: jsval
  log_points :: "KeypointLine list"

text \<open>
  A closure of a render sees the state of that render, whatever happens to the state
  later: \<^verbatim>\<open>connectWebSocket\<close> is a \<^verbatim>\<open>useCallback\<close> over \<^verbatim>\<open>isStreaming\<close> and
  \<^verbatim>\<open>stats.frameCount\<close>, and the handlers it attaches to a socket are created inside it.
  \<open>Closure\<close> holds the two state values those handlers read; a socket keeps the
  closure of the call that created it, and so does a reconnect timer.
\<close>

record Closure =
  cl_isStreaming :: bool
  cl_frameCount :: jsval

datatype ReadyState = CONNECTING | OPEN | CLOSING | CLOSED

datatype outbound = FrameMessage string real | EndMessage

record WebSocket =
  readyState :: ReadyState
  sent :: "outbound list"
  handlers :: Closure

datatype timer_callback = CaptureAndSendFrame | Reconnect Closure

record Timer =
  callback :: timer_callback
  delay :: nat
  repeating :: bool
  pending :: bool

record Utterance =
  utterance_text :: jsval
  rate :: real
  pitch :: real
  volume :: real

datatype console_entry = ConsoleLog string | ConsoleError string

record Canvas =
  canvas_width :: nat
  canvas_height :: nat
  context2d :: bool
  canvas_ops :: "canvas_op list"

record Page =
  isStreaming :: bool
  connectionStatus :: ConnectionStatus
  stats :: Stats
  recentFeedback :: "FeedbackItem list"
  lastAnalysis :: jsval
  error :: jsval
  geminiResponse :: jsval
  coordinateLogs :: "LogEntry list"
  wsRef :: "nat option"
  streamRef :: "nat option"
  frameIntervalRef :: "nat option"
  reconnectTimeoutRef :: "nat option"
  videoRef :: "nat option option"
  canvasRef :: "(nat \<times> nat) option"
  overlayCanvasRef :: "Canvas option"
  sockets :: "WebSocket list"
  timers :: "Timer list"
  streams :: "bool list list"
  speechSynthesis :: "Utterance list option"
  console :: "console_entry list"

text \<open>
  \<open>videoRef\<close> is \<open>None\<close> while no video element is mounted and \<open>Some src\<close> for an
  element whose \<^verbatim>\<open>srcObject\<close> is \<open>src\<close>. A socket is named by its position in
  \<open>sockets\<close>, a media stream by its position in \<open>streams\<close> (one flag per track: live
  or stopped). A timer id is the position in \<open>timers\<close> plus one, so ids are positive,
  as the browser's are. \<open>speechSynthesis\<close> is \<open>None\<close> where the window has no such
  property, and the utterance queue otherwise (first the one being spoken).

  The state of a freshly mounted page, with its three elements rendered.
\<close>

definition initialStats :: Stats where
  "initialStats =
     \<lparr>frameCount = JNum 0, balance = JNum 0, energy = JStr ''Unknown'',
      emotion = JStr ''Unknown'', emotionConfidence = JNum 0, posture = JStr ''Unknown'',
      postureAngle = JNum 0\<rparr>"

definition initialPage :: Page where
  "initialPage =
     \<lparr>isStreaming = False, connectionStatus = Disconnected, stats = initialStats,
      recentFeedback = [], lastAnalysis = JNull, error = JNull, geminiResponse = JStr [],
      coordinateLogs = [], wsRef = None, streamRef = None, frameIntervalRef = None,
      reconnectTimeoutRef = None, videoRef = Some None, canvasRef = Some (300, 150),
      overlayCanvasRef =
        Some \<lparr>canvas_width = 300, canvas_height = 150, context2d = True, canvas_ops = []\<rparr>,
      sockets = [], timers = [], streams = [], speechSynthesis = Some [], console = []\<rparr>"

definition render :: "Page \<Rightarrow> Closure" where
  "render p = \<lparr>cl_isStreaming = isStreaming p, cl_frameCount = frameCount (stats p)\<rparr>"

definition console_log :: "string \<Rightarrow> Page \<Rightarrow> Page" where
  "console_log m p = p\<lparr>console := console p @ [ConsoleLog m]\<rparr>"

definition console_err :: "string \<Rightarrow> Page \<Rightarrow> Page" where
  "console_err m p = p\<lparr>console := console p @ [ConsoleError m]\<rparr>"

text \<open>
  Timers. \<^verbatim>\<open>setTimeout\<close> and \<^verbatim>\<open>setInterval\<close> return the new id; \<^verbatim>\<open>clearTimeout\<close> and
  \<^verbatim>\<open>clearInterval\<close> share one pool of ids and ignore an id that names no timer.
\<close>

definition setTimer :: "timer_callback \<Rightarrow> nat \<Rightarrow> bool \<Rightarrow> Page \<Rightarrow> nat \<times> Page" where
  "setTimer cb ms rep p =
     (Suc (length (timers p)),
      p\<lparr>timers := timers p @ [\<lparr>callback = cb, delay = ms, repeating = rep, pending = True\<rparr>]\<rparr>)"

definition clearTimer :: "nat \<Rightarrow> Page \<Rightarrow> Page" where
  "clearTimer i p =
     (if 0 < i \<and> i \<le> length (timers p)
      then p\<lparr>timers := (timers p)[i - 1 := (timers p ! (i - 1))\<lparr>pending := False\<rparr>]\<rparr>
      else p)"

text \<open>
  Sockets. \<^verbatim>\<open>close()\<close> moves a connecting or open socket to \<^verbatim>\<open>CLOSING\<close> and does
  nothing otherwise; \<^verbatim>\<open>send\<close> is only ever called on an open socket here.
\<close>

definition socketState :: "Page \<Rightarrow> nat \<Rightarrow> ReadyState option" where
  "socketState p i = (if i < length (sockets p) then Some (readyState (sockets p ! i)) else None)"

definition updateSocket :: "nat \<Rightarrow> (WebSocket \<Rightarrow> WebSocket) \<Rightarrow> Page \<Rightarrow> Page" where
  "updateSocket i f p =
     (if i < length (sockets p) then p\<lparr>sockets := (sockets p)[i := f (sockets p ! i)]\<rparr> else p)"

definition socket_send :: "nat \<Rightarrow> outbound \<Rightarrow> Page \<Rightarrow> Page" where
  "socket_send i m p = updateSocket i (\<lambda>s. s\<lparr>sent := sent s @ [m]\<rparr>) p"

definition socket_close :: "nat \<Rightarrow> Page \<Rightarrow> Page" where
  "socket_close i p =
     updateSocket i
       (\<lambda>s. if readyState s = CONNECTING \<or> readyState s = OPEN then s\<lparr>readyState := CLOSING\<rparr>
            else s) p"

text \<open>\<^verbatim>\<open>stream.getTracks().forEach(track => track.stop())\<close>.\<close>

definition stopTracks :: "nat \<Rightarrow> Page \<Rightarrow> Page" where
  "stopTracks i p =
     (if i < length (streams p)
      then p\<lparr>streams := (streams p)[i := map (\<lambda>live. False) (streams p ! i)]\<rparr>
      else p)"

text \<open>A ref that holds a number is truthy unless it is \<^verbatim>\<open>null\<close> or 0.\<close>

definition truthyRef :: "nat option \<Rightarrow> bool" where
  "truthyRef r = (case r of None \<Rightarrow> False | Some i \<Rightarrow> i \<noteq> 0)"

section \<open>Meeting page: the message dispatcher\<close>

text \<open>
  The argument of \<^verbatim>\<open>setStats\<close>. \<open>cl\<close> is the closure of the handler: the fallback of
  \<^verbatim>\<open>frameCount\<close> is the \<^verbatim>\<open>stats.frameCount\<close> of the render that created the handler.
\<close>

definition computeStats :: "Closure \<Rightarrow> jsval \<Rightarrow> Stats" where
  "computeStats cl data =
     \<lparr>frameCount = js_or (getProp data ''frame_num'') (cl_frameCount cl),
      balance = js_or (optProp (getProp data ''balance'') ''balance_score'') (JNum 0),
      energy = js_or (optProp (getProp data ''movement'') ''energy'') (JStr ''Unknown''),
      emotion = js_or (optProp (getProp data ''emotion'') ''emotion'') (JStr ''Unknown''),
      emotionConfidence = js_or (optProp (getProp data ''emotion'') ''confidence'') (JNum 0),
      posture = js_or (optProp (getProp data ''posture'') ''status'') (JStr ''Unknown''),
      postureAngle = js_or (optProp (getProp data ''posture'') ''angle'') (JNum 0)\<rparr>"

text \<open>
  \<^verbatim>\<open>if (overlayCanvas && data.keypoints) { const ctx = ...; if (ctx) drawSkeleton(ctx, ...) }\<close>.
  The operations reach the canvas even when the call ends in an exception.
\<close>

definition drawOverlay :: "host \<Rightarrow> jsval \<Rightarrow> Page \<Rightarrow> Page \<times> js_error option" where
  "drawOverlay H keypoints p =
     (case overlayCanvasRef p of
        None \<Rightarrow> (p, None)
      | Some c \<Rightarrow>
          if truthy keypoints \<and> context2d c
          then (let r = drawSkeleton H (Some (canvas_width c, canvas_height c))
                          (videoRef p \<noteq> None) keypoints
                in (p\<lparr>overlayCanvasRef := Some (c\<lparr>canvas_ops := canvas_ops c @ fst r\<rparr>)\<rparr>,
                    snd r))
          else (p, None))"

text \<open>\<^verbatim>\<open>window.speechSynthesis.speak(utterance)\<close> and \<^verbatim>\<open>window.speechSynthesis.cancel()\<close>.\<close>

definition synth_speak :: "Utterance \<Rightarrow> Page \<Rightarrow> Page" where
  "synth_speak u p =
     (case speechSynthesis p of
        None \<Rightarrow> p
      | Some q \<Rightarrow> p\<lparr>speechSynthesis := Some (q @ [u])\<rparr>)"

definition synth_cancel :: "Page \<Rightarrow> Page" where
  "synth_cancel p =
     (case speechSynthesis p of
        None \<Rightarrow> p
      | Some q \<Rightarrow> p\<lparr>speechSynthesis := Some []\<rparr>)"

text \<open>\<^verbatim>\<open>setRecentFeedback(prev => [newFeedback, ...prev].slice(0, 5))\<close>.\<close>

definition addFeedback :: "FeedbackItem \<Rightarrow> Page \<Rightarrow> Page" where
  "addFeedback item p = p\<lparr>recentFeedback := take 5 (item # recentFeedback p)\<rparr>"

text \<open>
  The coaching block of the first revision: the utterance is queued behind whatever is
  being spoken. \<open>now\<close> is \<^verbatim>\<open>new Date().toLocaleTimeString()\<close> at the time of the event.
\<close>

definition coaching :: "string \<Rightarrow> jsval \<Rightarrow> Page \<Rightarrow> Page" where
  "coaching now response p =
     (if truthy (optProp (getProp response ''coaching'') ''triggered'')
         \<and> truthy (getProp (getProp response ''coaching'') ''feedback'')
      then console_log ''Coach:''
             (synth_speak
                \<lparr>utterance_text = getProp (getProp response ''coaching'') ''feedback'',
                 rate = 1.0, pitch = 1.0, volume = 0.8\<rparr>
                (addFeedback
                   \<lparr>fb_time = now,
                    fb_text = getProp (getProp response ''coaching'') ''feedback'',
                    fb_reason = getProp (getProp response ''coaching'') ''reason''\<rparr>
                   p))
      else p)"

text \<open>
  The analysis branch. An exception of \<^verbatim>\<open>drawSkeleton\<close> leaves the branch, and the
  \<^verbatim>\<open>try\<close> block, after \<^verbatim>\<open>setLastAnalysis\<close>, \<^verbatim>\<open>setStats\<close> and the drawing so far.
\<close>

definition handleAnalysis ::
  "host \<Rightarrow> Closure \<Rightarrow> string \<Rightarrow> jsval \<Rightarrow> Page \<Rightarrow> Page \<times> js_error option" where
  "handleAnalysis H cl now response p =
     (let data = getProp response ''data'';
          drawn = drawOverlay H (getProp data ''keypoints'')
                    (p\<lparr>lastAnalysis := data, stats := computeStats cl data\<rparr>)
      in case snd drawn of
           Some e \<Rightarrow> (fst drawn, Some e)
         | None \<Rightarrow> (coaching now response (fst drawn), None))"

text \<open>
  The body of the \<^verbatim>\<open>try\<close> block after \<^verbatim>\<open>JSON.parse\<close>, on the parsed value. Reading
  \<^verbatim>\<open>response.type\<close> throws when the value is \<^verbatim>\<open>null\<close>.
\<close>

definition dispatch ::
  "host \<Rightarrow> Closure \<Rightarrow> string \<Rightarrow> jsval \<Rightarrow> Page \<Rightarrow> Page \<times> js_error option" where
  "dispatch H cl now response p =
     (if nullish response then (p, Some TypeError)
      else if getProp response ''type'' = JStr ''welcome'' then (console_log ''Welcome:'' p, None)
      else if getProp response ''type'' = JStr ''pong'' then (p, None)
      else
        (let analysed =
               (if getProp response ''type'' = JStr ''analysis''
                   \<and> truthy (getProp response ''data'')
                then handleAnalysis H cl now response p
                else (p, None))
         in case snd analysed of
              Some e \<Rightarrow> (fst analysed, Some e)
            | None \<Rightarrow>
                if getProp response ''type'' = JStr ''error''
                then ((console_err ''Backend error:'' (fst analysed))
                        \<lparr>error := getProp response ''message''\<rparr>, None)
                else (fst analysed, None)))"

text \<open>
  \<^verbatim>\<open>ws.onmessage\<close>. \<open>parsed\<close> is what \<^verbatim>\<open>JSON.parse(event.data)\<close> makes of the message
  text: \<open>None\<close> when it throws \<^verbatim>\<open>SyntaxError\<close>, the value otherwise. Whatever the
  \<^verbatim>\<open>try\<close> block throws is caught and logged, so the handler itself has a plain result.
\<close>

definition onmessage :: "host \<Rightarrow> Closure \<Rightarrow> string \<Rightarrow> jsval option \<Rightarrow> Page \<Rightarrow> Page" where
  "onmessage H cl now parsed p =
     (case parsed of
        None \<Rightarrow> console_err ''Failed to parse WebSocket message:'' p
      | Some response \<Rightarrow>
          (case snd (dispatch H cl now response p) of
             Some e \<Rightarrow>
               console_err ''Failed to parse WebSocket message:''
                 (fst (dispatch H cl now response p))
           | None \<Rightarrow> fst (dispatch H cl now response p)))"

text \<open>
  What the page shows for the balance: \<^verbatim>\<open>{stats.balance.toFixed(0)}/100\<close>.
  \<^verbatim>\<open>toFixed(0)\<close> rounds to the nearest integer, a tie away from zero; it is modelled
  below \<open>10\<^sup>2\<^sup>1\<close>, where the result is a plain decimal numeral. Rendering throws when
  the balance is not a number.
\<close>

definition toFixed0 :: "real \<Rightarrow> string option" where
  "toFixed0 x =
     (if \<bar>x\<bar> < 10 ^ 21
      then Some ((if x < 0 then ''-'' else []) @ show_nat (nat \<lfloor>\<bar>x\<bar> + 1 / 2\<rfloor>))
      else None)"

definition balanceDisplay :: "Stats \<Rightarrow> (js_error + string) option" where
  "balanceDisplay s =
     (case balance s of
        JNum x \<Rightarrow> (case toFixed0 x of Some d \<Rightarrow> Some (Inr (d @ ''/100'')) | None \<Rightarrow> None)
      | _ \<Rightarrow> Some (Inl TypeError))"

section \<open>Meeting page: connection and session lifecycle\<close>

text \<open>
  \<^verbatim>\<open>connectWebSocket\<close>, as the closure \<open>cl\<close> of some render. The URL is taken to be well
  formed, so the \<^verbatim>\<open>WebSocket\<close> constructor does not throw.
\<close>

definition socketOpen :: "Page \<Rightarrow> bool" where
  "socketOpen p = (case wsRef p of None \<Rightarrow> False | Some i \<Rightarrow> socketState p i = Some OPEN)"

definition connectWebSocket :: "Closure \<Rightarrow> Page \<Rightarrow> Page" where
  "connectWebSocket cl p =
     (if socketOpen p then console_log ''WebSocket already connected'' p
      else (console_log ''Connecting to:'' (p\<lparr>connectionStatus := Connecting\<rparr>))
             \<lparr>sockets := sockets p @ [\<lparr>readyState = CONNECTING, sent = [], handlers = cl\<rparr>],
              wsRef := Some (length (sockets p))\<rparr>)"

text \<open>The handlers \<^verbatim>\<open>connectWebSocket\<close> attaches, each with the closure it was created in.\<close>

definition onopen :: "Page \<Rightarrow> Page" where
  "onopen p =
     console_log ''WebSocket connected to OpenPose backend''
       (p\<lparr>connectionStatus := Connected, error := JNull\<rparr>)"

definition onerror :: "Page \<Rightarrow> Page" where
  "onerror p =
     (console_err ''WebSocket error:'' p)
       \<lparr>connectionStatus := ConnectionError,
        error := JStr ''Connection error - check if backend is running on port 8000''\<rparr>"

definition onclose :: "Closure \<Rightarrow> bool \<Rightarrow> Page \<Rightarrow> Page" where
  "onclose cl wasClean p =
     (let p1 = (console_log ''WebSocket closed:'' p)\<lparr>connectionStatus := Disconnected\<rparr>
      in if cl_isStreaming cl \<and> \<not> wasClean
         then (let scheduled =
                     setTimer (Reconnect cl) 3000 False
                       (console_log ''Attempting to reconnect in 3s...'' p1)
               in (snd scheduled)\<lparr>reconnectTimeoutRef := Some (fst scheduled)\<rparr>)
         else p1)"

text \<open>The callback of the reconnect timer: \<^verbatim>\<open>if (isStreaming) connectWebSocket()\<close>.\<close>

definition reconnect :: "Closure \<Rightarrow> Page \<Rightarrow> Page" where
  "reconnect cl p = (if cl_isStreaming cl then connectWebSocket cl p else p)"

text \<open>
  \<^verbatim>\<open>captureAndSendFrame\<close>; \<open>frame\<close> is the data URL of the captured image and \<open>seconds\<close>
  the clock. The hidden canvas is taken to have a 2D context.
\<close>

definition captureAndSendFrame :: "string \<Rightarrow> real \<Rightarrow> Page \<Rightarrow> Page" where
  "captureAndSendFrame frame seconds p =
     (case wsRef p of
        None \<Rightarrow> p
      | Some i \<Rightarrow>
          if canvasRef p \<noteq> None \<and> videoRef p \<noteq> None \<and> socketState p i = Some OPEN
          then socket_send i (FrameMessage frame seconds) p
          else p)"

text \<open>
  What the browser does: it delivers an event of socket \<open>i\<close> to the handler attached to
  that socket, after updating the socket's \<^verbatim>\<open>readyState\<close>, and it runs the callback of a
  pending timer (a timeout is spent by firing).
\<close>

definition socket_opened :: "nat \<Rightarrow> Page \<Rightarrow> Page" where
  "socket_opened i p =
     (if i < length (sockets p) then onopen (updateSocket i (\<lambda>s. s\<lparr>readyState := OPEN\<rparr>) p)
      else p)"

definition socket_message :: "host \<Rightarrow> nat \<Rightarrow> string \<Rightarrow> jsval option \<Rightarrow> Page \<Rightarrow> Page" where
  "socket_message H i now parsed p =
     (if i < length (sockets p) then onmessage H (handlers (sockets p ! i)) now parsed p else p)"

definition socket_closed :: "nat \<Rightarrow> bool \<Rightarrow> Page \<Rightarrow> Page" where
  "socket_closed i wasClean p =
     (if i < length (sockets p)
      then onclose (handlers (sockets p ! i)) wasClean
             (updateSocket i (\<lambda>s. s\<lparr>readyState := CLOSED\<rparr>) p)
      else p)"

definition timer_fired :: "nat \<Rightarrow> string \<Rightarrow> real \<Rightarrow> Page \<Rightarrow> Page" where
  "timer_fired i frame seconds p =
     (if 0 < i \<and> i \<le> length (timers p) \<and> pending (timers p ! (i - 1))
      then (let t = timers p ! (i - 1);
                p1 = (if repeating t then p else clearTimer i p)
            in case callback t of
                 CaptureAndSendFrame \<Rightarrow> captureAndSendFrame frame seconds p1
               | Reconnect cl \<Rightarrow> reconnect cl p1)
      else p)"

text \<open>
  \<^verbatim>\<open>startStreaming\<close>, run from the render of state \<open>p\<close>. \<open>camera\<close> is the outcome of
  \<^verbatim>\<open>getUserMedia\<close>: the number of tracks of the granted stream, or \<open>None\<close> when it
  rejects; \<open>play\<close> says whether \<^verbatim>\<open>video.play()\<close> resolves. Assigning a canvas its width
  resets its bitmap. The function is the render's own, so the \<^verbatim>\<open>connectWebSocket\<close> it
  calls is the closure of that render.
\<close>

definition cameraFailed :: "Page \<Rightarrow> Page" where
  "cameraFailed p =
     (console_err ''Camera access error:'' p)
       \<lparr>error := JStr ''Could not access camera. Please allow camera permissions.''\<rparr>"

definition sizeCanvases :: "Page \<Rightarrow> Page" where
  "sizeCanvases p =
     (case (canvasRef p, overlayCanvasRef p) of
        (Some c, Some overlay) \<Rightarrow>
          p\<lparr>canvasRef := Some (640, 480),
            overlayCanvasRef :=
              Some (overlay\<lparr>canvas_width := 640, canvas_height := 480, canvas_ops := []\<rparr>)\<rparr>
      | _ \<Rightarrow> p)"

definition startStreaming :: "nat option \<Rightarrow> bool \<Rightarrow> Page \<Rightarrow> Page" where
  "startStreaming camera play p =
     (case camera of
        None \<Rightarrow> cameraFailed (p\<lparr>error := JNull\<rparr>)
      | Some n \<Rightarrow>
          (let p1 = p\<lparr>error := JNull, streams := streams p @ [replicate n True],
                      streamRef := Some (length (streams p))\<rparr>;
               p2 = (case videoRef p1 of
                       None \<Rightarrow> p1
                     | Some src \<Rightarrow> p1\<lparr>videoRef := Some (Some (length (streams p)))\<rparr>)
           in if videoRef p1 \<noteq> None \<and> \<not> play then cameraFailed p2
              else
                (let p3 = connectWebSocket (render p) (sizeCanvases p2);
                     started = setTimer CaptureAndSendFrame 100 True p3
                 in console_log ''Streaming started - sending frames to OpenPose backend''
                      ((snd started)\<lparr>frameIntervalRef := Some (fst started),
                                     isStreaming := True\<rparr>))))"

text \<open>\<^verbatim>\<open>stopStreaming\<close> of the first revision, statement by statement.\<close>

definition clearFrameInterval :: "Page \<Rightarrow> Page" where
  "clearFrameInterval p =
     (case frameIntervalRef p of
        None \<Rightarrow> p
      | Some i \<Rightarrow> if i \<noteq> 0 then (clearTimer i p)\<lparr>frameIntervalRef := None\<rparr> else p)"

definition clearReconnectTimeout :: "Page \<Rightarrow> Page" where
  "clearReconnectTimeout p =
     (case reconnectTimeoutRef p of
        None \<Rightarrow> p
      | Some i \<Rightarrow> if i \<noteq> 0 then (clearTimer i p)\<lparr>reconnectTimeoutRef := None\<rparr> else p)"

definition stopMediaStream :: "Page \<Rightarrow> Page" where
  "stopMediaStream p =
     (case streamRef p of
        None \<Rightarrow> p
      | Some s \<Rightarrow> (stopTracks s p)\<lparr>streamRef := None\<rparr>)"

definition closeWebSocket :: "Page \<Rightarrow> Page" where
  "closeWebSocket p =
     (case wsRef p of
        None \<Rightarrow> p
      | Some i \<Rightarrow>
          (socket_close i
             (if socketState p i = Some OPEN then socket_send i EndMessage p else p))
            \<lparr>wsRef := None\<rparr>)"

definition clearVideoElement :: "Page \<Rightarrow> Page" where
  "clearVideoElement p =
     (case videoRef p of
        None \<Rightarrow> p
      | Some src \<Rightarrow> p\<lparr>videoRef := Some None\<rparr>)"

definition stopStreaming :: "Page \<Rightarrow> Page" where
  "stopStreaming p =
     console_log ''Stream stopped''
       ((synth_cancel
           (clearVideoElement
              (closeWebSocket
                 (stopMediaStream
                    (clearReconnectTimeout
                       (clearFrameInterval (console_log ''Stopping stream...'' p)))))))
          \<lparr>isStreaming := False, connectionStatus := Disconnected\<rparr>)"

text \<open>
  Vocabulary of the dispatcher's properties. \<open>clientState\<close> is the state the user sees;
  \<open>caughtLoggedDropped p p'\<close> says that \<open>p'\<close> is \<open>p\<close> with the one console line of the
  \<^verbatim>\<open>catch\<close> block and nothing else changed; \<open>unknownShape r\<close> says that \<open>r\<close> is none of
  the four messages the dispatcher has a branch for.
\<close>

definition clientState :: "Page \<Rightarrow> Stats \<times> FeedbackItem list \<times> ConnectionStatus \<times> jsval" where
  "clientState p = (stats p, recentFeedback p, connectionStatus p, error p)"

definition caughtLoggedDropped :: "Page \<Rightarrow> Page \<Rightarrow> bool" where
  "caughtLoggedDropped p p' = (p' = console_err ''Failed to parse WebSocket message:'' p)"

definition unknownShape :: "jsval \<Rightarrow> bool" where
  "unknownShape r =
     (getProp r ''type'' \<noteq> JStr ''welcome'' \<and> getProp r ''type'' \<noteq> JStr ''pong''
      \<and> getProp r ''type'' \<noteq> JStr ''error''
      \<and> \<not> (getProp r ''type'' = JStr ''analysis'' \<and> truthy (getProp r ''data'')))"

section \<open>Meeting page: the later revision\<close>

text \<open>
  The later revision of \<^verbatim>\<open>MeetingPage.tsx\<close> speaks through one helper, which cancels
  whatever is being spoken before it queues the new utterance.
\<close>

definition speak :: "jsval \<Rightarrow> real \<Rightarrow> Page \<Rightarrow> Page" where
  "speak words r p =
     (if speechSynthesis p \<noteq> None
      then synth_speak \<lparr>utterance_text = words, rate = r, pitch = 1.0, volume = 0.9\<rparr>
             (synth_cancel p)
      else p)"

text \<open>
  The coordinate log. \<^verbatim>\<open>kp.x.toFixed(1)\<close> throws unless \<^verbatim>\<open>kp.x\<close> is a number, and so
  does \<^verbatim>\<open>kp.y.toFixed(1)\<close>; \<^verbatim>\<open>data.keypoints.map\<close> is not a function unless
  \<^verbatim>\<open>data.keypoints\<close> is an array.
\<close>

definition pointNames :: "string list" where
  "pointNames =
     [''Nose'', ''Neck'', ''RShoulder'', ''RElbow'', ''RWrist'', ''LShoulder'', ''LElbow'',
      ''LWrist'', ''RHip'', ''RKnee'', ''RAnkle'', ''LHip'', ''LKnee'', ''LAnkle'', ''REye'',
      ''LEye'', ''REar'', ''LEar'']"

definition pointName :: "nat \<Rightarrow> string" where
  "pointName idx = (if idx < length pointNames then pointNames ! idx else ''undefined'')"

fun keypointLines :: "host \<Rightarrow> nat \<Rightarrow> jsval list \<Rightarrow> js_error + KeypointLine list" where
  "keypointLines H idx [] = Inr []"
| "keypointLines H idx (kp # kps) =
     (if truthy kp \<and> js_gt H (getProp kp ''confidence'') 0.2
      then (case (getProp kp ''x'', getProp kp ''y'') of
              (JNum x, JNum y) \<Rightarrow>
                (case keypointLines H (Suc idx) kps of
                   Inl e \<Rightarrow> Inl e
                 | Inr ls \<Rightarrow>
                     Inr (\<lparr>point_name = pointName idx, point_x = x, point_y = y,
                           point_percent = js_mul H (getProp kp ''confidence'') 100\<rparr> # ls))
            | _ \<Rightarrow> Inl TypeError)
      else keypointLines H (Suc idx) kps)"

text \<open>\<^verbatim>\<open>setCoordinateLogs(prev => [logEntry, ...prev].slice(0, 30))\<close>.\<close>

definition addLogEntry :: "LogEntry \<Rightarrow> Page \<Rightarrow> Page" where
  "addLogEntry entry p = p\<lparr>coordinateLogs := take 30 (entry # coordinateLogs p)\<rparr>"

definition logCoordinates :: "host \<Rightarrow> string \<Rightarrow> jsval \<Rightarrow> Page \<Rightarrow> Page \<times> js_error option" where
  "logCoordinates H now data p =
     (if truthy (getProp data ''keypoints'')
         \<and> js_gt H (getProp (getProp data ''keypoints'') ''length'') 0
      then (case getProp data ''keypoints'' of
              JArr kps \<Rightarrow>
                (case keypointLines H 0 kps of
                   Inl e \<Rightarrow> (p, Some e)
                 | Inr validKeypoints \<Rightarrow>
                     if validKeypoints \<noteq> []
                     then (addLogEntry
                             \<lparr>log_time = now, log_frame = getProp data ''frame_num'',
                              log_points = validKeypoints\<rparr> p, None)
                     else (p, None))
            | _ \<Rightarrow> (p, Some TypeError))
      else (p, None))"

text \<open>The two feedback channels: the AI response, then the coaching block.\<close>

definition gemini :: "string \<Rightarrow> jsval \<Rightarrow> Page \<Rightarrow> Page" where
  "gemini now response p =
     (if truthy (optProp (getProp response ''gemini'') ''triggered'')
         \<and> truthy (getProp (getProp response ''gemini'') ''feedback'')
      then addFeedback
             \<lparr>fb_time = now, fb_text = getProp (getProp response ''gemini'') ''feedback'',
              fb_reason = JStr ''ai_analysis''\<rparr>
             (speak (getProp (getProp response ''gemini'') ''feedback'') 1.0
                (console_log ''Gemini AI:''
                   (p\<lparr>geminiResponse := getProp (getProp response ''gemini'') ''feedback''\<rparr>)))
      else p)"

definition coaching_hardened :: "string \<Rightarrow> jsval \<Rightarrow> Page \<Rightarrow> Page" where
  "coaching_hardened now response p =
     (if truthy (optProp (getProp response ''coaching'') ''triggered'')
         \<and> truthy (getProp (getProp response ''coaching'') ''feedback'')
      then console_log ''Coach:''
             (speak (getProp (getProp response ''coaching'') ''feedback'') 1.0
                (addFeedback
                   \<lparr>fb_time = now,
                    fb_text = getProp (getProp response ''coaching'') ''feedback'',
                    fb_reason = getProp (getProp response ''coaching'') ''reason''\<rparr>
                   p))
      else p)"

definition handleAnalysis_hardened ::
  "host \<Rightarrow> Closure \<Rightarrow> string \<Rightarrow> jsval \<Rightarrow> Page \<Rightarrow> Page \<times> js_error option" where
  "handleAnalysis_hardened H cl now response p =
     (let data = getProp response ''data'';
          logged = logCoordinates H now data
                     (p\<lparr>lastAnalysis := data, stats := computeStats cl data\<rparr>)
      in case snd logged of
           Some e \<Rightarrow> (fst logged, Some e)
         | None \<Rightarrow>
             (let drawn = drawOverlay H (getProp data ''keypoints'') (fst logged)
              in case snd drawn of
                   Some e \<Rightarrow> (fst drawn, Some e)
                 | None \<Rightarrow>
                     (coaching_hardened now response (gemini now response (fst drawn)), None)))"

definition dispatch_hardened ::
  "host \<Rightarrow> Closure \<Rightarrow> string \<Rightarrow> jsval \<Rightarrow> Page \<Rightarrow> Page \<times> js_error option" where
  "dispatch_hardened H cl now response p =
     (if nullish response then (p, Some TypeError)
      else if getProp response ''type'' = JStr ''welcome''
      then (speak (js_or (getProp response ''message'')
                     (JStr ''Connected to AI Video Coach with OpenPose'')) 1.0
              (console_log ''Welcome:'' p), None)
      else if getProp response ''type'' = JStr ''pong'' then (p, None)
      else
        (let analysed =
               (if getProp response ''type'' = JStr ''analysis''
                   \<and> truthy (getProp response ''data'')
                then handleAnalysis_hardened H cl now response p
                else (p, None))
         in case snd analysed of
              Some e \<Rightarrow> (fst analysed, Some e)
            | None \<Rightarrow>
                if getProp response ''type'' = JStr ''error''
                then ((console_err ''Backend error:'' (fst analysed))
                        \<lparr>error := getProp response ''message''\<rparr>, None)
                else (fst analysed, None)))"

definition onmessage_hardened ::
  "host \<Rightarrow> Closure \<Rightarrow> string \<Rightarrow> jsval option \<Rightarrow> Page \<Rightarrow> Page" where
  "onmessage_hardened H cl now parsed p =
     (case parsed of
        None \<Rightarrow> console_err ''Failed to parse WebSocket message:'' p
      | Some response \<Rightarrow>
          (case snd (dispatch_hardened H cl now response p) of
             Some e \<Rightarrow>
               console_err ''Failed to parse WebSocket message:''
                 (fst (dispatch_hardened H cl now response p))
           | None \<Rightarrow> fst (dispatch_hardened H cl now response p)))"

text \<open>The other handlers of the later revision differ from the first by what they say.\<close>

definition onopen_hardened :: "Page \<Rightarrow> Page" where
  "onopen_hardened p =
     speak (JStr ''Welcome to your AI coaching session. I am ready to help you!'') 1.0 (onopen p)"

definition onerror_hardened :: "Page \<Rightarrow> Page" where
  "onerror_hardened p =
     (console_err ''WebSocket error:'' p)
       \<lparr>connectionStatus := ConnectionError,
        error := JStr ''Connection error - check if backend is running''\<rparr>"

definition startStreaming_hardened :: "nat option \<Rightarrow> bool \<Rightarrow> Page \<Rightarrow> Page" where
  "startStreaming_hardened camera play p =
     (if camera \<noteq> None \<and> (videoRef p = None \<or> play)
      then speak (JStr ''Session started. Show me your best form!'') 1.1
             (startStreaming camera play p)
      else startStreaming camera play p)"

definition stopStreaming_hardened :: "Page \<Rightarrow> Page" where
  "stopStreaming_hardened p = speak (JStr ''Session ended. Great work today!'') 1.0 (stopStreaming p)"

text \<open>
  The events of a mounted page of the later revision, and the page after a sequence of
  them. An event of a socket that does not exist, or of a timer that is not pending, changes
  nothing.
\<close>

datatype event =
    Start "nat option" bool
  | Stop
  | Opened nat
  | Message nat string "jsval option"
  | Errored nat
  | Closed nat bool
  | Fired nat string real

fun step_hardened :: "host \<Rightarrow> Page \<Rightarrow> event \<Rightarrow> Page" where
  "step_hardened H p (Start camera play) = startStreaming_hardened camera play p"
| "step_hardened H p Stop = stopStreaming_hardened p"
| "step_hardened H p (Opened i) =
     (if i < length (sockets p)
      then onopen_hardened (updateSocket i (\<lambda>s. s\<lparr>readyState := OPEN\<rparr>) p) else p)"
| "step_hardened H p (Message i now parsed) =
     (if i < length (sockets p)
      then onmessage_hardened H (handlers (sockets p ! i)) now parsed p else p)"
| "step_hardened H p (Errored i) = (if i < length (sockets p) then onerror_hardened p else p)"
| "step_hardened H p (Closed i wasClean) = socket_closed i wasClean p"
| "step_hardened H p (Fired i frame seconds) = timer_fired i frame seconds p"

definition run_hardened :: "host \<Rightarrow> Page \<Rightarrow> event list \<Rightarrow> Page" where
  "run_hardened H p evs = foldl (step_hardened H) p evs"

text \<open>The same for the first revision.\<close>

fun step :: "host \<Rightarrow> Page \<Rightarrow> event \<Rightarrow> Page" where
  "step H p (Start camera play) = startStreaming camera play p"
| "step H p Stop = stopStreaming p"
| "step H p (Opened i) = socket_opened i p"
| "step H p (Message i now parsed) = socket_message H i now parsed p"
| "step H p (Errored i) = (if i < length (sockets p) then onerror p else p)"
| "step H p (Closed i wasClean) = socket_closed i wasClean p"
| "step H p (Fired i frame seconds) = timer_fired i frame seconds p"

definition run :: "host \<Rightarrow> Page \<Rightarrow> event list \<Rightarrow> Page" where
  "run H p evs = foldl (step H) p evs"

definition queued :: "Page \<Rightarrow> nat" where
  "queued p = (case speechSynthesis p of None \<Rightarrow> 0 | Some q \<Rightarrow> length q)"

text \<open>
  \<open>rolled n stamp now old new\<close>: the rolling list \<open>new\<close> is \<open>old\<close>, or it is \<open>old\<close> with
  one or more items stamped \<open>now\<close> put in front of it, newest first, and cut to \<open>n\<close>
  items from the old end.
\<close>

definition rolled :: "nat \<Rightarrow> ('a \<Rightarrow> string) \<Rightarrow> string \<Rightarrow> 'a list \<Rightarrow> 'a list \<Rightarrow> bool" where
  "rolled n stamp now old new \<longleftrightarrow>
     new = old \<or>
     (\<exists>news. news \<noteq> [] \<and> (\<forall>i\<in>set news. stamp i = now) \<and> new = take n (news @ old))"

text \<open>An analysis message with one keypoint and a piece of coaching advice, for the examples.\<close>

definition coachingMessage :: "string \<Rightarrow> jsval" where
  "coachingMessage advice =
     JObj [(''type'', JStr ''analysis''),
           (''data'',
            JObj [(''frame_num'', JNum 1),
                  (''keypoints'',
                   JArr [JObj [(''x'', JNum 320), (''y'', JNum 100),
                               (''confidence'', JNum 0.9)]])]),
           (''coaching'',
            JObj [(''triggered'', JBool True), (''feedback'', JStr advice),
                  (''reason'', JStr ''posture'')])]"

section \<open>Voice activity detection: \<^verbatim>\<open>useVoiceDetection\<close>\<close>

text \<open>
  The hook keeps a React state (\<^verbatim>\<open>isSpeaking\<close>, \<^verbatim>\<open>energy\<close>, \<^verbatim>\<open>isListening\<close>) and six
  refs. Of the browser the model keeps the timers the hook created, each with the clock
  reading at which it was armed, and the calls the two callbacks received. Time is the
  reading of \<^verbatim>\<open>Date.now()\<close>, in milliseconds.

  State updaters (\<^verbatim>\<open>setState(prev => ...)\<close>) are applied where they are queued, so one
  run of \<^verbatim>\<open>analyzeAudio\<close> is one step. Names that the meeting page already uses carry
  the prefix \<open>vad\<close>.
\<close>

record VoiceDetectionConfig =
  speechThreshold :: real
  silenceDuration :: nat
  has_onSpeechStart :: bool
  has_onSpeechEnd :: bool

definition defaultVoiceDetectionConfig :: VoiceDetectionConfig where
  "defaultVoiceDetectionConfig =
     \<lparr>speechThreshold = 0.02, silenceDuration = 2500, has_onSpeechStart = True,
      has_onSpeechEnd = True\<rparr>"

datatype vad_call = SpeechStart | SpeechEnd int

record SilenceTimer =
  armed_at :: nat
  timeout :: nat
  waiting :: bool

record VoiceDetection =
  isSpeaking :: bool
  vad_energy :: "real option"
  vad_isListening :: bool
  analyserRef :: bool
  vad_streamRef :: "bool list option"
  audioContextRef :: bool
  animationFrameRef :: "nat option"
  silenceTimerRef :: "nat option"
  speechStartTimeRef :: "nat option"
  vad_timers :: "SilenceTimer list"
  frames_requested :: nat
  vad_calls :: "vad_call list"

definition initialVoiceDetection :: VoiceDetection where
  "initialVoiceDetection =
     \<lparr>isSpeaking = False, vad_energy = Some 0, vad_isListening = False, analyserRef = False,
      vad_streamRef = None, audioContextRef = False, animationFrameRef = None,
      silenceTimerRef = None, speechStartTimeRef = None, vad_timers = [],
      frames_requested = 0, vad_calls = []\<rparr>"

text \<open>
  The energy of one reading of the analyser: the mean of the frequency bins (bytes),
  divided by 255. The mean of no bins is \<^verbatim>\<open>NaN\<close>, which is above no threshold.
\<close>

definition normalizedEnergy :: "nat list \<Rightarrow> real option" where
  "normalizedEnergy dataArray =
     (if dataArray = [] then None
      else Some (real (sum_list dataArray) / real (length dataArray) / 255))"

definition hasSpeech :: "VoiceDetectionConfig \<Rightarrow> nat list \<Rightarrow> bool" where
  "hasSpeech cfg dataArray =
     (case normalizedEnergy dataArray of None \<Rightarrow> False | Some e \<Rightarrow> e > speechThreshold cfg)"

definition vad_clearTimeout :: "nat \<Rightarrow> VoiceDetection \<Rightarrow> VoiceDetection" where
  "vad_clearTimeout i s =
     (if 0 < i \<and> i \<le> length (vad_timers s)
      then s\<lparr>vad_timers := (vad_timers s)[i - 1 := (vad_timers s ! (i - 1))\<lparr>waiting := False\<rparr>]\<rparr>
      else s)"

definition call_onSpeechStart :: "VoiceDetectionConfig \<Rightarrow> VoiceDetection \<Rightarrow> VoiceDetection" where
  "call_onSpeechStart cfg s =
     (if has_onSpeechStart cfg then s\<lparr>vad_calls := vad_calls s @ [SpeechStart]\<rparr> else s)"

definition call_onSpeechEnd :: "VoiceDetectionConfig \<Rightarrow> int \<Rightarrow> VoiceDetection \<Rightarrow> VoiceDetection" where
  "call_onSpeechEnd cfg duration s =
     (if has_onSpeechEnd cfg then s\<lparr>vad_calls := vad_calls s @ [SpeechEnd duration]\<rparr> else s)"

text \<open>The two branches of \<^verbatim>\<open>analyzeAudio\<close>, and the function itself at clock reading \<open>now\<close>.\<close>

definition speechDetected :: "VoiceDetectionConfig \<Rightarrow> nat \<Rightarrow> VoiceDetection \<Rightarrow> VoiceDetection" where
  "speechDetected cfg now s =
     (let s1 = (if \<not> isSpeaking s
                then (call_onSpeechStart cfg (s\<lparr>speechStartTimeRef := Some now\<rparr>))
                       \<lparr>isSpeaking := True\<rparr>
                else s)
      in case silenceTimerRef s1 of
           None \<Rightarrow> s1
         | Some i \<Rightarrow> if i \<noteq> 0 then (vad_clearTimeout i s1)\<lparr>silenceTimerRef := None\<rparr> else s1)"

definition silenceDetected :: "VoiceDetectionConfig \<Rightarrow> nat \<Rightarrow> VoiceDetection \<Rightarrow> VoiceDetection" where
  "silenceDetected cfg now s =
     (if isSpeaking s \<and> \<not> truthyRef (silenceTimerRef s)
      then s\<lparr>vad_timers := vad_timers s @
                 [\<lparr>armed_at = now, timeout = silenceDuration cfg, waiting = True\<rparr>],
             silenceTimerRef := Some (Suc (length (vad_timers s)))\<rparr>
      else s)"

definition analyzeAudio ::
  "VoiceDetectionConfig \<Rightarrow> nat list \<Rightarrow> nat \<Rightarrow> VoiceDetection \<Rightarrow> VoiceDetection" where
  "analyzeAudio cfg dataArray now s =
     (if \<not> analyserRef s then s
      else
        (let s1 = s\<lparr>vad_energy := normalizedEnergy dataArray\<rparr>;
             s2 = (if hasSpeech cfg dataArray then speechDetected cfg now s1
                   else silenceDetected cfg now s1)
         in s2\<lparr>animationFrameRef := Some (Suc (frames_requested s2)),
               frames_requested := Suc (frames_requested s2)\<rparr>))"

text \<open>The callback of the silence timer, run at clock reading \<open>now\<close>.\<close>

definition silenceElapsed :: "VoiceDetectionConfig \<Rightarrow> nat \<Rightarrow> VoiceDetection \<Rightarrow> VoiceDetection" where
  "silenceElapsed cfg now s =
     (let duration = (case speechStartTimeRef s of
                        None \<Rightarrow> 0
                      | Some t \<Rightarrow> if t \<noteq> 0 then int now - int t else 0)
      in (call_onSpeechEnd cfg duration (s\<lparr>isSpeaking := False\<rparr>))
           \<lparr>silenceTimerRef := None, speechStartTimeRef := None\<rparr>)"

text \<open>
  \<^verbatim>\<open>startListening\<close> (with the outcome of \<^verbatim>\<open>getUserMedia\<close>: the number of tracks, or
  \<open>None\<close> when it rejects and the function rethrows) and \<^verbatim>\<open>stopListening\<close>.
\<close>

definition startListening ::
  "VoiceDetectionConfig \<Rightarrow> nat option \<Rightarrow> nat list \<Rightarrow> nat \<Rightarrow> VoiceDetection \<Rightarrow> VoiceDetection" where
  "startListening cfg microphone dataArray now s =
     (case microphone of
        None \<Rightarrow> s
      | Some n \<Rightarrow>
          analyzeAudio cfg dataArray now
            (s\<lparr>vad_streamRef := Some (replicate n True), audioContextRef := True,
               analyserRef := True, vad_isListening := True\<rparr>))"

definition stopListening :: "VoiceDetection \<Rightarrow> VoiceDetection" where
  "stopListening s =
     (let s1 = (if truthyRef (animationFrameRef s) then s\<lparr>animationFrameRef := None\<rparr> else s);
          s2 = (case silenceTimerRef s1 of
                  None \<Rightarrow> s1
                | Some i \<Rightarrow>
                    if i \<noteq> 0 then (vad_clearTimeout i s1)\<lparr>silenceTimerRef := None\<rparr> else s1);
          s3 = (case vad_streamRef s2 of
                  None \<Rightarrow> s2
                | Some tracks \<Rightarrow> s2\<lparr>vad_streamRef := None\<rparr>)
      in s3\<lparr>audioContextRef := False, analyserRef := False, isSpeaking := False,
            vad_energy := Some 0, vad_isListening := False\<rparr>)"

text \<open>
  The events of the hook. An animation frame runs \<^verbatim>\<open>analyzeAudio\<close> on the analyser's
  reading. Timer \<open>i\<close> fires at clock reading \<open>now\<close> only if it is still waiting and its
  delay has elapsed since it was armed; firing spends it.
\<close>

datatype vad_event =
    Frame "nat list" nat
  | TimerFires nat nat
  | StartListening "nat option" "nat list" nat
  | StopListening

definition due :: "VoiceDetection \<Rightarrow> nat \<Rightarrow> nat \<Rightarrow> bool" where
  "due s i now =
     (0 < i \<and> i \<le> length (vad_timers s) \<and> waiting (vad_timers s ! (i - 1))
      \<and> armed_at (vad_timers s ! (i - 1)) + timeout (vad_timers s ! (i - 1)) \<le> now)"

fun vad_step :: "VoiceDetectionConfig \<Rightarrow> VoiceDetection \<Rightarrow> vad_event \<Rightarrow> VoiceDetection" where
  "vad_step cfg s (Frame dataArray now) = analyzeAudio cfg dataArray now s"
| "vad_step cfg s (TimerFires i now) =
     (if due s i now then silenceElapsed cfg now (vad_clearTimeout i s) else s)"
| "vad_step cfg s (StartListening microphone dataArray now) =
     startListening cfg microphone dataArray now s"
| "vad_step cfg s StopListening = stopListening s"

definition vad_run :: "VoiceDetectionConfig \<Rightarrow> VoiceDetection \<Rightarrow> vad_event list \<Rightarrow> VoiceDetection" where
  "vad_run cfg s evs = foldl (vad_step cfg) s evs"

text \<open>
  Vocabulary of the debounce property. An event is \<open>loud\<close> when it runs \<^verbatim>\<open>analyzeAudio\<close>
  on a reading above the threshold; \<open>clock\<close> is the clock reading of an event that has
  one.
\<close>

fun loud :: "VoiceDetectionConfig \<Rightarrow> vad_event \<Rightarrow> bool" where
  "loud cfg (Frame dataArray now) = hasSpeech cfg dataArray"
| "loud cfg (StartListening (Some n) dataArray now) = hasSpeech cfg dataArray"
| "loud cfg ev = False"

fun probeTime :: "vad_event \<Rightarrow> nat option" where
  "probeTime (Frame dataArray now) = Some now"
| "probeTime (StartListening (Some n) dataArray now) = Some now"
| "probeTime ev = None"

fun clockPositive :: "vad_event \<Rightarrow> bool" where
  "clockPositive (Frame dataArray now) = (0 < now)"
| "clockPositive (TimerFires i now) = (0 < now)"
| "clockPositive (StartListening microphone dataArray now) = (0 < now)"
| "clockPositive StopListening = True"

definition speechEnds :: "VoiceDetection \<Rightarrow> int list" where
  "speechEnds s = concat (map (\<lambda>c. case c of SpeechEnd d \<Rightarrow> [d] | SpeechStart \<Rightarrow> []) (vad_calls s))"

text \<open>
  \<open>quietSince cfg evs t\<close>: the history \<open>evs\<close> holds a reading at clock \<open>t\<close> that was not
  above the threshold, and no reading after it was.
\<close>

definition quietSince :: "VoiceDetectionConfig \<Rightarrow> vad_event list \<Rightarrow> nat \<Rightarrow> bool" where
  "quietSince cfg evs t \<longleftrightarrow>
     (\<exists>a ev b. evs = a @ ev # b \<and> \<not> loud cfg ev \<and> probeTime ev = Some t
        \<and> (\<forall>e\<in>set b. \<not> loud cfg e))"

text \<open>
  The invariant of the states the hook reaches after the history \<open>evs\<close>: the only timer
  that can still fire is the one \<^verbatim>\<open>silenceTimerRef\<close> names; such a timer exists only
  while speaking, with the start of the speech recorded, and it was armed by a quiet
  reading since which every reading was quiet.
\<close>

definition vad_inv :: "VoiceDetectionConfig \<Rightarrow> vad_event list \<Rightarrow> VoiceDetection \<Rightarrow> bool" where
  "vad_inv cfg evs s \<longleftrightarrow>
     (\<forall>i<length (vad_timers s). waiting (vad_timers s ! i) \<longrightarrow> silenceTimerRef s = Some (Suc i)) \<and>
     (isSpeaking s \<longrightarrow> (\<exists>start. speechStartTimeRef s = Some start \<and> 0 < start)) \<and>
     (\<forall>j. silenceTimerRef s = Some j \<longrightarrow>
        0 < j \<and> j \<le> length (vad_timers s) \<and> waiting (vad_timers s ! (j - 1))
        \<and> timeout (vad_timers s ! (j - 1)) = silenceDuration cfg
        \<and> isSpeaking s \<and> analyserRef s
        \<and> quietSince cfg evs (armed_at (vad_timers s ! (j - 1))))"

text \<open>
  \<open>quietWindow cfg evs t\<close>: the history \<open>evs\<close> of a freshly mounted hook holds a reading
  at clock \<open>t\<close> that was not above the threshold; no reading after it was; and the hook
  was in the speaking state after that reading and after every event since.
\<close>

definition quietWindow :: "VoiceDetectionConfig \<Rightarrow> vad_event list \<Rightarrow> nat \<Rightarrow> bool" where
  "quietWindow cfg evs t \<longleftrightarrow>
     (\<exists>a ev b. evs = a @ ev # b \<and> \<not> loud cfg ev \<and> probeTime ev = Some t
        \<and> (\<forall>e\<in>set b. \<not> loud cfg e)
        \<and> (\<forall>n\<le>length b. isSpeaking (vad_run cfg initialVoiceDetection (a @ ev # take n b))))"

section \<open>Properties of the speech-to-text adapter\<close>

lemma lookupSpeechRecognition_None:
  "lookupSpeechRecognition w = None \<longleftrightarrow>
     SpeechRecognition w = None \<and> webkitSpeechRecognition w = None"
  by (simp add: lookupSpeechRecognition_def split: option.split)

text \<open>
  Claim C6. Where the environment has no speech-recognition engine, \<open>startRecognition\<close>
  returns \<open>False\<close> at once: the only effects are one console line and one call of the
  configured error callback with the message, no engine is created and the listening
  flag is untouched; the function has a value, so nothing is thrown. Where an engine
  exists and both its constructor and \<^verbatim>\<open>start()\<close> succeed, the result is \<open>True\<close>.
\<close>

theorem startRecognition_engine_contract:
  "(lookupSpeechRecognition w = None \<longrightarrow>
      startRecognition cfg w s =
        (False,
         s\<lparr>stt_console := stt_console s @ [''Speech recognition not supported in this browser''],
           onError_calls := onError_calls s @
             (if has_onError cfg then [''Speech recognition not supported in this browser'']
              else [])\<rparr>)) \<and>
   (\<forall>e. lookupSpeechRecognition w = Some e \<and> engine_starts e \<longrightarrow>
      fst (startRecognition cfg w s) = True)"
  by (auto simp: startRecognition_def call_onError_def console_error_def tryStart_def
      engine_starts_def Let_def split: option.splits)

theorem startRecognition_engine_contract_witness:
  "startRecognition (defaultSpeechToTextConfig\<lparr>has_onError := True\<rparr>)
     \<lparr>SpeechRecognition = None, webkitSpeechRecognition = None\<rparr>
     \<lparr>recognitionRef = None, isListeningRef = False, stt_console = [], onError_calls = [],
      onTranscript_calls = [], engine_stop_calls = 0\<rparr> =
     (False,
      \<lparr>recognitionRef = None, isListeningRef = False,
       stt_console = [''Speech recognition not supported in this browser''],
       onError_calls = [''Speech recognition not supported in this browser''],
       onTranscript_calls = [], engine_stop_calls = 0\<rparr>) \<and>
   fst (startRecognition defaultSpeechToTextConfig
     \<lparr>SpeechRecognition = None,
      webkitSpeechRecognition = Some \<lparr>constructor_throws = None, start_throws = None\<rparr>\<rparr>
     \<lparr>recognitionRef = None, isListeningRef = False, stt_console = [], onError_calls = [],
      onTranscript_calls = [], engine_stop_calls = 0\<rparr>) = True"
proof -
  let ?w0 = "\<lparr>SpeechRecognition = None, webkitSpeechRecognition = None\<rparr>"
  let ?e = "\<lparr>constructor_throws = None, start_throws = None\<rparr>"
  let ?w1 = "\<lparr>SpeechRecognition = None, webkitSpeechRecognition = Some ?e\<rparr>"
  have a: "lookupSpeechRecognition ?w0 = None"
    by (simp add: lookupSpeechRecognition_def)
  have b: "lookupSpeechRecognition ?w1 = Some ?e \<and> engine_starts ?e"
    by (simp add: lookupSpeechRecognition_def engine_starts_def)
  from a startRecognition_engine_contract [of ?w0]
  have "startRecognition (defaultSpeechToTextConfig\<lparr>has_onError := True\<rparr>) ?w0
     \<lparr>recognitionRef = None, isListeningRef = False, stt_console = [], onError_calls = [],
      onTranscript_calls = [], engine_stop_calls = 0\<rparr> =
     (False,
      \<lparr>recognitionRef = None, isListeningRef = False,
       stt_console = [''Speech recognition not supported in this browser''],
       onError_calls = [''Speech recognition not supported in this browser''],
       onTranscript_calls = [], engine_stop_calls = 0\<rparr>)"
    by (simp add: defaultSpeechToTextConfig_def)
  moreover from b startRecognition_engine_contract [of ?w1]
  have "fst (startRecognition defaultSpeechToTextConfig ?w1
     \<lparr>recognitionRef = None, isListeningRef = False, stt_console = [], onError_calls = [],
      onTranscript_calls = [], engine_stop_calls = 0\<rparr>) = True"
    by blast
  ultimately show ?thesis by simp
qed

section \<open>Properties of the skeleton renderer\<close>

text \<open>On a list of the declared type the reads of the renderer are the typed fields.\<close>

lemma index_keypointsValue:
  "index (keypointsValue kps) i = (if i < length kps then keypointValue (kps ! i) else JUndefined)"
  by (simp add: keypointsValue_def)

lemma truthy_keypointValue: "truthy (keypointValue k) = (k \<noteq> None)"
  by (simp add: keypointValue_def split: option.split)

lemma getProp_keypointValue:
  "getProp (keypointValue (Some p)) ''confidence'' = JNum (kp_confidence p)"
  "getProp (keypointValue (Some p)) ''x'' = JNum (kp_x p)"
  "getProp (keypointValue (Some p)) ''y'' = JNum (kp_y p)"
  by (simp_all add: keypointValue_def)

lemma js_gt_Num: "js_gt H (JNum x) c = (x > c)"
  by (simp add: js_gt_def)

lemma js_mul_Num: "js_mul H (JNum x) c = Some (x * c)"
  by (simp add: js_mul_def)

lemmas typed_simps = index_keypointsValue truthy_keypointValue getProp_keypointValue
  js_gt_Num js_mul_Num

lemma drawEdge_typed:
  "drawEdge H (keypointsValue kps) sx sy e = edgeSpec kps sx sy e"
  by (auto simp: drawEdge_def edgeSpec_def visible_def lineSegment_def Let_def typed_simps
      split: option.splits)

lemma drawPoint_typed:
  "drawPoint H sx sy (keypointValue k) = pointSpec sx sy k"
  by (auto simp: drawPoint_def pointSpec_def circle_def keypointColor_def confidenceBand_def
      typed_simps split: option.splits)

lemma drawSkeleton_typed:
  assumes "kps \<noteq> []"
  shows "drawSkeleton H (Some (w, h)) True (keypointsValue kps) = (skeletonSpec w h kps, None)"
proof -
  have e: "drawEdge H (keypointsValue kps) sx sy = edgeSpec kps sx sy" for sx sy
    by (rule ext) (simp add: drawEdge_typed)
  have p: "drawPoint H sx sy \<circ> keypointValue = pointSpec sx sy" for sx sy
    by (rule ext) (simp add: drawPoint_typed)
  have l: "getProp (keypointsValue kps) ''length'' \<noteq> JNum 0"
    using assms by (simp add: keypointsValue_def)
  have t: "truthy (keypointsValue kps)" by (simp add: keypointsValue_def)
  show ?thesis
    unfolding drawSkeleton_def skeletonSpec_def using l t
    by (simp add: e Let_def) (simp add: keypointsValue_def p)
qed

lemma no_draw_edgeSpec:
  assumes "\<forall>k\<in>set kps. \<forall>p. k = Some p \<longrightarrow> kp_confidence p \<le> 0.2"
  shows "edgeSpec kps sx sy e = []"
proof -
  have "\<not> visible kps i" for i
    using assms by (auto simp: visible_def split: option.splits dest!: nth_mem)
  then show ?thesis by (simp add: edgeSpec_def)
qed

lemma no_draw_pointSpec:
  assumes "\<forall>k\<in>set kps. \<forall>p. k = Some p \<longrightarrow> kp_confidence p \<le> 0.2"
  shows "concat (map (pointSpec sx sy) kps) = []"
  using assms by (induction kps) (auto simp: pointSpec_def split: option.splits)

lemma no_draw_calls:
  assumes "\<forall>k\<in>set kps. \<forall>p. k = Some p \<longrightarrow> kp_confidence p \<le> 0.2"
  shows "filter is_draw_call (fst (drawSkeleton H canvas video (keypointsValue kps))) = []"
proof (cases "kps = []")
  case True
  then show ?thesis by (simp add: drawSkeleton_def keypointsValue_def)
next
  case False
  show ?thesis
  proof (cases canvas)
    case None
    then show ?thesis by (simp add: drawSkeleton_def)
  next
    case (Some wh)
    obtain w h where wh: "wh = (w, h)" by (cases wh)
    show ?thesis
    proof (cases video)
      case True
      have "concat (map (edgeSpec kps sx sy) POSE_PAIRS) = []" for sx sy
        using no_draw_edgeSpec [OF assms] by simp
      then show ?thesis
        using drawSkeleton_typed [OF False, of H w h] no_draw_pointSpec [OF assms] Some wh True
        by (simp add: skeletonSpec_def)
    next
      case False
      then show ?thesis using Some wh
        by (simp add: drawSkeleton_def Let_def)
    qed
  qed
qed

lemma strokes_append: "strokes (xs @ ys) = strokes xs + strokes ys"
  by (simp add: strokes_def)

lemma strokes_points: "strokes (concat (map (pointSpec sx sy) kps)) = 0"
  by (induction kps) (auto simp: strokes_def pointSpec_def circle_def split: option.splits)

lemma strokes_edges:
  "strokes (concat (map (edgeSpec kps sx sy) es)) =
     length (filter (\<lambda>e. visible kps (fst e) \<and> visible kps (snd e)) es)"
  by (induction es) (auto simp: strokes_def edgeSpec_def lineSegment_def)

lemma strokes_Nil: "strokes [] = 0"
  by (simp add: strokes_def)

lemma strokes_Cons: "strokes (op # ops) = (if op = Stroke then 1 else 0) + strokes ops"
  by (simp add: strokes_def)

lemma strokes_skeletonSpec:
  "strokes (skeletonSpec w h kps) =
     length (filter (\<lambda>e. visible kps (fst e) \<and> visible kps (snd e)) POSE_PAIRS)"
  by (simp add: skeletonSpec_def strokes_append strokes_points strokes_edges strokes_Cons
      strokes_Nil)

lemma POSE_PAIRS_bound: "e \<in> set POSE_PAIRS \<Longrightarrow> fst e < 18 \<and> snd e < 18"
  by (auto simp: POSE_PAIRS_def)

lemma all_visible:
  assumes "18 \<le> length kps" and "\<forall>k\<in>set kps. \<exists>p. k = Some p \<and> kp_confidence p = 1"
    and "i < 18"
  shows "visible kps i"
proof -
  have "i < length kps" using assms by simp
  then have "kps ! i \<in> set kps" by simp
  with assms(2) obtain p where "kps ! i = Some p" "kp_confidence p = 1" by blast
  with \<open>i < length kps\<close> show ?thesis by (simp add: visible_def)
qed

lemma full_confidence_all_edges:
  assumes "18 \<le> length kps" and "\<forall>k\<in>set kps. \<exists>p. k = Some p \<and> kp_confidence p = 1"
  shows "strokes (fst (drawSkeleton H (Some (w, h)) True (keypointsValue kps))) = length POSE_PAIRS"
    and "\<forall>e\<in>set POSE_PAIRS. drawEdge H (keypointsValue kps) sx sy e =
           lineSegment sx sy (the (kps ! fst e)) (the (kps ! snd e))"
proof -
  have ne: "kps \<noteq> []" using assms(1) by auto
  have v: "visible kps (fst e) \<and> visible kps (snd e)" if "e \<in> set POSE_PAIRS" for e
    using POSE_PAIRS_bound [OF that] all_visible [OF assms] by blast
  then have "filter (\<lambda>e. visible kps (fst e) \<and> visible kps (snd e)) POSE_PAIRS = POSE_PAIRS"
    by (simp add: filter_id_conv)
  then show "strokes (fst (drawSkeleton H (Some (w, h)) True (keypointsValue kps))) = length POSE_PAIRS"
    by (simp add: drawSkeleton_typed [OF ne] strokes_skeletonSpec)
  show "\<forall>e\<in>set POSE_PAIRS. drawEdge H (keypointsValue kps) sx sy e =
           lineSegment sx sy (the (kps ! fst e)) (the (kps ! snd e))"
    using v by (simp add: drawEdge_typed edgeSpec_def)
qed

text \<open>
  Claim C4. For every list \<open>kps\<close> of the declared type \<^verbatim>\<open>(KeyPoint | null)[]\<close>:
  \<^item> if no keypoint has a confidence above 0.2 (in particular when all are below 0.2), the
    context receives no path or paint call, whatever the canvas and video refs hold;
  \<^item> if all 18 keypoints are present with confidence 1 and the refs are mounted, each pair
    of \<open>POSE_PAIRS\<close> issues exactly its one stroked segment, 17 strokes in all;
  \<^item> a pair issues its segment if and only if both endpoints are visible (in range, not
    \<^verbatim>\<open>null\<close>, confidence strictly above 0.2), and nothing otherwise;
  \<^item> a keypoint with confidence above 0.2 is drawn as one filled circle whose colour is
    the high band above 0.7, the medium band above 0.5 and the low band otherwise, and a
    keypoint at or below 0.2 is not drawn;
  \<^item> for a non-empty list and mounted refs the whole output is \<open>skeletonSpec\<close>, and no
    exception is raised.
\<close>

theorem drawSkeleton_contract:
  fixes kps :: "KeyPoint option list"
  shows
    "((\<forall>k\<in>set kps. \<forall>p. k = Some p \<longrightarrow> kp_confidence p \<le> 0.2) \<longrightarrow>
        filter is_draw_call (fst (drawSkeleton H canvas video (keypointsValue kps))) = []) \<and>
     (18 \<le> length kps \<and> (\<forall>k\<in>set kps. \<exists>p. k = Some p \<and> kp_confidence p = 1) \<longrightarrow>
        strokes (fst (drawSkeleton H (Some (w, h)) True (keypointsValue kps))) = length POSE_PAIRS \<and>
        length POSE_PAIRS = 17 \<and>
        (\<forall>e\<in>set POSE_PAIRS.
           drawEdge H (keypointsValue kps) sx sy e =
             lineSegment sx sy (the (kps ! fst e)) (the (kps ! snd e)))) \<and>
     drawEdge H (keypointsValue kps) sx sy e =
       (if visible kps (fst e) \<and> visible kps (snd e)
        then lineSegment sx sy (the (kps ! fst e)) (the (kps ! snd e)) else []) \<and>
     drawPoint H sx sy (keypointValue (Some p)) =
       (if kp_confidence p > 0.2
        then [SetFillStyle
                (if kp_confidence p > 0.7 then ''#ff0000''
                 else if kp_confidence p > 0.5 then ''#ffff00'' else ''#ff8800''),
              SetShadowColor
                (if kp_confidence p > 0.7 then ''#ff0000''
                 else if kp_confidence p > 0.5 then ''#ffff00'' else ''#ff8800''),
              BeginPath,
              Arc (Some (kp_x p * sx)) (Some (kp_y p * sy)) 6 0 2,
              Fill]
        else []) \<and>
     (kps \<noteq> [] \<longrightarrow>
        drawSkeleton H (Some (w, h)) True (keypointsValue kps) = (skeletonSpec w h kps, None))"
proof -
  have "length POSE_PAIRS = 17" by (simp add: POSE_PAIRS_def)
  moreover have "drawPoint H sx sy (keypointValue (Some p)) =
       (if kp_confidence p > 0.2
        then [SetFillStyle
                (if kp_confidence p > 0.7 then ''#ff0000''
                 else if kp_confidence p > 0.5 then ''#ffff00'' else ''#ff8800''),
              SetShadowColor
                (if kp_confidence p > 0.7 then ''#ff0000''
                 else if kp_confidence p > 0.5 then ''#ffff00'' else ''#ff8800''),
              BeginPath,
              Arc (Some (kp_x p * sx)) (Some (kp_y p * sy)) 6 0 2,
              Fill]
        else [])"
    by (simp add: drawPoint_typed pointSpec_def circle_def confidenceBand_def)
  ultimately show ?thesis
    using no_draw_calls [of kps H canvas video] full_confidence_all_edges(1) [of kps H w h]
      full_confidence_all_edges(2) [of kps H sx sy] drawSkeleton_typed [of kps H w h]
    by (simp add: drawEdge_typed edgeSpec_def)
qed

theorem drawSkeleton_contract_witness:
  "filter is_draw_call
     (fst (drawSkeleton (\<lambda>v. None) (Some (640, 480)) True
        (keypointsValue [Some (KeyPoint 10 20 0.1), None]))) = [] \<and>
   strokes
     (fst (drawSkeleton (\<lambda>v. None) (Some (640, 480)) True
        (keypointsValue (replicate 18 (Some (KeyPoint 320 240 1)))))) = 17 \<and>
   drawSkeleton (\<lambda>v. None) (Some (640, 480)) True (keypointsValue [Some (KeyPoint 10 20 0.1), None])
     = (skeletonSpec 640 480 [Some (KeyPoint 10 20 0.1), None], None)"
proof -
  let ?low = "[Some (KeyPoint 10 20 0.1), None]"
  let ?full = "replicate 18 (Some (KeyPoint 320 240 1))"
  have a: "\<forall>k\<in>set ?low. \<forall>p. k = Some p \<longrightarrow> kp_confidence p \<le> 0.2" by simp
  have b: "18 \<le> length ?full \<and> (\<forall>k\<in>set ?full. \<exists>p. k = Some p \<and> kp_confidence p = 1)" by simp
  have c: "?low \<noteq> []" by simp
  note low = drawSkeleton_contract [where kps = ?low and H = "\<lambda>v. None"
      and canvas = "Some (640, 480)" and video = True and w = 640 and h = 480 and sx = 1 and sy = 1
      and e = "(0, 1)" and p = "KeyPoint 0 0 0"]
  note full = drawSkeleton_contract [where kps = ?full and H = "\<lambda>v. None"
      and canvas = "Some (640, 480)" and video = True and w = 640 and h = 480 and sx = 1 and sy = 1
      and e = "(0, 1)" and p = "KeyPoint 0 0 0"]
  from a low
  have "filter is_draw_call
     (fst (drawSkeleton (\<lambda>v. None) (Some (640, 480)) True (keypointsValue ?low))) = []"
    by blast
  moreover from b full
  have "strokes (fst (drawSkeleton (\<lambda>v. None) (Some (640, 480)) True (keypointsValue ?full)))
      = length POSE_PAIRS \<and> length POSE_PAIRS = 17"
    by blast
  moreover from c low
  have "drawSkeleton (\<lambda>v. None) (Some (640, 480)) True (keypointsValue ?low)
     = (skeletonSpec 640 480 ?low, None)"
    by blast
  ultimately show ?thesis by simp
qed

section \<open>Properties of the message dispatcher\<close>

lemma stats_drawOverlay: "stats (fst (drawOverlay H k p)) = stats p"
  by (simp add: drawOverlay_def Let_def split: option.split)

lemma stats_coaching: "stats (coaching now r p) = stats p"
  by (simp add: coaching_def console_log_def synth_speak_def addFeedback_def split: option.split)

lemma stats_handleAnalysis:
  "stats (fst (handleAnalysis H cl now r p)) = computeStats cl (getProp r ''data'')"
  by (simp add: handleAnalysis_def Let_def stats_drawOverlay stats_coaching split: option.split)

lemma type_not_nullish: "getProp r ''type'' = JStr t \<Longrightarrow> \<not> nullish r"
  by (cases r) auto

lemma stats_onmessage_analysis:
  assumes "getProp r ''type'' = JStr ''analysis''" and "truthy (getProp r ''data'')"
  shows "stats (onmessage H cl now (Some r) p) = computeStats cl (getProp r ''data'')"
  using assms type_not_nullish [OF assms(1)]
  by (simp add: onmessage_def dispatch_def Let_def stats_handleAnalysis console_err_def
      split: option.split)

lemma toFixed0_72_5: "toFixed0 72.5 = Some ''73''"
  by (simp add: toFixed0_def show_nat.simps digit_char_def)

lemma toFixed0_half: "toFixed0 (145 / 2) = Some ''73''"
  using toFixed0_72_5 by simp

text \<open>
  Claim C5. For an inbound message of type \<^verbatim>\<open>analysis\<close> with a data payload, in the
  first revision's dispatcher: the new stats are a function of the payload (and of the
  handler's closure) alone, so nothing of the previous stats survives; a
  \<^verbatim>\<open>balance.balance_score\<close> of 72.5 is displayed as \<^verbatim>\<open>73/100\<close>; an emotion or a posture
  status that the payload does not carry becomes \<^verbatim>\<open>Unknown\<close>.
\<close>

theorem analysis_recomputes_stats:
  assumes "getProp response ''type'' = JStr ''analysis''"
    and "truthy (getProp response ''data'')"
  shows
    "stats (onmessage H cl now (Some response) p) = computeStats cl (getProp response ''data'') \<and>
     stats (onmessage H cl now (Some response) p) = stats (onmessage H cl now (Some response) p') \<and>
     (optProp (getProp (getProp response ''data'') ''balance'') ''balance_score'' = JNum 72.5 \<longrightarrow>
        balanceDisplay (stats (onmessage H cl now (Some response) p)) = Some (Inr ''73/100'')) \<and>
     (optProp (getProp (getProp response ''data'') ''emotion'') ''emotion'' = JUndefined \<longrightarrow>
        emotion (stats (onmessage H cl now (Some response) p)) = JStr ''Unknown'') \<and>
     (optProp (getProp (getProp response ''data'') ''posture'') ''status'' = JUndefined \<longrightarrow>
        posture (stats (onmessage H cl now (Some response) p)) = JStr ''Unknown'')"
proof -
  have s: "stats (onmessage H cl now (Some response) q) = computeStats cl (getProp response ''data'')"
    for q
    using assms by (rule stats_onmessage_analysis)
  show ?thesis
    by (simp add: s computeStats_def js_or_def balanceDisplay_def toFixed0_half)
qed

theorem analysis_recomputes_stats_witness:
  "balanceDisplay
     (stats (onmessage (\<lambda>v. None) \<lparr>cl_isStreaming = False, cl_frameCount = JNum 0\<rparr> ''10:00:00''
        (Some (JObj [(''type'', JStr ''analysis''),
                     (''data'', JObj [(''frame_num'', JNum 7),
                                      (''balance'', JObj [(''balance_score'', JNum 72.5)])])]))
        (initialPage\<lparr>stats := initialStats\<lparr>emotion := JStr ''Happy'', posture := JStr ''Good''\<rparr>\<rparr>)))
     = Some (Inr ''73/100'') \<and>
   emotion
     (stats (onmessage (\<lambda>v. None) \<lparr>cl_isStreaming = False, cl_frameCount = JNum 0\<rparr> ''10:00:00''
        (Some (JObj [(''type'', JStr ''analysis''),
                     (''data'', JObj [(''frame_num'', JNum 7),
                                      (''balance'', JObj [(''balance_score'', JNum 72.5)])])]))
        (initialPage\<lparr>stats := initialStats\<lparr>emotion := JStr ''Happy'', posture := JStr ''Good''\<rparr>\<rparr>)))
     = JStr ''Unknown'' \<and>
   posture
     (stats (onmessage (\<lambda>v. None) \<lparr>cl_isStreaming = False, cl_frameCount = JNum 0\<rparr> ''10:00:00''
        (Some (JObj [(''type'', JStr ''analysis''),
                     (''data'', JObj [(''frame_num'', JNum 7),
                                      (''balance'', JObj [(''balance_score'', JNum 72.5)])])]))
        (initialPage\<lparr>stats := initialStats\<lparr>emotion := JStr ''Happy'', posture := JStr ''Good''\<rparr>\<rparr>)))
     = JStr ''Unknown''"
proof -
  let ?data = "JObj [(''frame_num'', JNum 7), (''balance'', JObj [(''balance_score'', JNum 72.5)])]"
  let ?r = "JObj [(''type'', JStr ''analysis''), (''data'', ?data)]"
  have a: "getProp ?r ''type'' = JStr ''analysis''" by simp
  have b: "truthy (getProp ?r ''data'')" by simp
  have c: "optProp (getProp (getProp ?r ''data'') ''balance'') ''balance_score'' = JNum 72.5"
    by (simp add: optProp_def)
  have d: "optProp (getProp (getProp ?r ''data'') ''emotion'') ''emotion'' = JUndefined"
    by (simp add: optProp_def)
  have e: "optProp (getProp (getProp ?r ''data'') ''posture'') ''status'' = JUndefined"
    by (simp add: optProp_def)
  from analysis_recomputes_stats [OF a b] c d e show ?thesis by blast
qed

text \<open>
  Claim C8, as amended. The handler has a result for every message text: every
  exception of its \<^verbatim>\<open>try\<close> block is caught. A text that is not valid JSON, and one that
  parses to \<^verbatim>\<open>null\<close>, is caught, logged and dropped: the page is as before but for the
  one console line. A parsed value that is none of the four messages is dropped without a
  console line: the page is exactly as before. In each case the state the user sees is
  unchanged.
\<close>

theorem onmessage_drops_unknown:
  "caughtLoggedDropped p (onmessage H cl now None p) \<and>
   (nullish r \<longrightarrow> caughtLoggedDropped p (onmessage H cl now (Some r) p)) \<and>
   (\<not> nullish r \<and> unknownShape r \<longrightarrow> onmessage H cl now (Some r) p = p) \<and>
   (unknownShape r \<longrightarrow> clientState (onmessage H cl now (Some r) p) = clientState p) \<and>
   clientState (onmessage H cl now None p) = clientState p"
  by (cases "nullish r")
     (auto simp: onmessage_def dispatch_def caughtLoggedDropped_def unknownShape_def
        clientState_def console_err_def Let_def)

theorem onmessage_drops_unknown_witness:
  "caughtLoggedDropped initialPage
     (onmessage (\<lambda>v. None) \<lparr>cl_isStreaming = False, cl_frameCount = JNum 0\<rparr> ''10:00:00''
        (Some JNull) initialPage) \<and>
   onmessage (\<lambda>v. None) \<lparr>cl_isStreaming = False, cl_frameCount = JNum 0\<rparr> ''10:00:00''
     (Some (JObj [(''type'', JStr ''foo'')])) initialPage = initialPage \<and>
   clientState
     (onmessage (\<lambda>v. None) \<lparr>cl_isStreaming = False, cl_frameCount = JNum 0\<rparr> ''10:00:00''
        (Some (JNum 5)) initialPage) = clientState initialPage"
proof -
  let ?cl = "\<lparr>cl_isStreaming = False, cl_frameCount = JNum 0\<rparr>"
  have a: "nullish JNull" by simp
  have b: "\<not> nullish (JObj [(''type'', JStr ''foo'')]) \<and> unknownShape (JObj [(''type'', JStr ''foo'')])"
    by (simp add: unknownShape_def)
  have c: "unknownShape (JNum 5)" by (simp add: unknownShape_def)
  from a onmessage_drops_unknown [of initialPage "\<lambda>v. None" ?cl "''10:00:00''" JNull]
  have "caughtLoggedDropped initialPage
     (onmessage (\<lambda>v. None) ?cl ''10:00:00'' (Some JNull) initialPage)"
    by blast
  moreover from b
    onmessage_drops_unknown [of initialPage "\<lambda>v. None" ?cl "''10:00:00''"
      "JObj [(''type'', JStr ''foo'')]"]
  have "onmessage (\<lambda>v. None) ?cl ''10:00:00'' (Some (JObj [(''type'', JStr ''foo'')])) initialPage
      = initialPage"
    by blast
  moreover from c onmessage_drops_unknown [of initialPage "\<lambda>v. None" ?cl "''10:00:00''" "JNum 5"]
  have "clientState (onmessage (\<lambda>v. None) ?cl ''10:00:00'' (Some (JNum 5)) initialPage)
      = clientState initialPage"
    by blast
  ultimately show ?thesis by blast
qed

text \<open>
  Claim C8 as stated fails: \<^verbatim>\<open>{"type":"foo"}\<close> has an unknown shape, and the handler
  neither catches nor logs anything for it.
\<close>

theorem unknown_type_is_not_logged:
  "unknownShape (JObj [(''type'', JStr ''foo'')]) \<and>
   \<not> caughtLoggedDropped initialPage
       (onmessage (\<lambda>v. None) \<lparr>cl_isStreaming = False, cl_frameCount = JNum 0\<rparr> ''10:00:00''
          (Some (JObj [(''type'', JStr ''foo'')])) initialPage)"
  by (simp add: unknownShape_def caughtLoggedDropped_def onmessage_def dispatch_def Let_def
      console_err_def initialPage_def)

section \<open>Sessions of the first revision\<close>

text \<open>
  The scenarios below start from a freshly mounted page, with a host that coerces no
  string or object to a number; the payloads hold numbers only.
\<close>

lemmas session_defs = run_def startStreaming_def initialPage_def initialStats_def render_def
  connectWebSocket_def socketOpen_def socketState_def sizeCanvases_def setTimer_def console_log_def
  console_err_def socket_opened_def socket_closed_def socket_message_def onopen_def onclose_def
  updateSocket_def Let_def cameraFailed_def

lemmas message_defs = onmessage_def dispatch_def handleAnalysis_def computeStats_def drawOverlay_def
  coaching_def optProp_def js_or_def

lemmas stop_defs = stopStreaming_def clearFrameInterval_def clearReconnectTimeout_def
  stopMediaStream_def closeWebSocket_def clearVideoElement_def synth_cancel_def clearTimer_def
  stopTracks_def socket_send_def socket_close_def

lemmas draw_defs = drawSkeleton_def drawEdge_def drawPoint_def POSE_PAIRS_def js_gt_def js_mul_def
  keypointColor_def strokes_def

text \<open>
  The handler's fallback for the frame count is the value its closure holds, and the
  handlers of a socket are those of the render that called \<^verbatim>\<open>connectWebSocket\<close>.
\<close>

lemma frameCount_computeStats:
  "frameCount (computeStats cl data) = js_or (getProp data ''frame_num'') (cl_frameCount cl)"
  by (simp add: computeStats_def)

lemma handlers_after_start:
  "handlers (sockets (startStreaming (Some n) True initialPage) ! 0)
     = \<lparr>cl_isStreaming = False, cl_frameCount = JNum 0\<rparr>"
  by (simp add: session_defs)

text \<open>
  Claim C9 at a failing input. The session is started and the socket opens; an analysis
  message with \<^verbatim>\<open>frame_num\<close> 5 sets the displayed frame count to 5; the next one, with
  \<^verbatim>\<open>frame_num\<close> 0, sets it to 0, the \<^verbatim>\<open>stats.frameCount\<close> of the render that created the
  handler, and not to the 5 displayed before.
\<close>

theorem frame_count_falls_back_to_closure:
  "frameCount (stats (run (\<lambda>v. None) initialPage
     [Start (Some 1) True, Opened 0,
      Message 0 ''10:00:00''
        (Some (JObj [(''type'', JStr ''analysis''), (''data'', JObj [(''frame_num'', JNum 5)])]))]))
     = JNum 5 \<and>
   frameCount (stats (run (\<lambda>v. None) initialPage
     [Start (Some 1) True, Opened 0,
      Message 0 ''10:00:00''
        (Some (JObj [(''type'', JStr ''analysis''), (''data'', JObj [(''frame_num'', JNum 5)])])),
      Message 0 ''10:00:01''
        (Some (JObj [(''type'', JStr ''analysis''), (''data'', JObj [(''frame_num'', JNum 0)])]))]))
     = JNum 0"
  by (simp add: session_defs message_defs)

text \<open>
  Claim C2 at a failing input. The session is started, the socket opens and then closes
  with \<^verbatim>\<open>wasClean = false\<close>. The page is streaming, yet no reconnect is scheduled: the
  ref is still \<^verbatim>\<open>null\<close> and the only timer is the frame interval. The handler reads the
  \<^verbatim>\<open>isStreaming\<close> of the render that called \<^verbatim>\<open>connectWebSocket\<close>, which is the render
  before \<^verbatim>\<open>setIsStreaming(true)\<close>.
\<close>

theorem unclean_close_schedules_no_reconnect:
  "isStreaming (run (\<lambda>v. None) initialPage [Start (Some 1) True, Opened 0, Closed 0 False]) \<and>
   connectionStatus (run (\<lambda>v. None) initialPage [Start (Some 1) True, Opened 0, Closed 0 False])
     = Disconnected \<and>
   reconnectTimeoutRef (run (\<lambda>v. None) initialPage [Start (Some 1) True, Opened 0, Closed 0 False])
     = None \<and>
   map callback (timers (run (\<lambda>v. None) initialPage [Start (Some 1) True, Opened 0, Closed 0 False]))
     = [CaptureAndSendFrame]"
  by (simp add: session_defs)

text \<open>
  Claim C1 at a failing input. The session is started, the socket opens, and an analysis
  message with two confident keypoints draws one stroked edge and two circles on the
  overlay. After \<^verbatim>\<open>stopStreaming\<close> the overlay still holds that drawing, and
  \<^verbatim>\<open>lastAnalysis\<close> still holds the payload: neither is reset.
\<close>

theorem stop_keeps_overlay:
  "map_option (\<lambda>c. strokes (canvas_ops c))
     (overlayCanvasRef (run (\<lambda>v. None) initialPage
        [Start (Some 1) True, Opened 0,
         Message 0 ''10:00:00''
           (Some (JObj [(''type'', JStr ''analysis''),
              (''data'', JObj [(''frame_num'', JNum 1),
                 (''keypoints'',
                  JArr [JObj [(''x'', JNum 320), (''y'', JNum 100), (''confidence'', JNum 0.9)],
                        JObj [(''x'', JNum 320), (''y'', JNum 200), (''confidence'', JNum 0.9)]])])])),
         Stop])) = Some 1 \<and>
   lastAnalysis (run (\<lambda>v. None) initialPage
        [Start (Some 1) True, Opened 0,
         Message 0 ''10:00:00''
           (Some (JObj [(''type'', JStr ''analysis''),
              (''data'', JObj [(''frame_num'', JNum 1),
                 (''keypoints'',
                  JArr [JObj [(''x'', JNum 320), (''y'', JNum 100), (''confidence'', JNum 0.9)],
                        JObj [(''x'', JNum 320), (''y'', JNum 200), (''confidence'', JNum 0.9)]])])])),
         Stop]) \<noteq> JNull"
  by (simp add: session_defs message_defs stop_defs draw_defs)

section \<open>What the connection handlers do by themselves\<close>

text \<open>
  The close handler, as a function of the closure it was created in: with a closure that
  saw the page streaming, an unclean close schedules exactly one reconnect, 3000 ms
  ahead, and records its id; in every other case it schedules nothing.
\<close>

theorem onclose_schedules_reconnect:
  "onclose cl wasClean p =
     (if cl_isStreaming cl \<and> \<not> wasClean
      then (console_log ''Attempting to reconnect in 3s...''
              ((console_log ''WebSocket closed:'' p)\<lparr>connectionStatus := Disconnected\<rparr>))
             \<lparr>timers := timers p @
                [\<lparr>callback = Reconnect cl, delay = 3000, repeating = False, pending = True\<rparr>],
              reconnectTimeoutRef := Some (Suc (length (timers p)))\<rparr>
      else (console_log ''WebSocket closed:'' p)\<lparr>connectionStatus := Disconnected\<rparr>)"
  by (simp add: onclose_def Let_def setTimer_def console_log_def)

text \<open>
  \<^verbatim>\<open>connectWebSocket\<close> creates no socket and changes no status while the socket of
  \<^verbatim>\<open>wsRef\<close> is open; it only writes a console line. So does the reconnect callback.
\<close>

theorem connectWebSocket_idempotent:
  "(socketOpen p \<longrightarrow> connectWebSocket cl p = console_log ''WebSocket already connected'' p) \<and>
   (socketOpen p \<longrightarrow>
      sockets (connectWebSocket cl p) = sockets p \<and> wsRef (connectWebSocket cl p) = wsRef p
      \<and> connectionStatus (connectWebSocket cl p) = connectionStatus p) \<and>
   (socketOpen p \<longrightarrow> reconnect cl p = p \<or> reconnect cl p = console_log ''WebSocket already connected'' p)"
  by (simp add: connectWebSocket_def reconnect_def console_log_def)

theorem connectWebSocket_idempotent_witness:
  "connectionStatus (connectWebSocket \<lparr>cl_isStreaming = True, cl_frameCount = JNum 0\<rparr>
      (socket_opened 0 (startStreaming (Some 1) True initialPage))) = Connected \<and>
   length (sockets (connectWebSocket \<lparr>cl_isStreaming = True, cl_frameCount = JNum 0\<rparr>
      (socket_opened 0 (startStreaming (Some 1) True initialPage)))) = 1"
proof -
  let ?p = "socket_opened 0 (startStreaming (Some 1) True initialPage)"
  let ?cl = "\<lparr>cl_isStreaming = True, cl_frameCount = JNum 0\<rparr>"
  have o: "socketOpen ?p" by (simp add: session_defs)
  have c: "connectionStatus ?p = Connected" by (simp add: session_defs)
  have l: "length (sockets ?p) = 1" by (simp add: session_defs)
  from connectWebSocket_idempotent [of ?p ?cl] o
  have "sockets (connectWebSocket ?cl ?p) = sockets ?p
      \<and> connectionStatus (connectWebSocket ?cl ?p) = connectionStatus ?p"
    by blast
  with c l show ?thesis by simp
qed

section \<open>What stopping a session releases\<close>

text \<open>
  \<^verbatim>\<open>stopStreaming\<close> is a sequence of seven statements, each touching its own part of the
  page. The lemmas below say, field by field, what each statement leaves alone; the
  properties of the whole follow without unfolding it.
\<close>

lemma frame_clearFrameInterval:
  "streams (clearFrameInterval p) = streams p"
  "sockets (clearFrameInterval p) = sockets p"
  "wsRef (clearFrameInterval p) = wsRef p"
  "streamRef (clearFrameInterval p) = streamRef p"
  "reconnectTimeoutRef (clearFrameInterval p) = reconnectTimeoutRef p"
  "speechSynthesis (clearFrameInterval p) = speechSynthesis p"
  "overlayCanvasRef (clearFrameInterval p) = overlayCanvasRef p"
  "lastAnalysis (clearFrameInterval p) = lastAnalysis p"
  "stats (clearFrameInterval p) = stats p"
  "videoRef (clearFrameInterval p) = videoRef p"
  by (simp_all add: clearFrameInterval_def clearTimer_def split: option.split)

lemma frame_clearReconnectTimeout:
  "streams (clearReconnectTimeout p) = streams p"
  "sockets (clearReconnectTimeout p) = sockets p"
  "wsRef (clearReconnectTimeout p) = wsRef p"
  "streamRef (clearReconnectTimeout p) = streamRef p"
  "frameIntervalRef (clearReconnectTimeout p) = frameIntervalRef p"
  "speechSynthesis (clearReconnectTimeout p) = speechSynthesis p"
  "overlayCanvasRef (clearReconnectTimeout p) = overlayCanvasRef p"
  "lastAnalysis (clearReconnectTimeout p) = lastAnalysis p"
  "stats (clearReconnectTimeout p) = stats p"
  "videoRef (clearReconnectTimeout p) = videoRef p"
  by (simp_all add: clearReconnectTimeout_def clearTimer_def split: option.split)

lemma frame_stopMediaStream:
  "timers (stopMediaStream p) = timers p"
  "sockets (stopMediaStream p) = sockets p"
  "wsRef (stopMediaStream p) = wsRef p"
  "frameIntervalRef (stopMediaStream p) = frameIntervalRef p"
  "reconnectTimeoutRef (stopMediaStream p) = reconnectTimeoutRef p"
  "speechSynthesis (stopMediaStream p) = speechSynthesis p"
  "overlayCanvasRef (stopMediaStream p) = overlayCanvasRef p"
  "lastAnalysis (stopMediaStream p) = lastAnalysis p"
  "stats (stopMediaStream p) = stats p"
  "videoRef (stopMediaStream p) = videoRef p"
  by (simp_all add: stopMediaStream_def stopTracks_def split: option.split)

lemma frame_closeWebSocket:
  "timers (closeWebSocket p) = timers p"
  "streams (closeWebSocket p) = streams p"
  "streamRef (closeWebSocket p) = streamRef p"
  "frameIntervalRef (closeWebSocket p) = frameIntervalRef p"
  "reconnectTimeoutRef (closeWebSocket p) = reconnectTimeoutRef p"
  "speechSynthesis (closeWebSocket p) = speechSynthesis p"
  "overlayCanvasRef (closeWebSocket p) = overlayCanvasRef p"
  "lastAnalysis (closeWebSocket p) = lastAnalysis p"
  "stats (closeWebSocket p) = stats p"
  "videoRef (closeWebSocket p) = videoRef p"
  by (simp_all add: closeWebSocket_def socket_close_def socket_send_def updateSocket_def split: option.split)

lemma frame_clearVideoElement:
  "timers (clearVideoElement p) = timers p"
  "streams (clearVideoElement p) = streams p"
  "sockets (clearVideoElement p) = sockets p"
  "wsRef (clearVideoElement p) = wsRef p"
  "streamRef (clearVideoElement p) = streamRef p"
  "frameIntervalRef (clearVideoElement p) = frameIntervalRef p"
  "reconnectTimeoutRef (clearVideoElement p) = reconnectTimeoutRef p"
  "speechSynthesis (clearVideoElement p) = speechSynthesis p"
  "overlayCanvasRef (clearVideoElement p) = overlayCanvasRef p"
  "lastAnalysis (clearVideoElement p) = lastAnalysis p"
  "stats (clearVideoElement p) = stats p"
  by (simp_all add: clearVideoElement_def split: option.split)

lemma frame_synth_cancel:
  "timers (synth_cancel p) = timers p"
  "streams (synth_cancel p) = streams p"
  "sockets (synth_cancel p) = sockets p"
  "wsRef (synth_cancel p) = wsRef p"
  "streamRef (synth_cancel p) = streamRef p"
  "frameIntervalRef (synth_cancel p) = frameIntervalRef p"
  "reconnectTimeoutRef (synth_cancel p) = reconnectTimeoutRef p"
  "overlayCanvasRef (synth_cancel p) = overlayCanvasRef p"
  "lastAnalysis (synth_cancel p) = lastAnalysis p"
  "stats (synth_cancel p) = stats p"
  "videoRef (synth_cancel p) = videoRef p"
  by (simp_all add: synth_cancel_def split: option.split)

lemma frame_console_log:
  "timers (console_log m p) = timers p"
  "streams (console_log m p) = streams p"
  "sockets (console_log m p) = sockets p"
  "wsRef (console_log m p) = wsRef p"
  "streamRef (console_log m p) = streamRef p"
  "frameIntervalRef (console_log m p) = frameIntervalRef p"
  "reconnectTimeoutRef (console_log m p) = reconnectTimeoutRef p"
  "speechSynthesis (console_log m p) = speechSynthesis p"
  "overlayCanvasRef (console_log m p) = overlayCanvasRef p"
  "lastAnalysis (console_log m p) = lastAnalysis p"
  "stats (console_log m p) = stats p"
  "videoRef (console_log m p) = videoRef p"
  by (simp_all add: console_log_def split: option.split)

lemmas stop_frames = frame_clearFrameInterval frame_clearReconnectTimeout frame_stopMediaStream frame_closeWebSocket frame_clearVideoElement frame_synth_cancel frame_console_log


lemma console_log_commutes:
  "clearFrameInterval (console_log m p) = console_log m (clearFrameInterval p)"
  "clearReconnectTimeout (console_log m p) = console_log m (clearReconnectTimeout p)"
  "stopMediaStream (console_log m p) = console_log m (stopMediaStream p)"
  "closeWebSocket (console_log m p) = console_log m (closeWebSocket p)"
  "clearVideoElement (console_log m p) = console_log m (clearVideoElement p)"
  "synth_cancel (console_log m p) = console_log m (synth_cancel p)"
  by (simp_all add: clearFrameInterval_def clearReconnectTimeout_def stopMediaStream_def
      closeWebSocket_def clearVideoElement_def synth_cancel_def console_log_def clearTimer_def
      stopTracks_def socket_close_def socket_send_def updateSocket_def socketState_def
      split: option.split)

lemmas stop_simps = console_log_commutes stop_frames

lemma streams_stopMediaStream:
  "streams (stopMediaStream q) =
     (case streamRef q of
        None \<Rightarrow> streams q
      | Some s \<Rightarrow>
          if s < length (streams q) then (streams q)[s := map (\<lambda>live. False) (streams q ! s)]
          else streams q)"
  by (simp add: stopMediaStream_def stopTracks_def split: option.split)

lemma sockets_closeWebSocket:
  "sockets (closeWebSocket q) =
     (case wsRef q of
        None \<Rightarrow> sockets q
      | Some i \<Rightarrow>
          if i < length (sockets q)
          then (sockets q)[i :=
                 (if readyState (sockets q ! i) = OPEN
                  then (sockets q ! i)\<lparr>sent := sent (sockets q ! i) @ [EndMessage], readyState := CLOSING\<rparr>
                  else if readyState (sockets q ! i) = CONNECTING
                  then (sockets q ! i)\<lparr>readyState := CLOSING\<rparr>
                  else sockets q ! i)]
          else sockets q)"
  by (simp add: closeWebSocket_def socket_close_def socket_send_def updateSocket_def
      socketState_def split: option.split)

lemma speech_synth_cancel:
  "speechSynthesis (synth_cancel q) = map_option (\<lambda>u. []) (speechSynthesis q)"
  by (simp add: synth_cancel_def split: option.split)

lemma timers_stopStreaming:
  "timers (stopStreaming p) = timers (clearReconnectTimeout (clearFrameInterval p))"
  by (simp add: stopStreaming_def stop_simps)

lemma streams_stopStreaming: "streams (stopStreaming p) = streams (stopMediaStream p)"
  by (simp add: stopStreaming_def stop_simps streams_stopMediaStream split: option.split)

lemma sockets_stopStreaming: "sockets (stopStreaming p) = sockets (closeWebSocket p)"
  by (simp add: stopStreaming_def stop_simps sockets_closeWebSocket split: option.split)

lemma kept_stopStreaming:
  "overlayCanvasRef (stopStreaming p) = overlayCanvasRef p"
  "lastAnalysis (stopStreaming p) = lastAnalysis p"
  "stats (stopStreaming p) = stats p"
  by (simp_all add: stopStreaming_def stop_simps)

lemma flags_stopStreaming:
  "\<not> isStreaming (stopStreaming p)"
  "connectionStatus (stopStreaming p) = Disconnected"
  by (simp_all add: stopStreaming_def console_log_def)

lemma wsRef_closeWebSocket: "wsRef (closeWebSocket p) = None"
  by (simp add: closeWebSocket_def split: option.split)

lemma streamRef_stopMediaStream: "streamRef (stopMediaStream p) = None"
  by (simp add: stopMediaStream_def split: option.split)

lemma refs_stopStreaming:
  "wsRef (stopStreaming p) = None"
  "streamRef (stopStreaming p) = None"
  by (simp_all add: stopStreaming_def stop_simps wsRef_closeWebSocket streamRef_stopMediaStream)

lemma speech_stopStreaming: "queued (stopStreaming p) = 0"
proof -
  have "speechSynthesis (stopStreaming p) = map_option (\<lambda>u. []) (speechSynthesis p)"
    by (simp add: stopStreaming_def stop_simps speech_synth_cancel)
  then show ?thesis by (simp add: queued_def split: option.split)
qed

lemma pending_clearTimer:
  "length (timers (clearTimer i p)) = length (timers p)"
  "k < length (timers p) \<Longrightarrow> pending (timers (clearTimer i p) ! k) \<Longrightarrow> pending (timers p ! k)"
  "0 < i \<Longrightarrow> i \<le> length (timers p) \<Longrightarrow> \<not> pending (timers (clearTimer i p) ! (i - 1))"
  by (simp_all add: clearTimer_def nth_list_update split: if_splits)

lemma pending_clearReconnectTimeout:
  "length (timers (clearReconnectTimeout p)) = length (timers p)"
  "k < length (timers p) \<Longrightarrow> pending (timers (clearReconnectTimeout p) ! k) \<Longrightarrow> pending (timers p ! k)"
  using pending_clearTimer(2) [of k p]
  by (auto simp: clearReconnectTimeout_def pending_clearTimer(1) split: option.splits if_splits)

lemma pending_clearFrameInterval:
  "length (timers (clearFrameInterval p)) = length (timers p)"
  "k < length (timers p) \<Longrightarrow> pending (timers (clearFrameInterval p) ! k) \<Longrightarrow> pending (timers p ! k)"
  using pending_clearTimer(2) [of k p]
  by (auto simp: clearFrameInterval_def pending_clearTimer(1) split: option.splits if_splits)

lemma frame_interval_cleared:
  assumes "frameIntervalRef p = Some i" and "0 < i" and "i \<le> length (timers p)"
  shows "\<not> pending (timers (stopStreaming p) ! (i - 1))" and "frameIntervalRef (stopStreaming p) = None"
proof -
  have c: "clearFrameInterval p = (clearTimer i p)\<lparr>frameIntervalRef := None\<rparr>"
    using assms by (simp add: clearFrameInterval_def)
  have "\<not> pending (timers (clearFrameInterval p) ! (i - 1))"
    using pending_clearTimer(3) [OF assms(2,3)] by (simp add: c)
  moreover have "i - 1 < length (timers (clearFrameInterval p))"
    using assms by (simp add: pending_clearFrameInterval(1))
  ultimately show "\<not> pending (timers (stopStreaming p) ! (i - 1))"
    using pending_clearReconnectTimeout(2) [of "i - 1" "clearFrameInterval p"]
    by (auto simp: timers_stopStreaming)
  show "frameIntervalRef (stopStreaming p) = None"
    by (simp add: stopStreaming_def stop_simps c)
qed

lemma reconnect_timeout_cleared:
  assumes "reconnectTimeoutRef p = Some i" and "0 < i" and "i \<le> length (timers p)"
  shows "\<not> pending (timers (stopStreaming p) ! (i - 1))" and "reconnectTimeoutRef (stopStreaming p) = None"
proof -
  let ?q = "clearFrameInterval p"
  have r: "reconnectTimeoutRef ?q = Some i" using assms(1) by (simp add: stop_frames)
  have l: "i \<le> length (timers ?q)" using assms(3) by (simp add: pending_clearFrameInterval(1))
  have c: "clearReconnectTimeout ?q = (clearTimer i ?q)\<lparr>reconnectTimeoutRef := None\<rparr>"
    using r assms(2) by (simp add: clearReconnectTimeout_def)
  show "\<not> pending (timers (stopStreaming p) ! (i - 1))"
    using pending_clearTimer(3) [OF assms(2) l] by (simp add: timers_stopStreaming c)
  show "reconnectTimeoutRef (stopStreaming p) = None"
    by (simp add: stopStreaming_def stop_simps c)
qed

lemma tracks_stopped:
  assumes "streamRef p = Some s" and "s < length (streams p)"
  shows "\<forall>live\<in>set (streams (stopStreaming p) ! s). \<not> live"
  using assms by (simp add: streams_stopStreaming streams_stopMediaStream)

lemma socket_closed_after_stop:
  assumes "wsRef p = Some i" and "i < length (sockets p)"
  shows "sent (sockets (stopStreaming p) ! i) =
           sent (sockets p ! i) @ (if readyState (sockets p ! i) = OPEN then [EndMessage] else [])"
    and "readyState (sockets (stopStreaming p) ! i) = CLOSING
         \<or> readyState (sockets (stopStreaming p) ! i) = CLOSED"
proof -
  show "sent (sockets (stopStreaming p) ! i) =
           sent (sockets p ! i) @ (if readyState (sockets p ! i) = OPEN then [EndMessage] else [])"
    using assms by (simp add: sockets_stopStreaming sockets_closeWebSocket)
  show "readyState (sockets (stopStreaming p) ! i) = CLOSING
         \<or> readyState (sockets (stopStreaming p) ! i) = CLOSED"
    using assms
    by (cases "readyState (sockets p ! i)")
       (simp_all add: sockets_stopStreaming sockets_closeWebSocket)
qed

text \<open>
  With a frame interval running, a camera stream attached and a socket in \<^verbatim>\<open>wsRef\<close>,
  \<^verbatim>\<open>stopStreaming\<close> cancels the interval, stops every track of the stream, sends
  \<^verbatim>\<open>{"type": "end"}\<close> on the socket if and only if it was open and closes it, empties
  the three refs, cancels queued speech and resets the streaming flag and the connection
  status. The overlay canvas and \<^verbatim>\<open>lastAnalysis\<close> are what they were before.
\<close>

theorem stopStreaming_releases:
  assumes "frameIntervalRef p = Some t" and "0 < t" and "t \<le> length (timers p)"
    and "streamRef p = Some s" and "s < length (streams p)"
    and "wsRef p = Some i" and "i < length (sockets p)"
  shows "\<not> pending (timers (stopStreaming p) ! (t - 1))
       \<and> frameIntervalRef (stopStreaming p) = None
       \<and> (\<forall>live\<in>set (streams (stopStreaming p) ! s). \<not> live)
       \<and> streamRef (stopStreaming p) = None
       \<and> sent (sockets (stopStreaming p) ! i) =
           sent (sockets p ! i) @ (if readyState (sockets p ! i) = OPEN then [EndMessage] else [])
       \<and> (readyState (sockets (stopStreaming p) ! i) = CLOSING
            \<or> readyState (sockets (stopStreaming p) ! i) = CLOSED)
       \<and> wsRef (stopStreaming p) = None
       \<and> \<not> isStreaming (stopStreaming p)
       \<and> connectionStatus (stopStreaming p) = Disconnected
       \<and> queued (stopStreaming p) = 0
       \<and> overlayCanvasRef (stopStreaming p) = overlayCanvasRef p
       \<and> lastAnalysis (stopStreaming p) = lastAnalysis p"
  using frame_interval_cleared [OF assms(1,2,3)] tracks_stopped [OF assms(4,5)]
    socket_closed_after_stop [OF assms(6,7)] refs_stopStreaming [of p] flags_stopStreaming [of p]
    speech_stopStreaming [of p] kept_stopStreaming(1,2) [of p]
  by blast

theorem stopStreaming_releases_witness:
  "\<not> pending (timers (stopStreaming (socket_opened 0 (startStreaming (Some 1) True initialPage))) ! 0)
   \<and> sent (sockets (stopStreaming (socket_opened 0 (startStreaming (Some 1) True initialPage))) ! 0)
       = [EndMessage]
   \<and> wsRef (stopStreaming (socket_opened 0 (startStreaming (Some 1) True initialPage))) = None"
proof -
  let ?p = "socket_opened 0 (startStreaming (Some 1) True initialPage)"
  have h: "frameIntervalRef ?p = Some 1" "0 < (1::nat)" "1 \<le> length (timers ?p)"
    "streamRef ?p = Some 0" "0 < length (streams ?p)" "wsRef ?p = Some 0"
    "0 < length (sockets ?p)"
    by (simp_all add: session_defs)
  have v: "readyState (sockets ?p ! 0) = OPEN" "sent (sockets ?p ! 0) = []"
    by (simp_all add: session_defs)
  from stopStreaming_releases [OF h] v show ?thesis
    by simp
qed

section \<open>The rolling lists\<close>

lemma take_Cons_take: "take n (x # take n xs) = take n (x # xs)"
  by (cases n) simp_all

lemma rolled_refl: "rolled n stamp now old old"
  by (simp add: rolled_def)

lemma rolled_step:
  assumes "rolled n stamp now old mid" and "stamp i = now"
  shows "rolled n stamp now old (take n (i # mid))"
proof -
  from assms(1) consider "mid = old"
    | news where "news \<noteq> []" "\<forall>i\<in>set news. stamp i = now" "mid = take n (news @ old)"
    unfolding rolled_def by blast
  then show ?thesis
  proof cases
    case 1
    have "take n (i # mid) = take n ([i] @ old)" using 1 by simp
    moreover have "\<forall>j\<in>set [i]. stamp j = now" using assms(2) by simp
    ultimately show ?thesis unfolding rolled_def by blast
  next
    case 2
    have "take n (i # mid) = take n (i # take n (news @ old))"
      using 2(3) by (simp only:)
    also have "\<dots> = take n (i # (news @ old))"
      by (rule take_Cons_take)
    finally have "take n (i # mid) = take n ((i # news) @ old)"
      by (simp only: append_Cons)
    moreover have "\<forall>j\<in>set (i # news). stamp j = now" using 2(2) assms(2) by simp
    ultimately show ?thesis unfolding rolled_def by blast
  qed
qed

lemma rolled_length: "rolled n stamp now old new \<Longrightarrow> length old \<le> n \<Longrightarrow> length new \<le> n"
  by (auto simp: rolled_def)

lemma fb_console_log: "recentFeedback (console_log m p) = recentFeedback p"
  by (simp add: console_log_def)

lemma fb_console_err: "recentFeedback (console_err m p) = recentFeedback p"
  by (simp add: console_err_def)

lemma fb_synth_speak: "recentFeedback (synth_speak u p) = recentFeedback p"
  by (simp add: synth_speak_def split: option.split)

lemma fb_synth_cancel: "recentFeedback (synth_cancel p) = recentFeedback p"
  by (simp add: synth_cancel_def split: option.split)

lemma fb_speak: "recentFeedback (speak t r p) = recentFeedback p"
  by (simp add: speak_def fb_synth_speak fb_synth_cancel)

lemma fb_drawOverlay: "recentFeedback (fst (drawOverlay H k p)) = recentFeedback p"
  by (simp add: drawOverlay_def Let_def split: option.split)

lemma fb_logCoordinates: "recentFeedback (fst (logCoordinates H now d p)) = recentFeedback p"
  by (simp add: logCoordinates_def addLogEntry_def split: jsval.split sum.split)

lemmas fb_frame = fb_console_log fb_console_err fb_synth_speak fb_synth_cancel fb_speak
  fb_drawOverlay fb_logCoordinates

lemma fb_coaching:
  "rolled 5 fb_time now old (recentFeedback p) \<Longrightarrow>
   rolled 5 fb_time now old (recentFeedback (coaching now r p))"
  using rolled_step [of 5 fb_time now old "recentFeedback p"]
  by (simp add: coaching_def addFeedback_def fb_frame del: take_Cons_numeral)

lemma fb_gemini:
  "rolled 5 fb_time now old (recentFeedback p) \<Longrightarrow>
   rolled 5 fb_time now old (recentFeedback (gemini now r p))"
  using rolled_step [of 5 fb_time now old "recentFeedback p"]
  by (simp add: gemini_def addFeedback_def fb_frame del: take_Cons_numeral)

lemma fb_coaching_hardened:
  "rolled 5 fb_time now old (recentFeedback p) \<Longrightarrow>
   rolled 5 fb_time now old (recentFeedback (coaching_hardened now r p))"
  using rolled_step [of 5 fb_time now old "recentFeedback p"]
  by (simp add: coaching_hardened_def addFeedback_def fb_frame del: take_Cons_numeral)

lemma fb_handleAnalysis:
  "rolled 5 fb_time now (recentFeedback p) (recentFeedback (fst (handleAnalysis H cl now r p)))"
proof -
  let ?q = "fst (drawOverlay H (getProp (getProp r ''data'') ''keypoints'')
        (p\<lparr>lastAnalysis := getProp r ''data'', stats := computeStats cl (getProp r ''data'')\<rparr>))"
  have q: "recentFeedback ?q = recentFeedback p" by (simp add: fb_frame)
  then have "rolled 5 fb_time now (recentFeedback p) (recentFeedback ?q)"
    by (simp add: rolled_refl)
  then have "rolled 5 fb_time now (recentFeedback p) (recentFeedback (coaching now r ?q))"
    by (rule fb_coaching)
  then show ?thesis
    using q by (simp add: handleAnalysis_def Let_def rolled_refl split: option.split)
qed

lemma fb_dispatch:
  "rolled 5 fb_time now (recentFeedback p) (recentFeedback (fst (dispatch H cl now r p)))"
  using fb_handleAnalysis [of now p H cl r]
  by (simp add: dispatch_def Let_def rolled_refl fb_frame split: option.split)

lemma fb_onmessage:
  "rolled 5 fb_time now (recentFeedback p) (recentFeedback (onmessage H cl now parsed p))"
  using fb_dispatch [of now p H cl]
  by (simp add: onmessage_def rolled_refl fb_frame split: option.split)

lemma fb_handleAnalysis_hardened:
  "rolled 5 fb_time now (recentFeedback p) (recentFeedback (fst (handleAnalysis_hardened H cl now r p)))"
proof -
  let ?l = "fst (logCoordinates H now (getProp r ''data'')
         (p\<lparr>lastAnalysis := getProp r ''data'', stats := computeStats cl (getProp r ''data'')\<rparr>))"
  let ?q = "fst (drawOverlay H (getProp (getProp r ''data'') ''keypoints'') ?l)"
  have l: "recentFeedback ?l = recentFeedback p" by (simp add: fb_frame)
  have q: "recentFeedback ?q = recentFeedback p" by (simp add: fb_frame)
  then have "rolled 5 fb_time now (recentFeedback p) (recentFeedback ?q)"
    by (simp add: rolled_refl)
  then have "rolled 5 fb_time now (recentFeedback p) (recentFeedback (gemini now r ?q))"
    by (rule fb_gemini)
  then have "rolled 5 fb_time now (recentFeedback p)
      (recentFeedback (coaching_hardened now r (gemini now r ?q)))"
    by (rule fb_coaching_hardened)
  then show ?thesis
    using l q by (simp add: handleAnalysis_hardened_def Let_def rolled_refl split: option.split)
qed

lemma fb_dispatch_hardened:
  "rolled 5 fb_time now (recentFeedback p) (recentFeedback (fst (dispatch_hardened H cl now r p)))"
  using fb_handleAnalysis_hardened [of now p H cl r]
  by (simp add: dispatch_hardened_def Let_def rolled_refl fb_frame split: option.split)

lemma fb_onmessage_hardened:
  "rolled 5 fb_time now (recentFeedback p) (recentFeedback (onmessage_hardened H cl now parsed p))"
  using fb_dispatch_hardened [of now p H cl]
  by (simp add: onmessage_hardened_def rolled_refl fb_frame split: option.split)


text \<open>No handler but the dispatcher touches the two lists.\<close>

lemma lists_console_log:
  "recentFeedback (console_log m p) = recentFeedback p"
  "coordinateLogs (console_log m p) = coordinateLogs p"
  by (simp_all add: console_log_def)

lemma lists_console_err:
  "recentFeedback (console_err m p) = recentFeedback p"
  "coordinateLogs (console_err m p) = coordinateLogs p"
  by (simp_all add: console_err_def)

lemma lists_setTimer:
  "recentFeedback (snd (setTimer cb ms rep p)) = recentFeedback p"
  "coordinateLogs (snd (setTimer cb ms rep p)) = coordinateLogs p"
  by (simp_all add: setTimer_def)

lemma lists_clearTimer:
  "recentFeedback (clearTimer i p) = recentFeedback p"
  "coordinateLogs (clearTimer i p) = coordinateLogs p"
  by (simp_all add: clearTimer_def)

lemma lists_updateSocket:
  "recentFeedback (updateSocket i f p) = recentFeedback p"
  "coordinateLogs (updateSocket i f p) = coordinateLogs p"
  by (simp_all add: updateSocket_def)

lemma lists_socket_send:
  "recentFeedback (socket_send i m p) = recentFeedback p"
  "coordinateLogs (socket_send i m p) = coordinateLogs p"
  by (simp_all add: socket_send_def lists_updateSocket)

lemma lists_socket_close:
  "recentFeedback (socket_close i p) = recentFeedback p"
  "coordinateLogs (socket_close i p) = coordinateLogs p"
  by (simp_all add: socket_close_def lists_updateSocket)

lemma lists_stopTracks:
  "recentFeedback (stopTracks i p) = recentFeedback p"
  "coordinateLogs (stopTracks i p) = coordinateLogs p"
  by (simp_all add: stopTracks_def)

lemma lists_synth_cancel:
  "recentFeedback (synth_cancel p) = recentFeedback p"
  "coordinateLogs (synth_cancel p) = coordinateLogs p"
  by (simp_all add: synth_cancel_def split: option.split)

lemma lists_synth_speak:
  "recentFeedback (synth_speak u p) = recentFeedback p"
  "coordinateLogs (synth_speak u p) = coordinateLogs p"
  by (simp_all add: synth_speak_def split: option.split)

lemma lists_speak:
  "recentFeedback (speak t r p) = recentFeedback p"
  "coordinateLogs (speak t r p) = coordinateLogs p"
  by (simp_all add: speak_def lists_synth_speak lists_synth_cancel)

lemma lists_connectWebSocket:
  "recentFeedback (connectWebSocket cl p) = recentFeedback p"
  "coordinateLogs (connectWebSocket cl p) = coordinateLogs p"
  by (simp_all add: connectWebSocket_def console_log_def)

lemma lists_sizeCanvases:
  "recentFeedback (sizeCanvases p) = recentFeedback p"
  "coordinateLogs (sizeCanvases p) = coordinateLogs p"
  by (simp_all add: sizeCanvases_def split: option.split)

lemma lists_cameraFailed:
  "recentFeedback (cameraFailed p) = recentFeedback p"
  "coordinateLogs (cameraFailed p) = coordinateLogs p"
  by (simp_all add: cameraFailed_def console_err_def)

lemmas lists_prims = lists_console_log lists_console_err lists_setTimer lists_clearTimer
  lists_updateSocket lists_socket_send lists_socket_close lists_stopTracks lists_synth_cancel
  lists_synth_speak lists_speak lists_connectWebSocket lists_sizeCanvases lists_cameraFailed

lemma lists_startStreaming:
  "recentFeedback (startStreaming c pl p) = recentFeedback p"
  "coordinateLogs (startStreaming c pl p) = coordinateLogs p"
  by (simp_all add: startStreaming_def Let_def lists_prims split: option.split)

lemma lists_clearFrameInterval:
  "recentFeedback (clearFrameInterval p) = recentFeedback p"
  "coordinateLogs (clearFrameInterval p) = coordinateLogs p"
  by (simp_all add: clearFrameInterval_def lists_prims split: option.split)

lemma lists_clearReconnectTimeout:
  "recentFeedback (clearReconnectTimeout p) = recentFeedback p"
  "coordinateLogs (clearReconnectTimeout p) = coordinateLogs p"
  by (simp_all add: clearReconnectTimeout_def lists_prims split: option.split)

lemma lists_stopMediaStream:
  "recentFeedback (stopMediaStream p) = recentFeedback p"
  "coordinateLogs (stopMediaStream p) = coordinateLogs p"
  by (simp_all add: stopMediaStream_def lists_prims split: option.split)

lemma lists_closeWebSocket:
  "recentFeedback (closeWebSocket p) = recentFeedback p"
  "coordinateLogs (closeWebSocket p) = coordinateLogs p"
  by (simp_all add: closeWebSocket_def lists_prims split: option.split)

lemma lists_clearVideoElement:
  "recentFeedback (clearVideoElement p) = recentFeedback p"
  "coordinateLogs (clearVideoElement p) = coordinateLogs p"
  by (simp_all add: clearVideoElement_def lists_prims split: option.split)

lemma lists_stopStreaming:
  "recentFeedback (stopStreaming p) = recentFeedback p"
  "coordinateLogs (stopStreaming p) = coordinateLogs p"
  by (simp_all add: stopStreaming_def lists_prims lists_clearFrameInterval
      lists_clearReconnectTimeout lists_stopMediaStream lists_closeWebSocket
      lists_clearVideoElement)

lemma lists_onopen:
  "recentFeedback (onopen p) = recentFeedback p"
  "coordinateLogs (onopen p) = coordinateLogs p"
  by (simp_all add: onopen_def lists_prims)

lemma lists_onerror:
  "recentFeedback (onerror p) = recentFeedback p"
  "coordinateLogs (onerror p) = coordinateLogs p"
  by (simp_all add: onerror_def lists_prims)

lemma lists_onerror_hardened:
  "recentFeedback (onerror_hardened p) = recentFeedback p"
  "coordinateLogs (onerror_hardened p) = coordinateLogs p"
  by (simp_all add: onerror_hardened_def lists_prims)

lemma lists_onclose:
  "recentFeedback (onclose cl w p) = recentFeedback p"
  "coordinateLogs (onclose cl w p) = coordinateLogs p"
  by (simp_all add: onclose_def Let_def lists_prims)

lemma lists_socket_opened:
  "recentFeedback (socket_opened i p) = recentFeedback p"
  "coordinateLogs (socket_opened i p) = coordinateLogs p"
  by (simp_all add: socket_opened_def lists_onopen lists_prims)

lemma lists_socket_closed:
  "recentFeedback (socket_closed i w p) = recentFeedback p"
  "coordinateLogs (socket_closed i w p) = coordinateLogs p"
  by (simp_all add: socket_closed_def lists_onclose lists_prims)

lemma lists_reconnect:
  "recentFeedback (reconnect cl p) = recentFeedback p"
  "coordinateLogs (reconnect cl p) = coordinateLogs p"
  by (simp_all add: reconnect_def lists_prims)

lemma lists_captureAndSendFrame:
  "recentFeedback (captureAndSendFrame f s p) = recentFeedback p"
  "coordinateLogs (captureAndSendFrame f s p) = coordinateLogs p"
  by (simp_all add: captureAndSendFrame_def lists_prims split: option.split)

lemma lists_timer_fired:
  "recentFeedback (timer_fired i f s p) = recentFeedback p"
  "coordinateLogs (timer_fired i f s p) = coordinateLogs p"
  by (simp_all add: timer_fired_def Let_def lists_reconnect lists_captureAndSendFrame lists_prims
      split: timer_callback.split)

lemma lists_onopen_hardened:
  "recentFeedback (onopen_hardened p) = recentFeedback p"
  "coordinateLogs (onopen_hardened p) = coordinateLogs p"
  by (simp_all add: onopen_hardened_def lists_onopen lists_prims)

lemma lists_startStreaming_hardened:
  "recentFeedback (startStreaming_hardened c pl p) = recentFeedback p"
  "coordinateLogs (startStreaming_hardened c pl p) = coordinateLogs p"
  by (simp_all add: startStreaming_hardened_def lists_startStreaming lists_prims)

lemma lists_stopStreaming_hardened:
  "recentFeedback (stopStreaming_hardened p) = recentFeedback p"
  "coordinateLogs (stopStreaming_hardened p) = coordinateLogs p"
  by (simp_all add: stopStreaming_hardened_def lists_stopStreaming lists_prims)

lemma logs_onmessage:
  "coordinateLogs (onmessage H cl now parsed p) = coordinateLogs p"
  by (simp add: onmessage_def dispatch_def handleAnalysis_def coaching_def addFeedback_def
      drawOverlay_def Let_def lists_prims split: option.split)


lemma logs_drawOverlay: "coordinateLogs (fst (drawOverlay H k p)) = coordinateLogs p"
  by (simp add: drawOverlay_def Let_def split: option.split)

lemma logs_gemini: "coordinateLogs (gemini now r p) = coordinateLogs p"
  by (simp add: gemini_def addFeedback_def lists_prims)

lemma logs_coaching_hardened: "coordinateLogs (coaching_hardened now r p) = coordinateLogs p"
  by (simp add: coaching_hardened_def addFeedback_def lists_prims)

lemma logs_logCoordinates:
  "rolled 30 log_time now (coordinateLogs p) (coordinateLogs (fst (logCoordinates H now d p)))"
  using rolled_step [of 30 log_time now "coordinateLogs p" "coordinateLogs p", OF rolled_refl]
  by (simp add: logCoordinates_def addLogEntry_def rolled_refl del: take_Cons_numeral
      split: jsval.split sum.split)

lemma logs_handleAnalysis_hardened:
  "rolled 30 log_time now (coordinateLogs p)
     (coordinateLogs (fst (handleAnalysis_hardened H cl now r p)))"
  using logs_logCoordinates [of now
      "p\<lparr>lastAnalysis := getProp r ''data'', stats := computeStats cl (getProp r ''data'')\<rparr>"
      H "getProp r ''data''"]
  by (simp add: handleAnalysis_hardened_def Let_def logs_drawOverlay logs_gemini
      logs_coaching_hardened split: option.split)

lemma logs_dispatch_hardened:
  "rolled 30 log_time now (coordinateLogs p) (coordinateLogs (fst (dispatch_hardened H cl now r p)))"
  using logs_handleAnalysis_hardened [of now p H cl r]
  by (simp add: dispatch_hardened_def Let_def rolled_refl lists_prims split: option.split)

lemma logs_onmessage_hardened:
  "rolled 30 log_time now (coordinateLogs p)
     (coordinateLogs (onmessage_hardened H cl now parsed p))"
  using logs_dispatch_hardened [of now p H cl]
  by (simp add: onmessage_hardened_def rolled_refl lists_prims split: option.split)

text \<open>The bounds are invariants of every handler, so of every sequence of events.\<close>

lemma bounds_step:
  assumes "length (recentFeedback p) \<le> 5"
  shows "length (recentFeedback (step H p ev)) \<le> 5"
proof (cases ev)
  case (Message i now parsed)
  then show ?thesis
    using assms rolled_length [OF fb_onmessage [of now p H _ parsed]]
    by (simp add: socket_message_def)
qed (simp_all add: assms lists_startStreaming lists_stopStreaming lists_socket_opened
      lists_socket_closed lists_timer_fired lists_onerror)

lemma bounds_step_hardened:
  assumes "length (recentFeedback p) \<le> 5 \<and> length (coordinateLogs p) \<le> 30"
  shows "length (recentFeedback (step_hardened H p ev)) \<le> 5 \<and>
         length (coordinateLogs (step_hardened H p ev)) \<le> 30"
proof (cases ev)
  case (Message i now parsed)
  then show ?thesis
    using assms rolled_length [OF fb_onmessage_hardened [of now p H _ parsed]]
      rolled_length [OF logs_onmessage_hardened [of now p H _ parsed]]
    by simp
qed (simp_all add: assms lists_startStreaming_hardened lists_stopStreaming_hardened
      lists_onopen_hardened lists_updateSocket lists_socket_closed lists_timer_fired
      lists_onerror_hardened)

lemma bounds_run:
  "length (recentFeedback p) \<le> 5 \<Longrightarrow> length (recentFeedback (run H p evs)) \<le> 5"
  unfolding run_def
  by (induction evs arbitrary: p) (simp_all add: bounds_step)

lemma bounds_run_hardened:
  "length (recentFeedback p) \<le> 5 \<and> length (coordinateLogs p) \<le> 30 \<Longrightarrow>
   length (recentFeedback (run_hardened H p evs)) \<le> 5 \<and>
   length (coordinateLogs (run_hardened H p evs)) \<le> 30"
  unfolding run_hardened_def
proof (induction evs arbitrary: p)
  case Nil
  then show ?case by simp
next
  case (Cons ev evs)
  from bounds_step_hardened [OF Cons.prems] Cons.IH [of "step_hardened H p ev"]
  show ?case by simp
qed


lemmas hardened_defs = run_hardened_def startStreaming_hardened_def startStreaming_def
  initialPage_def initialStats_def render_def
  connectWebSocket_def socketOpen_def socketState_def sizeCanvases_def setTimer_def console_log_def
  console_err_def onopen_hardened_def onopen_def updateSocket_def Let_def cameraFailed_def
  speak_def synth_speak_def synth_cancel_def
  onmessage_hardened_def dispatch_hardened_def handleAnalysis_hardened_def computeStats_def
  drawOverlay_def coaching_hardened_def gemini_def optProp_def js_or_def logCoordinates_def
  addLogEntry_def addFeedback_def pointName_def pointNames_def
  drawSkeleton_def drawEdge_def drawPoint_def POSE_PAIRS_def js_gt_def js_mul_def
  keypointColor_def

text \<open>
  Claim C7. After every sequence of events of a page, in either revision, the feedback
  list holds at most 5 items, and in the later revision the coordinate log holds at most
  30 entries. An inbound message leaves each list as it was, or puts the items it creates,
  stamped with the time of the message, in front of the older ones and cuts the list at
  its old end, so the lists are ordered most recent first; a list within its bound stays
  within its bound.
\<close>

theorem rolling_lists_bounded:
  "length (recentFeedback (run H initialPage evs)) \<le> 5 \<and>
   length (recentFeedback (run_hardened H initialPage evs)) \<le> 5 \<and>
   length (coordinateLogs (run_hardened H initialPage evs)) \<le> 30 \<and>
   rolled 5 fb_time now (recentFeedback p) (recentFeedback (onmessage H cl now parsed p)) \<and>
   rolled 5 fb_time now (recentFeedback p) (recentFeedback (onmessage_hardened H cl now parsed p)) \<and>
   rolled 30 log_time now (coordinateLogs p) (coordinateLogs (onmessage_hardened H cl now parsed p)) \<and>
   (length (recentFeedback p) \<le> 5 \<longrightarrow>
      length (recentFeedback (onmessage H cl now parsed p)) \<le> 5 \<and>
      length (recentFeedback (onmessage_hardened H cl now parsed p)) \<le> 5) \<and>
   (length (coordinateLogs p) \<le> 30 \<longrightarrow>
      length (coordinateLogs (onmessage_hardened H cl now parsed p)) \<le> 30)"
proof -
  have i: "length (recentFeedback initialPage) \<le> 5 \<and> length (coordinateLogs initialPage) \<le> 30"
    by (simp add: initialPage_def)
  then have "length (recentFeedback (run H initialPage evs)) \<le> 5"
    by (simp add: bounds_run)
  moreover note bounds_run_hardened [OF i, of H evs]
  moreover note fb_onmessage [of now p H cl parsed] fb_onmessage_hardened [of now p H cl parsed]
    logs_onmessage_hardened [of now p H cl parsed]
  ultimately show ?thesis
    by (auto dest: rolled_length)
qed

theorem rolling_lists_bounded_witness:
  "length (recentFeedback (run_hardened (\<lambda>v. None) initialPage
     [Start (Some 1) True, Opened 0,
      Message 0 ''10:00:01'' (Some (coachingMessage ''a'')),
      Message 0 ''10:00:02'' (Some (coachingMessage ''b'')),
      Message 0 ''10:00:03'' (Some (coachingMessage ''c'')),
      Message 0 ''10:00:04'' (Some (coachingMessage ''d'')),
      Message 0 ''10:00:05'' (Some (coachingMessage ''e'')),
      Message 0 ''10:00:06'' (Some (coachingMessage ''f''))])) \<le> 5 \<and>
   map fb_time (recentFeedback (run_hardened (\<lambda>v. None) initialPage
     [Start (Some 1) True, Opened 0,
      Message 0 ''10:00:01'' (Some (coachingMessage ''a'')),
      Message 0 ''10:00:02'' (Some (coachingMessage ''b'')),
      Message 0 ''10:00:03'' (Some (coachingMessage ''c'')),
      Message 0 ''10:00:04'' (Some (coachingMessage ''d'')),
      Message 0 ''10:00:05'' (Some (coachingMessage ''e'')),
      Message 0 ''10:00:06'' (Some (coachingMessage ''f''))]))
     = [''10:00:06'', ''10:00:05'', ''10:00:04'', ''10:00:03'', ''10:00:02''] \<and>
   length (coordinateLogs
     (onmessage_hardened (\<lambda>v. None) \<lparr>cl_isStreaming = False, cl_frameCount = JNum 0\<rparr> ''10:00:01''
        (Some (coachingMessage ''a'')) initialPage)) \<le> 30 \<and>
   map log_time (coordinateLogs
     (onmessage_hardened (\<lambda>v. None) \<lparr>cl_isStreaming = False, cl_frameCount = JNum 0\<rparr> ''10:00:01''
        (Some (coachingMessage ''a'')) initialPage)) = [''10:00:01'']"
proof -
  let ?evs = "[Start (Some 1) True, Opened 0,
      Message 0 ''10:00:01'' (Some (coachingMessage ''a'')),
      Message 0 ''10:00:02'' (Some (coachingMessage ''b'')),
      Message 0 ''10:00:03'' (Some (coachingMessage ''c'')),
      Message 0 ''10:00:04'' (Some (coachingMessage ''d'')),
      Message 0 ''10:00:05'' (Some (coachingMessage ''e'')),
      Message 0 ''10:00:06'' (Some (coachingMessage ''f''))]"
  let ?cl = "\<lparr>cl_isStreaming = False, cl_frameCount = JNum 0\<rparr>"
  note inst = rolling_lists_bounded [where H = "\<lambda>v. None" and evs = ?evs and p = initialPage
      and cl = ?cl and now = "''10:00:01''" and parsed = "Some (coachingMessage ''a'')"]
  have h: "length (coordinateLogs initialPage) \<le> 30" by (simp add: initialPage_def)
  from inst have "length (recentFeedback (run_hardened (\<lambda>v. None) initialPage ?evs)) \<le> 5"
    by blast
  moreover from inst h
  have "length (coordinateLogs (onmessage_hardened (\<lambda>v. None) ?cl ''10:00:01''
      (Some (coachingMessage ''a'')) initialPage)) \<le> 30"
    by blast
  moreover have "map fb_time (recentFeedback (run_hardened (\<lambda>v. None) initialPage ?evs))
     = [''10:00:06'', ''10:00:05'', ''10:00:04'', ''10:00:03'', ''10:00:02'']"
    by (simp add: hardened_defs coachingMessage_def)
  moreover have "map log_time (coordinateLogs (onmessage_hardened (\<lambda>v. None) ?cl ''10:00:01''
      (Some (coachingMessage ''a'')) initialPage)) = [''10:00:01'']"
    by (simp add: hardened_defs coachingMessage_def)
  ultimately show ?thesis by blast
qed

section \<open>Speech synthesis in the later revision\<close>

lemma speech_prims:
  "speechSynthesis (console_log m p) = speechSynthesis p"
  "speechSynthesis (console_err m p) = speechSynthesis p"
  "speechSynthesis (snd (setTimer cb ms rep p)) = speechSynthesis p"
  "speechSynthesis (clearTimer i p) = speechSynthesis p"
  "speechSynthesis (updateSocket i f p) = speechSynthesis p"
  "speechSynthesis (socket_send i msg p) = speechSynthesis p"
  "speechSynthesis (socket_close i p) = speechSynthesis p"
  "speechSynthesis (stopTracks i p) = speechSynthesis p"
  "speechSynthesis (connectWebSocket cl p) = speechSynthesis p"
  "speechSynthesis (sizeCanvases p) = speechSynthesis p"
  "speechSynthesis (cameraFailed p) = speechSynthesis p"
  "speechSynthesis (addFeedback item p) = speechSynthesis p"
  "speechSynthesis (addLogEntry entry p) = speechSynthesis p"
  by (simp_all add: console_log_def console_err_def setTimer_def clearTimer_def updateSocket_def
      socket_send_def socket_close_def stopTracks_def connectWebSocket_def sizeCanvases_def
      cameraFailed_def addFeedback_def addLogEntry_def split: option.split)

lemma queued_eq: "speechSynthesis q = speechSynthesis p \<Longrightarrow> queued q = queued p"
  by (simp add: queued_def)

lemma speech_speak:
  "speechSynthesis (speak t r p) =
     (if speechSynthesis p = None then None
      else Some [\<lparr>utterance_text = t, rate = r, pitch = 1.0, volume = 0.9\<rparr>])"
  by (simp add: speak_def synth_speak_def synth_cancel_def split: option.split)

lemma queued_speak: "queued (speak t r p) \<le> 1"
  by (simp add: queued_def speech_speak)

lemma speech_startStreaming: "speechSynthesis (startStreaming c pl p) = speechSynthesis p"
  by (simp add: startStreaming_def Let_def speech_prims split: option.split)

lemma speech_onopen: "speechSynthesis (onopen p) = speechSynthesis p"
  by (simp add: onopen_def speech_prims)

lemma speech_onerror_hardened: "speechSynthesis (onerror_hardened p) = speechSynthesis p"
  by (simp add: onerror_hardened_def speech_prims)

lemma speech_onclose: "speechSynthesis (onclose cl w p) = speechSynthesis p"
  by (simp add: onclose_def Let_def speech_prims)

lemma speech_socket_closed: "speechSynthesis (socket_closed i w p) = speechSynthesis p"
  by (simp add: socket_closed_def speech_onclose speech_prims)

lemma speech_timer_fired: "speechSynthesis (timer_fired i f s p) = speechSynthesis p"
  by (simp add: timer_fired_def Let_def reconnect_def captureAndSendFrame_def speech_prims
      split: timer_callback.split option.split)

lemma speech_drawOverlay: "speechSynthesis (fst (drawOverlay H k p)) = speechSynthesis p"
  by (simp add: drawOverlay_def Let_def split: option.split)

lemma speech_logCoordinates: "speechSynthesis (fst (logCoordinates H now d p)) = speechSynthesis p"
  by (simp add: logCoordinates_def speech_prims split: jsval.split sum.split)

lemma queued_gemini: "queued p \<le> 1 \<Longrightarrow> queued (gemini now r p) \<le> 1"
proof (cases "truthy (optProp (getProp r ''gemini'') ''triggered'')
    \<and> truthy (getProp (getProp r ''gemini'') ''feedback'')")
  case True
  then have "queued (gemini now r p) = queued (speak (getProp (getProp r ''gemini'') ''feedback'') 1.0
      (console_log ''Gemini AI:'' (p\<lparr>geminiResponse := getProp (getProp r ''gemini'') ''feedback''\<rparr>)))"
    by (simp add: gemini_def queued_eq [OF speech_prims(12)])
  then show ?thesis using queued_speak by simp
next
  case False
  assume "queued p \<le> 1"
  with False show ?thesis by (auto simp: gemini_def)
qed

lemma queued_coaching_hardened: "queued p \<le> 1 \<Longrightarrow> queued (coaching_hardened now r p) \<le> 1"
proof (cases "truthy (optProp (getProp r ''coaching'') ''triggered'')
    \<and> truthy (getProp (getProp r ''coaching'') ''feedback'')")
  case True
  then have "queued (coaching_hardened now r p) =
      queued (speak (getProp (getProp r ''coaching'') ''feedback'') 1.0
        (addFeedback \<lparr>fb_time = now, fb_text = getProp (getProp r ''coaching'') ''feedback'',
            fb_reason = getProp (getProp r ''coaching'') ''reason''\<rparr> p))"
    by (simp add: coaching_hardened_def queued_eq [OF speech_prims(1)])
  then show ?thesis using queued_speak by simp
next
  case False
  assume "queued p \<le> 1"
  with False show ?thesis by (auto simp: coaching_hardened_def)
qed

lemma queued_handleAnalysis_hardened:
  assumes "queued p \<le> 1"
  shows "queued (fst (handleAnalysis_hardened H cl now r p)) \<le> 1"
proof -
  let ?l = "fst (logCoordinates H now (getProp r ''data'')
         (p\<lparr>lastAnalysis := getProp r ''data'', stats := computeStats cl (getProp r ''data'')\<rparr>))"
  let ?q = "fst (drawOverlay H (getProp (getProp r ''data'') ''keypoints'') ?l)"
  have "speechSynthesis ?l = speechSynthesis p" by (simp add: speech_logCoordinates)
  then have l: "queued ?l \<le> 1" using assms queued_eq by metis
  have "speechSynthesis ?q = speechSynthesis p"
    by (simp add: speech_logCoordinates speech_drawOverlay)
  then have q: "queued ?q \<le> 1" using assms queued_eq by metis
  have c: "queued (coaching_hardened now r (gemini now r ?q)) \<le> 1"
    by (rule queued_coaching_hardened, rule queued_gemini, rule q)
  show ?thesis
  proof (cases "snd (logCoordinates H now (getProp r ''data'')
         (p\<lparr>lastAnalysis := getProp r ''data'', stats := computeStats cl (getProp r ''data'')\<rparr>))")
    case (Some e)
    then show ?thesis using l by (simp add: handleAnalysis_hardened_def Let_def)
  next
    case None
    then show ?thesis using q c
      by (cases "snd (drawOverlay H (getProp (getProp r ''data'') ''keypoints'') ?l)")
        (simp_all add: handleAnalysis_hardened_def Let_def)
  qed
qed

lemma queued_dispatch_hardened:
  assumes "queued p \<le> 1"
  shows "queued (fst (dispatch_hardened H cl now r p)) \<le> 1"
proof -
  have e: "queued ((console_err m q)\<lparr>error := v\<rparr>) = queued q" for m q v
    by (simp add: queued_def console_err_def)
  show ?thesis
    using assms queued_handleAnalysis_hardened [OF assms, of H cl now r]
      queued_speak [of _ _ "console_log ''Welcome:'' p"]
    by (cases "snd (handleAnalysis_hardened H cl now r p)")
       (simp_all add: dispatch_hardened_def Let_def e)
qed

lemma queued_onmessage_hardened:
  assumes "queued p \<le> 1"
  shows "queued (onmessage_hardened H cl now parsed p) \<le> 1"
proof (cases parsed)
  case None
  then show ?thesis using assms
    by (simp add: onmessage_hardened_def queued_eq [OF speech_prims(2)])
next
  case (Some r)
  then show ?thesis
    using queued_dispatch_hardened [OF assms, of H cl now r]
    by (cases "snd (dispatch_hardened H cl now r p)")
       (simp_all add: onmessage_hardened_def queued_eq [OF speech_prims(2)])
qed

lemma queued_step_hardened:
  assumes "queued p \<le> 1"
  shows "queued (step_hardened H p ev) \<le> 1"
proof (cases ev)
  case (Start c pl)
  then show ?thesis
    using assms queued_speak [of _ _ "startStreaming c pl p"]
    by (simp add: startStreaming_hardened_def queued_eq [OF speech_startStreaming])
next
  case Stop
  then show ?thesis using queued_speak [of _ _ "stopStreaming p"]
    by (simp add: stopStreaming_hardened_def)
next
  case (Opened i)
  then show ?thesis
    using assms queued_speak [of _ _ "onopen (updateSocket i (\<lambda>s. s\<lparr>readyState := OPEN\<rparr>) p)"]
    by (simp add: onopen_hardened_def)
next
  case (Message i now parsed)
  then show ?thesis using assms queued_onmessage_hardened [OF assms] by simp
next
  case (Errored i)
  then show ?thesis using assms by (simp add: queued_eq [OF speech_onerror_hardened])
next
  case (Closed i w)
  then show ?thesis using assms by (simp add: queued_eq [OF speech_socket_closed])
next
  case (Fired i f s)
  then show ?thesis using assms by (simp add: queued_eq [OF speech_timer_fired])
qed

lemma queued_run_hardened:
  "queued p \<le> 1 \<Longrightarrow> queued (run_hardened H p evs) \<le> 1"
  unfolding run_hardened_def
proof (induction evs arbitrary: p)
  case Nil
  then show ?case by simp
next
  case (Cons ev evs)
  from Cons.IH [OF queued_step_hardened [OF Cons.prems]] show ?case by simp
qed

text \<open>
  Claim C10. In the later revision \<open>speak\<close> cancels speech synthesis before it queues
  the new utterance: whatever was queued or being spoken before the call, the queue
  holds the new utterance and nothing else after it (where the window has speech
  synthesis at all). Every utterance of that revision goes through \<open>speak\<close>, so after
  any sequence of events of a freshly mounted page at most one utterance is active.
\<close>

theorem speak_cancels_first:
  "speechSynthesis (speak words r p) =
     (if speechSynthesis p = None then None
      else Some [\<lparr>utterance_text = words, rate = r, pitch = 1.0, volume = 0.9\<rparr>]) \<and>
   queued (speak words r p) \<le> 1 \<and>
   queued (run_hardened H initialPage evs) \<le> 1"
proof -
  have "queued initialPage \<le> 1" by (simp add: queued_def initialPage_def)
  then have "queued (run_hardened H initialPage evs) \<le> 1" by (rule queued_run_hardened)
  then show ?thesis using speech_speak [of words r p] queued_speak [of words r p] by simp
qed

theorem speak_cancels_first_witness:
  "speechSynthesis
     (speak (JStr ''Keep your back straight'') 1.0
        (initialPage\<lparr>speechSynthesis :=
           Some [\<lparr>utterance_text = JStr ''one'', rate = 1.0, pitch = 1.0, volume = 0.9\<rparr>,
                 \<lparr>utterance_text = JStr ''two'', rate = 1.0, pitch = 1.0, volume = 0.9\<rparr>]\<rparr>))
     = Some [\<lparr>utterance_text = JStr ''Keep your back straight'', rate = 1.0, pitch = 1.0,
              volume = 0.9\<rparr>] \<and>
   queued (run_hardened (\<lambda>v. None) initialPage
     [Start (Some 1) True, Opened 0, Message 0 ''10:00:01'' (Some (coachingMessage ''a''))]) \<le> 1"
  using speak_cancels_first [of "JStr ''Keep your back straight''" "1.0"
      "initialPage\<lparr>speechSynthesis :=
           Some [\<lparr>utterance_text = JStr ''one'', rate = 1.0, pitch = 1.0, volume = 0.9\<rparr>,
                 \<lparr>utterance_text = JStr ''two'', rate = 1.0, pitch = 1.0, volume = 0.9\<rparr>]\<rparr>"
      "\<lambda>v. None"
      "[Start (Some 1) True, Opened 0, Message 0 ''10:00:01'' (Some (coachingMessage ''a''))]"]
  by simp

section \<open>Properties of voice activity detection\<close>

lemma quietSince_snoc:
  "quietSince cfg evs t \<Longrightarrow> \<not> loud cfg ev \<Longrightarrow> quietSince cfg (evs @ [ev]) t"
  unfolding quietSince_def
  by (elim exE conjE) (rule_tac x = a in exI, rule_tac x = eva in exI, rule_tac x = "b @ [ev]" in exI, simp)

lemma quietSince_now:
  "\<not> loud cfg ev \<Longrightarrow> probeTime ev = Some t \<Longrightarrow> quietSince cfg (evs @ [ev]) t"
  unfolding quietSince_def
  by (rule_tac x = evs in exI, rule_tac x = ev in exI, rule_tac x = "[]" in exI) simp

lemma inv_unchanged:
  "vad_inv cfg evs s \<Longrightarrow> \<not> loud cfg ev \<Longrightarrow> vad_inv cfg (evs @ [ev]) s"
  unfolding vad_inv_def by (auto intro: quietSince_snoc)

lemma inv_no_timer:
  assumes "\<forall>i<length (vad_timers s). \<not> waiting (vad_timers s ! i)"
    and "silenceTimerRef s = None"
    and "isSpeaking s \<longrightarrow> (\<exists>start. speechStartTimeRef s = Some start \<and> 0 < start)"
  shows "vad_inv cfg evs s"
  using assms unfolding vad_inv_def by simp

lemma waiting_only_ref:
  assumes "vad_inv cfg evs s" and "i < length (vad_timers s)" and "waiting (vad_timers s ! i)"
  shows "silenceTimerRef s = Some (Suc i)"
  using assms unfolding vad_inv_def by blast

lemma no_ref_no_waiting:
  assumes "vad_inv cfg evs s" and "silenceTimerRef s = None" and "i < length (vad_timers s)"
  shows "\<not> waiting (vad_timers s ! i)"
  using assms unfolding vad_inv_def by force

lemma cleared_none_waiting:
  assumes "vad_inv cfg evs s" and "silenceTimerRef s = Some j"
    and "i < length (vad_timers (vad_clearTimeout j s))"
  shows "\<not> waiting (vad_timers (vad_clearTimeout j s) ! i)"
proof -
  from assms(1,2) have j: "0 < j" "j \<le> length (vad_timers s)"
    unfolding vad_inv_def by blast+
  have len: "i < length (vad_timers s)" using assms(3) by (simp add: vad_clearTimeout_def split: if_splits)
  show ?thesis
  proof (cases "i = j - 1")
    case True
    then show ?thesis using j len by (simp add: vad_clearTimeout_def)
  next
    case False
    then have "Suc i \<noteq> j" using j by auto
    then have "\<not> waiting (vad_timers s ! i)"
      using waiting_only_ref [OF assms(1) len] assms(2) by auto
    then show ?thesis using False j len by (simp add: vad_clearTimeout_def)
  qed
qed


lemma inv_speechDetected:
  assumes inv: "vad_inv cfg evs s" and pos: "0 < now"
  shows "vad_inv cfg evs' (speechDetected cfg now s)"
proof -
  define s1 where "s1 = (if \<not> isSpeaking s
                then (call_onSpeechStart cfg (s\<lparr>speechStartTimeRef := Some now\<rparr>))
                       \<lparr>isSpeaking := True\<rparr>
                else s)"
  have t: "vad_timers s1 = vad_timers s" and r: "silenceTimerRef s1 = silenceTimerRef s"
    by (simp_all add: s1_def call_onSpeechStart_def)
  have sp: "\<exists>start. speechStartTimeRef s1 = Some start \<and> 0 < start"
    using inv pos unfolding vad_inv_def by (auto simp: s1_def call_onSpeechStart_def)
  have inv1: "vad_inv cfg evs s1"
    using inv sp unfolding vad_inv_def by (simp add: t r) (auto simp: s1_def call_onSpeechStart_def)
  show ?thesis
  proof (cases "silenceTimerRef s1")
    case None
    have "vad_inv cfg evs' s1"
      using no_ref_no_waiting [OF inv1 None] sp None by (intro inv_no_timer) auto
    then show ?thesis using None by (simp add: speechDetected_def Let_def flip: s1_def)
  next
    case (Some j)
    have j: "j \<noteq> 0" using inv1 Some unfolding vad_inv_def by auto
    have "vad_inv cfg evs' ((vad_clearTimeout j s1)\<lparr>silenceTimerRef := None\<rparr>)"
    proof (rule inv_no_timer)
      show "\<forall>i<length (vad_timers ((vad_clearTimeout j s1)\<lparr>silenceTimerRef := None\<rparr>)).
          \<not> waiting (vad_timers ((vad_clearTimeout j s1)\<lparr>silenceTimerRef := None\<rparr>) ! i)"
        using cleared_none_waiting [OF inv1 Some] by simp
      show "silenceTimerRef ((vad_clearTimeout j s1)\<lparr>silenceTimerRef := None\<rparr>) = None" by simp
      show "isSpeaking ((vad_clearTimeout j s1)\<lparr>silenceTimerRef := None\<rparr>) \<longrightarrow>
          (\<exists>start. speechStartTimeRef ((vad_clearTimeout j s1)\<lparr>silenceTimerRef := None\<rparr>) = Some start
             \<and> 0 < start)"
        using sp by (simp add: vad_clearTimeout_def)
    qed
    then show ?thesis using Some j by (simp add: speechDetected_def Let_def flip: s1_def)
  qed
qed

lemma inv_silenceDetected:
  assumes inv: "vad_inv cfg evs s" and q: "\<not> loud cfg ev" and p: "probeTime ev = Some now"
    and an: "analyserRef s"
  shows "vad_inv cfg (evs @ [ev]) (silenceDetected cfg now s)"
proof (cases "isSpeaking s \<and> \<not> truthyRef (silenceTimerRef s)")
  case False
  then show ?thesis using inv_unchanged [OF inv q] by (auto simp: silenceDetected_def)
next
  case True
  have none: "silenceTimerRef s = None"
  proof (cases "silenceTimerRef s")
    case (Some j)
    then have "0 < j" using inv unfolding vad_inv_def by blast
    then show ?thesis using True Some by (simp add: truthyRef_def)
  qed simp
  have nw: "\<not> waiting (vad_timers s ! i)" if "i < length (vad_timers s)" for i
    using no_ref_no_waiting [OF inv none that] .
  have sp: "\<exists>start. speechStartTimeRef s = Some start \<and> 0 < start"
    using inv True unfolding vad_inv_def by blast
  show ?thesis
    unfolding vad_inv_def
    using True nw sp an quietSince_now [OF q p, of evs]
    by (auto simp: silenceDetected_def nth_append less_Suc_eq)
qed

lemma inv_frame_fields:
  "vad_inv cfg evs (s\<lparr>vad_energy := e\<rparr>) = vad_inv cfg evs s"
  "vad_inv cfg evs (s\<lparr>animationFrameRef := a, frames_requested := n\<rparr>) = vad_inv cfg evs s"
  "vad_inv cfg evs (s\<lparr>animationFrameRef := a\<rparr>) = vad_inv cfg evs s"
  by (simp_all add: vad_inv_def)

lemma analyser_silenceDetected: "analyserRef (silenceDetected cfg now s) = analyserRef s"
  by (simp add: silenceDetected_def)

lemma inv_analyzeAudio:
  assumes inv: "vad_inv cfg evs s" and pos: "0 < now"
    and l: "loud cfg ev = hasSpeech cfg d" and p: "probeTime ev = Some now"
  shows "vad_inv cfg (evs @ [ev]) (analyzeAudio cfg d now s)"
proof (cases "analyserRef s")
  case False
  have "silenceTimerRef s = None"
    using inv False unfolding vad_inv_def by (cases "silenceTimerRef s") auto
  then have "vad_inv cfg (evs @ [ev]) s"
    using inv no_ref_no_waiting [OF inv] unfolding vad_inv_def by simp
  then show ?thesis using False by (simp add: analyzeAudio_def)
next
  case True
  let ?s1 = "s\<lparr>vad_energy := normalizedEnergy d\<rparr>"
  have inv1: "vad_inv cfg evs ?s1" using inv by (simp add: inv_frame_fields)
  show ?thesis
  proof (cases "hasSpeech cfg d")
    case h: True
    show ?thesis
      using inv_speechDetected [OF inv1 pos, of "evs @ [ev]"] True h
      by (simp add: analyzeAudio_def Let_def inv_frame_fields)
  next
    case h: False
    have "vad_inv cfg (evs @ [ev]) (silenceDetected cfg now ?s1)"
      using h l p True by (intro inv_silenceDetected [OF inv1]) simp_all
    then show ?thesis
      using True h by (simp add: analyzeAudio_def Let_def inv_frame_fields)
  qed
qed

lemma inv_timer_fires:
  assumes inv: "vad_inv cfg evs s"
  shows "vad_inv cfg (evs @ [TimerFires i now]) (vad_step cfg s (TimerFires i now))"
proof (cases "due s i now")
  case False
  then show ?thesis using inv_unchanged [OF inv, of "TimerFires i now"] by simp
next
  case True
  then have i: "0 < i" "i \<le> length (vad_timers s)" "waiting (vad_timers s ! (i - 1))"
    by (simp_all add: due_def)
  then have ref: "silenceTimerRef s = Some i"
    using waiting_only_ref [OF inv, of "i - 1"] by simp
  have "vad_inv cfg (evs @ [TimerFires i now]) (silenceElapsed cfg now (vad_clearTimeout i s))"
  proof (rule inv_no_timer)
    show "\<forall>k<length (vad_timers (silenceElapsed cfg now (vad_clearTimeout i s))).
        \<not> waiting (vad_timers (silenceElapsed cfg now (vad_clearTimeout i s)) ! k)"
      using cleared_none_waiting [OF inv ref]
      by (simp add: silenceElapsed_def call_onSpeechEnd_def Let_def)
  qed (simp_all add: silenceElapsed_def call_onSpeechEnd_def Let_def)
  then show ?thesis using True by simp
qed

lemma fields_vad_clearTimeout:
  "silenceTimerRef (vad_clearTimeout j s) = silenceTimerRef s"
  "isSpeaking (vad_clearTimeout j s) = isSpeaking s"
  "speechStartTimeRef (vad_clearTimeout j s) = speechStartTimeRef s"
  "vad_streamRef (vad_clearTimeout j s) = vad_streamRef s"
  "vad_calls (vad_clearTimeout j s) = vad_calls s"
  "length (vad_timers (vad_clearTimeout j s)) = length (vad_timers s)"
  by (simp_all add: vad_clearTimeout_def)

lemma inv_stopListening:
  assumes inv: "vad_inv cfg evs s"
  shows "vad_inv cfg evs' (stopListening s)"
proof -
  let ?s1 = "if truthyRef (animationFrameRef s) then s\<lparr>animationFrameRef := None\<rparr> else s"
  let ?s2 = "case silenceTimerRef ?s1 of
                  None \<Rightarrow> ?s1
                | Some i \<Rightarrow>
                    if i \<noteq> 0 then (vad_clearTimeout i ?s1)\<lparr>silenceTimerRef := None\<rparr> else ?s1"
  have inv1: "vad_inv cfg evs ?s1" using inv by (simp add: inv_frame_fields)
  have s2: "silenceTimerRef ?s2 = None \<and>
      (\<forall>k<length (vad_timers ?s2). \<not> waiting (vad_timers ?s2 ! k))"
  proof (cases "silenceTimerRef ?s1")
    case None
    then show ?thesis using no_ref_no_waiting [OF inv1 None] by simp
  next
    case (Some j)
    have j: "j \<noteq> 0" using inv1 Some unfolding vad_inv_def by auto
    show ?thesis using cleared_none_waiting [OF inv1 Some] Some j by simp
  qed
  have st: "stopListening s =
      (case vad_streamRef ?s2 of None \<Rightarrow> ?s2 | Some tracks \<Rightarrow> ?s2\<lparr>vad_streamRef := None\<rparr>)
        \<lparr>audioContextRef := False, analyserRef := False, isSpeaking := False,
            vad_energy := Some 0, vad_isListening := False\<rparr>"
    by (simp add: stopListening_def Let_def)
  show ?thesis
  proof (rule inv_no_timer)
    show "\<forall>k<length (vad_timers (stopListening s)). \<not> waiting (vad_timers (stopListening s) ! k)"
      unfolding st using s2 by (cases "vad_streamRef ?s2") simp_all
    show "silenceTimerRef (stopListening s) = None"
      unfolding st using s2 by (cases "vad_streamRef ?s2") simp_all
    show "isSpeaking (stopListening s) \<longrightarrow>
        (\<exists>start. speechStartTimeRef (stopListening s) = Some start \<and> 0 < start)"
      unfolding st by simp
  qed
qed

lemma inv_startListening:
  assumes inv: "vad_inv cfg evs s" and pos: "0 < now"
  shows "vad_inv cfg (evs @ [StartListening m d now]) (startListening cfg m d now s)"
proof (cases m)
  case None
  then show ?thesis
    using inv_unchanged [OF inv, of "StartListening None d now"] by (simp add: startListening_def)
next
  case (Some n)
  let ?s1 = "s\<lparr>vad_streamRef := Some (replicate n True), audioContextRef := True,
               analyserRef := True, vad_isListening := True\<rparr>"
  have "vad_inv cfg evs ?s1" using inv unfolding vad_inv_def by simp
  from inv_analyzeAudio [OF this pos, of "StartListening m d now" d]
  show ?thesis using Some by (simp add: startListening_def)
qed

lemma inv_step:
  assumes "vad_inv cfg evs s" and "clockPositive ev"
  shows "vad_inv cfg (evs @ [ev]) (vad_step cfg s ev)"
proof (cases ev)
  case (Frame d now)
  then show ?thesis using assms inv_analyzeAudio [OF assms(1), of now "Frame d now" d] by simp
next
  case (TimerFires i now)
  then show ?thesis using inv_timer_fires [OF assms(1)] by simp
next
  case (StartListening m d now)
  then show ?thesis using assms inv_startListening [OF assms(1)] by simp
next
  case StopListening
  then show ?thesis using inv_stopListening [OF assms(1)] by simp
qed

lemma inv_initial: "vad_inv cfg [] initialVoiceDetection"
  by (simp add: vad_inv_def initialVoiceDetection_def)

lemma inv_run:
  assumes "\<forall>ev\<in>set evs. clockPositive ev"
  shows "vad_inv cfg evs (vad_run cfg initialVoiceDetection evs)"
  using assms
proof (induction evs rule: rev_induct)
  case Nil
  then show ?case by (simp add: vad_run_def inv_initial)
next
  case (snoc ev evs)
  then show ?case using inv_step [of cfg evs "vad_run cfg initialVoiceDetection evs" ev]
    by (simp add: vad_run_def)
qed


lemma ref_speechDetected:
  assumes inv: "vad_inv cfg evs s"
  shows "silenceTimerRef (speechDetected cfg now s) = None"
proof (cases "silenceTimerRef s")
  case None
  then show ?thesis by (simp add: speechDetected_def Let_def call_onSpeechStart_def)
next
  case (Some j)
  then have "j \<noteq> 0" using inv unfolding vad_inv_def by auto
  then show ?thesis using Some
    by (simp add: speechDetected_def Let_def call_onSpeechStart_def)
qed

lemma ref_silenceDetected:
  assumes inv: "vad_inv cfg evs s" and r: "silenceTimerRef (silenceDetected cfg now s) = Some j"
  shows "(silenceTimerRef s = Some j \<and>
            armed_at (vad_timers (silenceDetected cfg now s) ! (j - 1)) = armed_at (vad_timers s ! (j - 1)))
         \<or> (silenceTimerRef s = None \<and> armed_at (vad_timers (silenceDetected cfg now s) ! (j - 1)) = now)"
proof (cases "isSpeaking s \<and> \<not> truthyRef (silenceTimerRef s)")
  case False
  then show ?thesis using r by (auto simp: silenceDetected_def)
next
  case True
  have none: "silenceTimerRef s = None"
  proof (cases "silenceTimerRef s")
    case (Some k)
    then have "0 < k" using inv unfolding vad_inv_def by blast
    then show ?thesis using True Some by (simp add: truthyRef_def)
  qed simp
  then show ?thesis using True r by (auto simp: silenceDetected_def)
qed

lemma ref_analyzeAudio:
  assumes inv: "vad_inv cfg evs s" and r: "silenceTimerRef (analyzeAudio cfg d now s) = Some j"
  shows "\<not> hasSpeech cfg d \<and>
         ((silenceTimerRef s = Some j \<and>
            armed_at (vad_timers (analyzeAudio cfg d now s) ! (j - 1)) = armed_at (vad_timers s ! (j - 1)))
          \<or> (silenceTimerRef s = None \<and> armed_at (vad_timers (analyzeAudio cfg d now s) ! (j - 1)) = now))"
proof (cases "analyserRef s")
  case False
  then have "silenceTimerRef s = Some j" using r by (simp add: analyzeAudio_def)
  then have "analyserRef s" using inv unfolding vad_inv_def by blast
  with False show ?thesis by simp
next
  case True
  let ?s1 = "s\<lparr>vad_energy := normalizedEnergy d\<rparr>"
  have inv1: "vad_inv cfg evs ?s1" using inv by (simp add: inv_frame_fields)
  show ?thesis
  proof (cases "hasSpeech cfg d")
    case h: True
    then have "silenceTimerRef (analyzeAudio cfg d now s) = None"
      using True ref_speechDetected [OF inv1, of now] by (simp add: analyzeAudio_def Let_def)
    with r show ?thesis by simp
  next
    case h: False
    have r1: "silenceTimerRef (silenceDetected cfg now ?s1) = Some j"
      using r True h by (simp add: analyzeAudio_def Let_def)
    from ref_silenceDetected [OF inv1 r1] show ?thesis
      using True h by (simp add: analyzeAudio_def Let_def)
  qed
qed

lemma ref_after_step:
  assumes inv: "vad_inv cfg evs s" and r: "silenceTimerRef (vad_step cfg s ev) = Some j"
  shows "\<not> loud cfg ev \<and>
         ((silenceTimerRef s = Some j \<and>
            armed_at (vad_timers (vad_step cfg s ev) ! (j - 1)) = armed_at (vad_timers s ! (j - 1)))
          \<or> (silenceTimerRef s = None \<and>
              probeTime ev = Some (armed_at (vad_timers (vad_step cfg s ev) ! (j - 1)))))"
proof (cases ev)
  case (Frame d now)
  then show ?thesis using ref_analyzeAudio [OF inv, of d now j] r by auto
next
  case (TimerFires i now)
  show ?thesis
  proof (cases "due s i now")
    case True
    then have "silenceTimerRef (vad_step cfg s ev) = None"
      using TimerFires by (simp add: silenceElapsed_def Let_def call_onSpeechEnd_def)
    with r show ?thesis by simp
  next
    case False
    then show ?thesis using r TimerFires by simp
  qed
next
  case (StartListening m d now)
  show ?thesis
  proof (cases m)
    case None
    then show ?thesis using r StartListening by (simp add: startListening_def)
  next
    case (Some n)
    let ?s1 = "s\<lparr>vad_streamRef := Some (replicate n True), audioContextRef := True,
               analyserRef := True, vad_isListening := True\<rparr>"
    have inv1: "vad_inv cfg evs ?s1" using inv unfolding vad_inv_def by simp
    have r1: "silenceTimerRef (analyzeAudio cfg d now ?s1) = Some j"
      using r StartListening Some by (simp add: startListening_def)
    from ref_analyzeAudio [OF inv1 r1] show ?thesis
      using StartListening Some by (auto simp: startListening_def)
  qed
next
  case StopListening
  have "vad_inv cfg evs (stopListening s)" using inv by (rule inv_stopListening)
  moreover have "silenceTimerRef (stopListening s) = Some j" using r StopListening by simp
  ultimately have "isSpeaking (stopListening s)" unfolding vad_inv_def by blast
  moreover have "\<not> isSpeaking (stopListening s)"
    by (simp add: stopListening_def Let_def split: option.split)
  ultimately show ?thesis by simp
qed

lemma run_snoc: "vad_run cfg s (evs @ [ev]) = vad_step cfg (vad_run cfg s evs) ev"
  by (simp add: vad_run_def)

lemma window_run:
  assumes clocks: "\<forall>ev\<in>set evs. clockPositive ev"
    and r: "silenceTimerRef (vad_run cfg initialVoiceDetection evs) = Some j"
  shows "quietWindow cfg evs (armed_at (vad_timers (vad_run cfg initialVoiceDetection evs) ! (j - 1)))"
  using assms
proof (induction evs arbitrary: j rule: rev_induct)
  case Nil
  then show ?case by (simp add: vad_run_def initialVoiceDetection_def)
next
  case (snoc ev evs)
  let ?s = "vad_run cfg initialVoiceDetection evs"
  let ?s' = "vad_step cfg ?s ev"
  have clocks: "\<forall>e\<in>set evs. clockPositive e" and cev: "clockPositive ev"
    using snoc.prems(1) by simp_all
  have inv: "vad_inv cfg evs ?s" using clocks by (rule inv_run)
  have inv': "vad_inv cfg (evs @ [ev]) ?s'" using inv cev by (rule inv_step)
  have r': "silenceTimerRef ?s' = Some j" using snoc.prems(2) by (simp add: run_snoc)
  have sp': "isSpeaking ?s'" using inv' r' unfolding vad_inv_def by blast
  from ref_after_step [OF inv r'] have q: "\<not> loud cfg ev" and
    alt: "(silenceTimerRef ?s = Some j \<and>
            armed_at (vad_timers ?s' ! (j - 1)) = armed_at (vad_timers ?s ! (j - 1)))
          \<or> (silenceTimerRef ?s = None \<and> probeTime ev = Some (armed_at (vad_timers ?s' ! (j - 1))))"
    by blast+
  from alt show ?case
  proof
    assume old: "silenceTimerRef ?s = Some j \<and>
            armed_at (vad_timers ?s' ! (j - 1)) = armed_at (vad_timers ?s ! (j - 1))"
    then have "quietWindow cfg evs (armed_at (vad_timers ?s ! (j - 1)))"
      using snoc.IH [OF clocks] by blast
    then obtain a e0 b where w: "evs = a @ e0 # b" "\<not> loud cfg e0"
      "probeTime e0 = Some (armed_at (vad_timers ?s ! (j - 1)))" "\<forall>e\<in>set b. \<not> loud cfg e"
      "\<forall>n\<le>length b. isSpeaking (vad_run cfg initialVoiceDetection (a @ e0 # take n b))"
      unfolding quietWindow_def by blast
    have "isSpeaking (vad_run cfg initialVoiceDetection (a @ e0 # take n (b @ [ev])))"
      if "n \<le> length (b @ [ev])" for n
    proof (cases "n \<le> length b")
      case True
      then show ?thesis using w(5) by simp
    next
      case False
      then have "take n (b @ [ev]) = b @ [ev]" using that by simp
      then have "a @ e0 # take n (b @ [ev]) = evs @ [ev]" using w(1) by simp
      then show ?thesis using sp' by (simp add: run_snoc)
    qed
    then show ?thesis
      unfolding quietWindow_def run_snoc
      using w old q
      by (intro exI [of _ a] exI [of _ e0] exI [of _ "b @ [ev]"]) simp
  next
    assume new: "silenceTimerRef ?s = None \<and> probeTime ev = Some (armed_at (vad_timers ?s' ! (j - 1)))"
    show ?thesis
      unfolding quietWindow_def run_snoc
      using new q sp'
      by (intro exI [of _ evs] exI [of _ ev] exI [of _ "[]"]) (simp add: run_snoc)
  qed
qed


lemma speechEnds_fields:
  "speechEnds (s\<lparr>vad_energy := e\<rparr>) = speechEnds s"
  "speechEnds (s\<lparr>animationFrameRef := a, frames_requested := n\<rparr>) = speechEnds s"
  "speechEnds (vad_clearTimeout j s) = speechEnds s"
  "speechEnds (s\<lparr>silenceTimerRef := r\<rparr>) = speechEnds s"
  by (simp_all add: speechEnds_def vad_clearTimeout_def)

lemma speechEnds_speechDetected: "speechEnds (speechDetected cfg now s) = speechEnds s"
  by (simp add: speechDetected_def Let_def call_onSpeechStart_def speechEnds_def vad_clearTimeout_def
      split: option.split)

lemma speechEnds_silenceDetected: "speechEnds (silenceDetected cfg now s) = speechEnds s"
  by (simp add: silenceDetected_def speechEnds_def)

lemma speechEnds_analyzeAudio: "speechEnds (analyzeAudio cfg d now s) = speechEnds s"
  by (simp add: analyzeAudio_def Let_def speechEnds_fields speechEnds_speechDetected
      speechEnds_silenceDetected)

lemma speechEnds_startListening: "speechEnds (startListening cfg m d now s) = speechEnds s"
  by (simp add: startListening_def speechEnds_analyzeAudio split: option.split)
     (simp add: speechEnds_def)

lemma speechEnds_stopListening: "speechEnds (stopListening s) = speechEnds s"
  by (simp add: stopListening_def Let_def speechEnds_def vad_clearTimeout_def split: option.split)

lemma speechEnds_step:
  assumes "\<forall>i now. ev = TimerFires i now \<longrightarrow> \<not> due s i now"
  shows "speechEnds (vad_step cfg s ev) = speechEnds s"
  using assms
  by (cases ev) (simp_all add: speechEnds_analyzeAudio speechEnds_startListening
      speechEnds_stopListening)

lemma speechEnds_silenceElapsed:
  "speechEnds (silenceElapsed cfg now s) =
     speechEnds s @
       (if has_onSpeechEnd cfg
        then [case speechStartTimeRef s of None \<Rightarrow> 0
              | Some t \<Rightarrow> if t \<noteq> 0 then int now - int t else 0]
        else [])"
  by (simp add: silenceElapsed_def Let_def call_onSpeechEnd_def speechEnds_def)

lemma fires:
  assumes clocks: "\<forall>ev\<in>set evs. clockPositive ev"
    and d: "due (vad_run cfg initialVoiceDetection evs) i now"
  shows "\<exists>start t. speechStartTimeRef (vad_run cfg initialVoiceDetection evs) = Some start
      \<and> quietWindow cfg evs t \<and> t + silenceDuration cfg \<le> now
      \<and> speechEnds (vad_run cfg initialVoiceDetection (evs @ [TimerFires i now])) =
          speechEnds (vad_run cfg initialVoiceDetection evs) @
            (if has_onSpeechEnd cfg then [int now - int start] else [])
      \<and> \<not> isSpeaking (vad_run cfg initialVoiceDetection (evs @ [TimerFires i now]))"
proof -
  let ?s = "vad_run cfg initialVoiceDetection evs"
  have inv: "vad_inv cfg evs ?s" using clocks by (rule inv_run)
  from d have i: "0 < i" "i \<le> length (vad_timers ?s)" "waiting (vad_timers ?s ! (i - 1))"
    and t: "armed_at (vad_timers ?s ! (i - 1)) + timeout (vad_timers ?s ! (i - 1)) \<le> now"
    by (simp_all add: due_def)
  have ref: "silenceTimerRef ?s = Some i"
    using waiting_only_ref [OF inv, of "i - 1"] i by simp
  from inv ref have sp: "isSpeaking ?s"
    and to: "timeout (vad_timers ?s ! (i - 1)) = silenceDuration cfg"
    unfolding vad_inv_def by blast+
  from inv sp obtain start where st: "speechStartTimeRef ?s = Some start" "0 < start"
    unfolding vad_inv_def by blast
  have w: "quietWindow cfg evs (armed_at (vad_timers ?s ! (i - 1)))"
    using window_run [OF clocks ref] .
  have e: "speechEnds (vad_run cfg initialVoiceDetection (evs @ [TimerFires i now])) =
          speechEnds ?s @ (if has_onSpeechEnd cfg then [int now - int start] else [])"
    using d st
    by (simp add: run_snoc speechEnds_silenceElapsed fields_vad_clearTimeout speechEnds_fields)
  have n: "\<not> isSpeaking (vad_run cfg initialVoiceDetection (evs @ [TimerFires i now]))"
    using d by (simp add: run_snoc silenceElapsed_def Let_def call_onSpeechEnd_def)
  show ?thesis using st(1) w t to e n by auto
qed

lemma loud_cancels:
  assumes clocks: "\<forall>ev\<in>set evs. clockPositive ev"
    and a: "analyserRef (vad_run cfg initialVoiceDetection evs)" and h: "hasSpeech cfg d"
    and pos: "0 < t"
  shows "\<not> due (vad_run cfg initialVoiceDetection (evs @ [Frame d t])) i now"
    and "vad_run cfg initialVoiceDetection (evs @ [Frame d t, TimerFires i now]) =
         vad_run cfg initialVoiceDetection (evs @ [Frame d t])"
proof -
  let ?s = "vad_run cfg initialVoiceDetection evs"
  let ?s' = "vad_run cfg initialVoiceDetection (evs @ [Frame d t])"
  have inv: "vad_inv cfg evs ?s" using clocks by (rule inv_run)
  have inv': "vad_inv cfg (evs @ [Frame d t]) ?s'"
    using inv_step [OF inv, of "Frame d t"] pos by (simp add: run_snoc)
  have "vad_inv cfg evs (?s\<lparr>vad_energy := normalizedEnergy d\<rparr>)"
    using inv by (simp add: inv_frame_fields)
  then have "silenceTimerRef ?s' = None"
    using a h ref_speechDetected [of cfg evs "?s\<lparr>vad_energy := normalizedEnergy d\<rparr>" t]
    by (simp add: run_snoc analyzeAudio_def Let_def)
  then have nw: "\<not> waiting (vad_timers ?s' ! k)" if "k < length (vad_timers ?s')" for k
    using no_ref_no_waiting [OF inv' _ that] by simp
  show nd: "\<not> due ?s' i now"
  proof
    assume "due ?s' i now"
    then have "0 < i" "i \<le> length (vad_timers ?s')" "waiting (vad_timers ?s' ! (i - 1))"
      by (simp_all add: due_def)
    moreover from this have "i - 1 < length (vad_timers ?s')" by arith
    ultimately show False using nw by blast
  qed
  have "evs @ [Frame d t, TimerFires i now] = (evs @ [Frame d t]) @ [TimerFires i now]" by simp
  then show "vad_run cfg initialVoiceDetection (evs @ [Frame d t, TimerFires i now]) = ?s'"
    using nd by (simp only: run_snoc) simp
qed

text \<open>
  Claim C3. In every history of a freshly mounted hook (with positive clock readings):
  \<^item> when the silence timer fires, the speech-end callback receives the clock reading
    minus the recorded start of the speech, the hook leaves the speaking state, and the
    history holds a quiet window: a reading at or below the threshold at some clock
    \<open>t\<close> with \<open>t + silenceDuration \<le> now\<close>, after which no reading was above the
    threshold and the hook was in the speaking state throughout;
  \<^item> no other event produces a speech-end callback;
  \<^item> a reading above the threshold leaves no timer that can fire: whenever the timer of
    the silence before it would have come due, nothing happens.
\<close>

theorem speech_end_debounced:
  assumes "\<forall>ev\<in>set evs. clockPositive ev"
  shows
    "(due (vad_run cfg initialVoiceDetection evs) i now \<longrightarrow>
        (\<exists>start t. speechStartTimeRef (vad_run cfg initialVoiceDetection evs) = Some start
           \<and> quietWindow cfg evs t \<and> t + silenceDuration cfg \<le> now
           \<and> speechEnds (vad_run cfg initialVoiceDetection (evs @ [TimerFires i now])) =
               speechEnds (vad_run cfg initialVoiceDetection evs) @
                 (if has_onSpeechEnd cfg then [int now - int start] else [])
           \<and> \<not> isSpeaking (vad_run cfg initialVoiceDetection (evs @ [TimerFires i now])))) \<and>
     ((\<forall>k clock. ev = TimerFires k clock \<longrightarrow> \<not> due (vad_run cfg initialVoiceDetection evs) k clock) \<longrightarrow>
        speechEnds (vad_run cfg initialVoiceDetection (evs @ [ev])) =
          speechEnds (vad_run cfg initialVoiceDetection evs)) \<and>
     (analyserRef (vad_run cfg initialVoiceDetection evs) \<and> hasSpeech cfg d \<and> 0 < t \<longrightarrow>
        \<not> due (vad_run cfg initialVoiceDetection (evs @ [Frame d t])) i now \<and>
        vad_run cfg initialVoiceDetection (evs @ [Frame d t, TimerFires i now]) =
          vad_run cfg initialVoiceDetection (evs @ [Frame d t]))"
  using fires [OF assms, of cfg i now] speechEnds_step [of ev "vad_run cfg initialVoiceDetection evs" cfg]
    loud_cancels [OF assms, of cfg d t i now]
  by (simp add: run_snoc)


lemmas vad_defs = vad_run_def startListening_def analyzeAudio_def hasSpeech_def normalizedEnergy_def
  speechDetected_def silenceDetected_def call_onSpeechStart_def call_onSpeechEnd_def
  vad_clearTimeout_def silenceElapsed_def truthyRef_def defaultVoiceDetectionConfig_def
  initialVoiceDetection_def due_def Let_def

theorem speech_end_debounced_witness:
  "due (vad_run defaultVoiceDetectionConfig initialVoiceDetection
          [StartListening (Some 1) [255] 1000, Frame [0] 2000, Frame [0] 3000]) 1 4500 \<and>
   speechEnds (vad_run defaultVoiceDetectionConfig initialVoiceDetection
     ([StartListening (Some 1) [255] 1000, Frame [0] 2000, Frame [0] 3000] @ [TimerFires 1 4500]))
     = [3500] \<and>
   (\<exists>t. quietWindow defaultVoiceDetectionConfig
          [StartListening (Some 1) [255] 1000, Frame [0] 2000, Frame [0] 3000] t
        \<and> t + 2500 \<le> 4500) \<and>
   vad_run defaultVoiceDetectionConfig initialVoiceDetection
     ([StartListening (Some 1) [255] 1000, Frame [0] 2000, Frame [0] 3000]
        @ [Frame [255] 4000, TimerFires 1 4500])
     = vad_run defaultVoiceDetectionConfig initialVoiceDetection
         ([StartListening (Some 1) [255] 1000, Frame [0] 2000, Frame [0] 3000] @ [Frame [255] 4000])"
proof -
  let ?cfg = defaultVoiceDetectionConfig
  let ?evs = "[StartListening (Some 1) [255] 1000, Frame [0] 2000, Frame [0] 3000]"
  let ?s = "vad_run ?cfg initialVoiceDetection ?evs"
  have clocks: "\<forall>ev\<in>set ?evs. clockPositive ev" by simp
  have d: "due ?s 1 4500" by (simp add: vad_defs)
  have start: "speechStartTimeRef ?s = Some 1000" by (simp add: vad_defs)
  have none: "speechEnds ?s = []" by (simp add: vad_defs speechEnds_def)
  have loud: "analyserRef ?s \<and> hasSpeech ?cfg [255] \<and> (0::nat) < 4000" by (simp add: vad_defs)
  have sil: "silenceDuration ?cfg = 2500" and cb: "has_onSpeechEnd ?cfg"
    by (simp_all add: defaultVoiceDetectionConfig_def)
  note th = speech_end_debounced [OF clocks, of ?cfg 1 4500 "Frame [0] 1" "[255]" 4000]
  from th d obtain st t where f: "speechStartTimeRef ?s = Some st"
    "quietWindow ?cfg ?evs t" "t + silenceDuration ?cfg \<le> 4500"
    "speechEnds (vad_run ?cfg initialVoiceDetection (?evs @ [TimerFires 1 4500])) =
       speechEnds ?s @ (if has_onSpeechEnd ?cfg then [int 4500 - int st] else [])"
    by blast
  from f(1) start have "st = 1000" by simp
  with f(4) none cb
  have "speechEnds (vad_run ?cfg initialVoiceDetection (?evs @ [TimerFires 1 4500])) = [3500]"
    by simp
  moreover from f(2,3) sil have "\<exists>t. quietWindow ?cfg ?evs t \<and> t + 2500 \<le> 4500" by auto
  moreover from th loud
  have "vad_run ?cfg initialVoiceDetection (?evs @ [Frame [255] 4000, TimerFires 1 4500])
     = vad_run ?cfg initialVoiceDetection (?evs @ [Frame [255] 4000])"
    by blast
  ultimately show ?thesis using d by blast
qed

end
